theory Spec2Isabelle
  imports Complex_Main "HOL-Library.AList" "HOL-Library.Sublist"
begin

section \<open>Characters and strings\<close>

text \<open>
  JavaScript strings are modelled as \<^typ>\<open>string\<close>, one \<^typ>\<open>char\<close> per code unit.
  The character classes below are the ones the regular expressions of the sources use
  without the \<open>u\<close> flag: \<open>\d\<close> is \<open>[0-9]\<close>, \<open>\w\<close> is \<open>[A-Za-z0-9_]\<close>, and
  \<open>\s\<close> is, among the code units below 256, tab, line feed, vertical tab, form feed,
  carriage return, space and the no-break space.
\<close>

definition backslash :: char where
  "backslash = CHR 0x5C"

definition isDigit :: "char \<Rightarrow> bool" where
  "isDigit c = (c \<in> set ''0123456789'')"

definition lowerLetters :: string where
  "lowerLetters = ''abcdefghijklmnopqrstuvwxyz''"

definition upperLetters :: string where
  "upperLetters = ''ABCDEFGHIJKLMNOPQRSTUVWXYZ''"

definition isLowerAlpha :: "char \<Rightarrow> bool" where
  "isLowerAlpha c = (c \<in> set lowerLetters)"

definition isUpperAlpha :: "char \<Rightarrow> bool" where
  "isUpperAlpha c = (c \<in> set upperLetters)"

definition isWordChar :: "char \<Rightarrow> bool" where
  "isWordChar c = (isLowerAlpha c \<or> isUpperAlpha c \<or> isDigit c \<or> c = CHR ''_'')"

definition isSpace :: "char \<Rightarrow> bool" where
  "isSpace c = (c \<in> set [CHR 0x09, CHR 0x0A, CHR 0x0B, CHR 0x0C, CHR 0x0D, CHR 0x20, CHR 0xA0])"

text \<open>\<open>String.prototype.toLowerCase\<close> on the letters \<open>A\<close> to \<open>Z\<close>; every other
  character modelled here is left as it is.\<close>

definition toLowerChar :: "char \<Rightarrow> char" where
  "toLowerChar c = (case map_of (zip upperLetters lowerLetters) c of Some d \<Rightarrow> d | None \<Rightarrow> c)"

definition toLowerCase :: "string \<Rightarrow> string" where
  "toLowerCase s = map toLowerChar s"

text \<open>\<open>String.prototype.trim\<close>.\<close>

definition trim :: "string \<Rightarrow> string" where
  "trim s = rev (dropWhile isSpace (rev (dropWhile isSpace s)))"

text \<open>\<open>s.replace(/\s+/g, "")\<close>.\<close>

definition stripSpaces :: "string \<Rightarrow> string" where
  "stripSpaces s = filter (\<lambda>c. \<not> isSpace c) s"

text \<open>\<open>hay.includes(needle)\<close> and \<open>s.startsWith(p)\<close>.\<close>

fun startsWith :: "string \<Rightarrow> string \<Rightarrow> bool" where
  "startsWith s [] = True"
| "startsWith [] (p # ps) = False"
| "startsWith (c # cs) (p # ps) = (c = p \<and> startsWith cs ps)"

fun strIncludes :: "string \<Rightarrow> string \<Rightarrow> bool" where
  "strIncludes [] needle = (needle = [])"
| "strIncludes (c # cs) needle = (startsWith (c # cs) needle \<or> strIncludes cs needle)"


section \<open>Regular expressions\<close>

text \<open>
  The sources decide most of their branches with regular expressions. They are embedded
  as syntax trees with a backtracking matcher. A match attempt at a position returns
  every way the expression can match there, in the priority order of a backtracking
  engine (a greedy star tries one more iteration first, a lazy star tries to stop
  first, an alternative tries its left branch first), so the head of the list is the
  match JavaScript reports. A position is the character before it (\<open>None\<close> at the start
  of the input) and the rest of the input; a result is the last character consumed
  (\<open>None\<close> when nothing was consumed) and the input left.
\<close>

datatype rx =
    Chr char
  | Cls "char \<Rightarrow> bool"
  | Eps
  | Seq rx rx
  | Alt rx rx
  | Star rx
  | LStar rx
  | Bol
  | Eol
  | WordB

definition isLineTerminator :: "char \<Rightarrow> bool" where
  "isLineTerminator c = (c = CHR 0x0A \<or> c = CHR 0x0D)"

definition toUpperChar :: "char \<Rightarrow> char" where
  "toUpperChar c = (case map_of (zip lowerLetters upperLetters) c of Some d \<Rightarrow> d | None \<Rightarrow> c)"

text \<open>With the \<open>i\<close> flag a character matches when the two agree up to case.\<close>

definition chrMatches :: "bool \<Rightarrow> char \<Rightarrow> char \<Rightarrow> bool" where
  "chrMatches ci c d = (if ci then toLowerChar c = toLowerChar d else c = d)"

definition clsMatches :: "bool \<Rightarrow> (char \<Rightarrow> bool) \<Rightarrow> char \<Rightarrow> bool" where
  "clsMatches ci p d = (if ci then p d \<or> p (toLowerChar d) \<or> p (toUpperChar d) else p d)"

definition orElse :: "'a option \<Rightarrow> 'a option \<Rightarrow> 'a option" where
  "orElse a b = (case a of None \<Rightarrow> b | Some x \<Rightarrow> Some x)"

definition isWordAt :: "char option \<Rightarrow> bool" where
  "isWordAt c = (case c of None \<Rightarrow> False | Some x \<Rightarrow> isWordChar x)"

definition nextChar :: "string \<Rightarrow> char option" where
  "nextChar s = (case s of [] \<Rightarrow> None | c # _ \<Rightarrow> Some c)"

definition lineBreakAt :: "char option \<Rightarrow> bool" where
  "lineBreakAt c = (case c of None \<Rightarrow> False | Some x \<Rightarrow> isLineTerminator x)"

type_synonym rxResult = "char option \<times> string"

text \<open>Continue each result of a first match with a second matcher.\<close>

definition thenMatch ::
  "(char option \<Rightarrow> string \<Rightarrow> rxResult list) \<Rightarrow> char option \<Rightarrow> rxResult list \<Rightarrow> rxResult list" where
  "thenMatch g prev rs =
     concat (map (\<lambda>(lc, r1). map (\<lambda>(lc2, r2). (orElse lc2 lc, r2)) (g (orElse lc prev) r1)) rs)"

text \<open>
  Iteration of a starred expression. An iteration that consumes nothing is dropped, as
  in ECMAScript, so at most \<open>length rest\<close> iterations can follow one another and the
  fuel \<open>length rest\<close> is never exhausted.
\<close>

primrec starIter ::
  "bool \<Rightarrow> nat \<Rightarrow> (char option \<Rightarrow> string \<Rightarrow> rxResult list) \<Rightarrow> char option \<Rightarrow> string \<Rightarrow> rxResult list" where
  "starIter greedy 0 f prev rest = [(None, rest)]"
| "starIter greedy (Suc k) f prev rest =
     (let more = thenMatch (starIter greedy k f) prev
                   (filter (\<lambda>(lc, r1). length r1 < length rest) (f prev rest))
      in if greedy then more @ [(None, rest)] else (None, rest) # more)"

primrec rxm :: "rx \<Rightarrow> bool \<Rightarrow> bool \<Rightarrow> char option \<Rightarrow> string \<Rightarrow> rxResult list" where
  "rxm (Chr c) ci ml prev rest =
     (case rest of [] \<Rightarrow> [] | d # ds \<Rightarrow> if chrMatches ci c d then [(Some d, ds)] else [])"
| "rxm (Cls p) ci ml prev rest =
     (case rest of [] \<Rightarrow> [] | d # ds \<Rightarrow> if clsMatches ci p d then [(Some d, ds)] else [])"
| "rxm Eps ci ml prev rest = [(None, rest)]"
| "rxm (Seq a b) ci ml prev rest = thenMatch (rxm b ci ml) prev (rxm a ci ml prev rest)"
| "rxm (Alt a b) ci ml prev rest = rxm a ci ml prev rest @ rxm b ci ml prev rest"
| "rxm (Star r) ci ml prev rest = starIter True (length rest) (rxm r ci ml) prev rest"
| "rxm (LStar r) ci ml prev rest = starIter False (length rest) (rxm r ci ml) prev rest"
| "rxm Bol ci ml prev rest =
     (if prev = None \<or> (ml \<and> lineBreakAt prev) then [(None, rest)] else [])"
| "rxm Eol ci ml prev rest =
     (if rest = [] \<or> (ml \<and> lineBreakAt (nextChar rest)) then [(None, rest)] else [])"
| "rxm WordB ci ml prev rest =
     (if isWordAt prev \<noteq> isWordAt (nextChar rest) then [(None, rest)] else [])"

text \<open>\<open>regex.test(s)\<close> for a regular expression without the \<open>g\<close> flag: is there a
  position where it matches.\<close>

fun rxTestFrom :: "rx \<Rightarrow> bool \<Rightarrow> bool \<Rightarrow> char option \<Rightarrow> string \<Rightarrow> bool" where
  "rxTestFrom r ci ml prev [] = (rxm r ci ml prev [] \<noteq> [])"
| "rxTestFrom r ci ml prev (c # cs) =
     (rxm r ci ml prev (c # cs) \<noteq> [] \<or> rxTestFrom r ci ml (Some c) cs)"

definition rxTest :: "rx \<Rightarrow> bool \<Rightarrow> bool \<Rightarrow> string \<Rightarrow> bool" where
  "rxTest r ci ml s = rxTestFrom r ci ml None s"

text \<open>
  The matches of a global search (\<open>s.match(/re/g)\<close>, the \<open>exec\<close> loop, \<open>replace\<close> with
  \<open>g\<close>): the leftmost match, then the search goes on where it ended, one character
  further after an empty match. The result lists the text between matches and the
  matched texts in turn: \<open>Inl\<close> a skipped piece, \<open>Inr\<close> a match.
\<close>

function rxScan ::
  "rx \<Rightarrow> bool \<Rightarrow> bool \<Rightarrow> char option \<Rightarrow> string \<Rightarrow> string \<Rightarrow> (string + string) list" where
  "rxScan r ci ml prev skipped rest =
     (case rxm r ci ml prev rest of
        [] \<Rightarrow>
          (case rest of
             [] \<Rightarrow> [Inl (rev skipped)]
           | c # cs \<Rightarrow> rxScan r ci ml (Some c) (c # skipped) cs)
      | (lc, rest') # _ \<Rightarrow>
          if length rest' < length rest
          then Inl (rev skipped) # Inr (take (length rest - length rest') rest)
                 # rxScan r ci ml (orElse lc prev) [] rest'
          else
            (case rest of
               [] \<Rightarrow> [Inl (rev skipped), Inr []]
             | c # cs \<Rightarrow> Inl (rev skipped) # Inr [] # rxScan r ci ml (Some c) [c] cs))"
  by pat_completeness auto
termination
  by (relation "measure (\<lambda>(r, ci, ml, prev, skipped, rest). length rest)") auto

declare rxScan.simps [simp del]

definition rxMatchAll :: "rx \<Rightarrow> bool \<Rightarrow> bool \<Rightarrow> string \<Rightarrow> string list" where
  "rxMatchAll r ci ml s = concat (map (\<lambda>x. case x of Inl _ \<Rightarrow> [] | Inr m \<Rightarrow> [m]) (rxScan r ci ml None [] s))"

text \<open>\<open>s.replace(/re/g, f)\<close>, with the replacement computed from the matched text.\<close>

definition rxReplaceAll :: "rx \<Rightarrow> bool \<Rightarrow> bool \<Rightarrow> (string \<Rightarrow> string) \<Rightarrow> string \<Rightarrow> string" where
  "rxReplaceAll r ci ml f s =
     concat (map (\<lambda>x. case x of Inl t \<Rightarrow> t | Inr m \<Rightarrow> f m) (rxScan r ci ml None [] s))"

text \<open>Abbreviations for the usual forms.\<close>

definition Plus :: "rx \<Rightarrow> rx" where
  "Plus r = Seq r (Star r)"

definition LPlus :: "rx \<Rightarrow> rx" where
  "LPlus r = Seq r (LStar r)"

definition Opt :: "rx \<Rightarrow> rx" where
  "Opt r = Alt r Eps"

primrec Str :: "string \<Rightarrow> rx" where
  "Str [] = Eps"
| "Str (c # cs) = Seq (Chr c) (Str cs)"

primrec Seqs :: "rx list \<Rightarrow> rx" where
  "Seqs [] = Eps"
| "Seqs (r # rs) = Seq r (Seqs rs)"

fun Alts :: "rx list \<Rightarrow> rx" where
  "Alts [] = Cls (\<lambda>c. False)"
| "Alts [r] = r"
| "Alts (r # rs) = Alt r (Alts rs)"

definition Words :: "string list \<Rightarrow> rx" where
  "Words ws = Alts (map Str ws)"

definition Dot :: rx where
  "Dot = Cls (\<lambda>c. \<not> isLineTerminator c)"

definition Digit :: rx where
  "Digit = Cls isDigit"

definition Space :: rx where
  "Space = Cls isSpace"

definition WordC :: rx where
  "WordC = Cls isWordChar"

definition AnyChar :: rx where
  "AnyChar = Cls (\<lambda>c. True)"

definition OneOf :: "string \<Rightarrow> rx" where
  "OneOf cs = Cls (\<lambda>c. c \<in> set cs)"

text \<open>Expressions without the anchor \<open>^\<close>.\<close>

primrec bolFree :: "rx \<Rightarrow> bool" where
  "bolFree (Chr c) = True"
| "bolFree (Cls p) = True"
| "bolFree Eps = True"
| "bolFree (Seq a b) = (bolFree a \<and> bolFree b)"
| "bolFree (Alt a b) = (bolFree a \<and> bolFree b)"
| "bolFree (Star r) = bolFree r"
| "bolFree (LStar r) = bolFree r"
| "bolFree Bol = False"
| "bolFree Eol = True"
| "bolFree WordB = True"

definition isMatch :: "string + string \<Rightarrow> bool" where
  "isMatch x = (case x of Inl t \<Rightarrow> False | Inr m \<Rightarrow> True)"

section \<open>The file-backed memory store (\<open>src/unnamed/part_000\<close>)\<close>

definition MAX_ENTRIES :: nat where
  "MAX_ENTRIES = 500"

definition MIN_SCORE :: rat where
  "MIN_SCORE = 2"

definition STOP_WORDS :: "string list" where
  "STOP_WORDS =
    [''a'', ''an'', ''and'', ''are'', ''as'', ''at'', ''be'', ''by'', ''for'', ''from'', ''has'',
     ''have'', ''how'', ''i'', ''if'', ''in'', ''is'', ''it'', ''of'', ''on'', ''or'', ''that'',
     ''the'', ''this'', ''to'', ''was'', ''we'', ''what'', ''when'', ''where'', ''who'',
     ''why'', ''will'', ''with'', ''you'', ''your'']"

definition normalize :: "string \<Rightarrow> string" where
  "normalize text = toLowerCase text"

text \<open>
  The character class of \<open>tokenize\<close> is written \<open>/[^a-z0-9\\s]/g\<close> in the source. Inside
  a regular-expression literal \<open>\\\<close> is an escaped backslash, so the class keeps the
  lower-case letters, the digits, the backslash and the letter \<open>s\<close>; every other
  character, white space included, is replaced by a space.
\<close>

definition keepTokenChar :: "char \<Rightarrow> bool" where
  "keepTokenChar c = (isLowerAlpha c \<or> isDigit c \<or> c = backslash \<or> c = CHR ''s'')"

definition cleanText :: "string \<Rightarrow> string" where
  "cleanText text = map (\<lambda>c. if keepTokenChar c then c else CHR '' '') (normalize text)"

text \<open>
  \<open>clean.split(/\\s+/)\<close>: the separator is a backslash followed by one or more letters
  \<open>s\<close> (greedy). \<open>cur\<close> holds the current piece, reversed. As in JavaScript the last
  piece is always returned, empty or not.
\<close>

function splitBackslashS :: "string \<Rightarrow> string \<Rightarrow> string list" where
  "splitBackslashS cur [] = [rev cur]"
| "splitBackslashS cur (c # cs) =
     (if c = backslash \<and> startsWith cs ''s''
      then rev cur # splitBackslashS [] (dropWhile (\<lambda>x. x = CHR ''s'') cs)
      else splitBackslashS (c # cur) cs)"
  by pat_completeness auto
termination
  by (relation "measure (\<lambda>(cur, s). length s)")
     (auto simp: le_imp_less_Suc length_dropWhile_le)

definition tokenize :: "string \<Rightarrow> string list" where
  "tokenize text = filter (\<lambda>w. w \<noteq> []) (splitBackslashS [] (cleanText text))"

text \<open>\<open>Array.from(new Set(xs))\<close>: the first occurrence of every element, in order.\<close>

definition uniqueInOrder :: "'a list \<Rightarrow> 'a list" where
  "uniqueInOrder xs = rev (remdups (rev xs))"

definition extractKeywords :: "string \<Rightarrow> string list" where
  "extractKeywords text =
     take 40 (uniqueInOrder
       (filter (\<lambda>w. 3 \<le> length w \<and> w \<notin> set STOP_WORDS) (tokenize text)))"

record memEntry =
  entryId :: string
  entryPrompt :: string
  entryResponse :: string
  entryKeywords :: "string list"
  entryEmbedding :: "rat list option"
  metaUserId :: "string option"
  metaTeamId :: "string option"
  createdAt :: string
  expiresAt :: "string option"

text \<open>
  \<open>isExpired\<close>. \<open>Date.parse\<close> and \<open>Date.now\<close> belong to the host: \<open>parse\<close> gives the
  time in milliseconds, \<open>None\<close> for \<open>NaN\<close>, and \<open>now\<close> is the clock reading. A missing
  \<open>expiresAt\<close> and the empty string are both falsy.
\<close>

definition isExpired :: "(string \<Rightarrow> int option) \<Rightarrow> int \<Rightarrow> memEntry \<Rightarrow> bool" where
  "isExpired parse now entry =
     (case expiresAt entry of
        None \<Rightarrow> False
      | Some s \<Rightarrow>
          if s = [] then False
          else (case parse s of None \<Rightarrow> False | Some t \<Rightarrow> t < now))"

text \<open>\<open>saveMemory\<close>: the result is the entry list written to \<open>memory.json\<close>
  (\<open>entries.slice(-MAX_ENTRIES)\<close>).\<close>

definition saveMemory :: "memEntry list \<Rightarrow> memEntry list" where
  "saveMemory entries = drop (length entries - MAX_ENTRIES) entries"

definition pruneExpiredEntries ::
  "(string \<Rightarrow> int option) \<Rightarrow> int \<Rightarrow> memEntry list \<Rightarrow> memEntry list" where
  "pruneExpiredEntries parse now entries = filter (\<lambda>e. \<not> isExpired parse now e) entries"

record queryOptions =
  optEmbedding :: "rat list option"
  optEmbeddingWeight :: "rat option"
  optUserId :: "string option"
  optTeamMode :: bool
  optTeamId :: "string option"

text \<open>
  \<open>scoreEntry\<close>. The keyword part counts the query tokens that are stored keywords.
  The embedding part is floating point (\<open>cosineSimilarity\<close> takes square roots): the
  similarity is the parameter \<open>cosSim\<close>, and the weight is \<open>options.embeddingWeight || 2\<close>.
\<close>

definition truthyString :: "string option \<Rightarrow> bool" where
  "truthyString s = (case s of None \<Rightarrow> False | Some v \<Rightarrow> v \<noteq> [])"

definition scoreEntry ::
  "(rat list \<Rightarrow> rat list \<Rightarrow> rat) \<Rightarrow> memEntry \<Rightarrow> string list \<Rightarrow> queryOptions \<Rightarrow> rat" where
  "scoreEntry cosSim entry queryTokens options =
     (let score = of_nat (length (filter (\<lambda>token. token \<in> set (entryKeywords entry)) queryTokens))
      in case (optEmbedding options, entryEmbedding entry) of
           (Some q, Some v) \<Rightarrow>
             score + cosSim q v *
               (case optEmbeddingWeight options of
                  None \<Rightarrow> 2
                | Some w \<Rightarrow> if w = 0 then 2 else w)
         | _ \<Rightarrow> score)"

definition filterEntriesForUser ::
  "memEntry list \<Rightarrow> string option \<Rightarrow> bool \<Rightarrow> string option \<Rightarrow> memEntry list" where
  "filterEntriesForUser entries userId teamMode teamId =
     (if teamMode then
        (if truthyString teamId then filter (\<lambda>e. metaTeamId e = teamId) entries else entries)
      else if \<not> truthyString userId then entries
      else filter (\<lambda>e. metaUserId e = userId) entries)"

text \<open>\<open>queryMemoryEntries\<close>. \<open>Array.prototype.sort\<close> is stable; the comparator orders by
  descending score.\<close>

definition queryMemoryEntries ::
  "(rat list \<Rightarrow> rat list \<Rightarrow> rat) \<Rightarrow> (string \<Rightarrow> int option) \<Rightarrow> int \<Rightarrow>
   memEntry list \<Rightarrow> string \<Rightarrow> nat \<Rightarrow> queryOptions \<Rightarrow> memEntry list" where
  "queryMemoryEntries cosSim parse now entries query limit options =
     (let tokens = extractKeywords query in
      if tokens = [] then []
      else
        let scoped = filter (\<lambda>e. \<not> isExpired parse now e)
                       (filterEntriesForUser entries (optUserId options)
                          (optTeamMode options) (optTeamId options));
            scored = take limit
                       (sort_key (\<lambda>item. - snd item)
                          (filter (\<lambda>item. MIN_SCORE \<le> snd item)
                             (map (\<lambda>e. (e, scoreEntry cosSim e tokens options)) scoped)))
        in map fst scored)"


section \<open>The response caches\<close>

text \<open>
  A JavaScript \<open>Map\<close> keeps its keys in insertion order; \<open>set\<close> on a present key
  replaces the value in place, \<open>set\<close> on a new key appends, and
  \<open>keys().next().value\<close> is the first key. It is modelled as an association list with
  \<^const>\<open>AList.update\<close> and \<^const>\<open>AList.delete\<close>.
\<close>

definition MAX_CACHE_SIZE :: nat where
  "MAX_CACHE_SIZE = 500"

definition MAX_CACHE_ENTRIES :: nat where
  "MAX_CACHE_ENTRIES = 500"

definition evictOldest :: "('k \<times> 'v) list \<Rightarrow> ('k \<times> 'v) list" where
  "evictOldest cache = (case cache of [] \<Rightarrow> [] | (firstKey, _) # _ \<Rightarrow> AList.delete firstKey cache)"

text \<open>
  The persisted response cache (the module quoted in \<open>src/test_phase3.sh\<close>). Its state
  is the \<open>Map\<close>, the flag \<open>cacheLoaded\<close>, and whether a load is under way:
  \<open>ensureCacheLoaded\<close> is asynchronous, it sets the flag and suspends at its first
  \<open>await\<close>, and the loop that enters the saved items runs only after the caller has
  finished.
\<close>

record ('k, 'v) cacheModule =
  cacheEntries :: "('k \<times> 'v) list"
  cacheLoaded :: bool
  loadPending :: bool

definition freshModule :: "('k, 'v) cacheModule" where
  "freshModule = \<lparr>cacheEntries = [], cacheLoaded = False, loadPending = False\<rparr>"

text \<open>\<open>ensureCacheLoaded\<close> up to its first \<open>await\<close>.\<close>

definition ensureCacheLoaded :: "('k, 'v) cacheModule \<Rightarrow> ('k, 'v) cacheModule" where
  "ensureCacheLoaded m =
     (if cacheLoaded m then m else m\<lparr>cacheLoaded := True, loadPending := True\<rparr>)"

text \<open>
  The rest of \<open>ensureCacheLoaded\<close>, which runs once the file has been read: every saved
  item that has a key, a response and a timestamp is entered with \<open>cache.set\<close>. The
  argument lists these items in the order of the file; it is empty when the file is
  missing or unreadable.
\<close>

definition loadSavedItems ::
  "('k \<times> 'v) list \<Rightarrow> ('k, 'v) cacheModule \<Rightarrow> ('k, 'v) cacheModule" where
  "loadSavedItems items m =
     (if loadPending m
      then m\<lparr>cacheEntries := foldl (\<lambda>cache (key, entry). AList.update key entry cache)
                                 (cacheEntries m) items,
             loadPending := False\<rparr>
      else m)"

text \<open>\<open>setCachedResponse\<close>.\<close>

definition setCachedResponse ::
  "('k, 'v) cacheModule \<Rightarrow> 'k \<Rightarrow> 'v \<Rightarrow> ('k, 'v) cacheModule" where
  "setCachedResponse m cacheKey entry =
     (let started = (if \<not> cacheLoaded m then ensureCacheLoaded m else m);
          cache = cacheEntries started
      in started\<lparr>cacheEntries :=
           AList.update cacheKey entry
             (if MAX_CACHE_SIZE \<le> length cache then evictOldest cache else cache)\<rparr>)"

text \<open>\<open>storeInCache\<close> of the in-process cache (\<open>src/unnamed/part_001\<close>).\<close>

definition storeInCache :: "('k \<times> 'v) list \<Rightarrow> 'k \<Rightarrow> 'v \<Rightarrow> ('k \<times> 'v) list" where
  "storeInCache responseCache key entry =
     AList.update key entry
       (if MAX_CACHE_ENTRIES \<le> length responseCache then evictOldest responseCache
        else responseCache)"

text \<open>A small store used to exercise the functions above.\<close>

definition exampleParse :: "string \<Rightarrow> int option" where
  "exampleParse s = (if s = ''2024-01-31T00:00:00.000Z'' then Some 1706659200000 else None)"

definition exampleEntry :: "string option \<Rightarrow> memEntry" where
  "exampleEntry ex =
     \<lparr>entryId = ''1706659200000-k3x9qa'', entryPrompt = ''hello world'', entryResponse = ''hi'',
      entryKeywords = [''hello'', ''world''], entryEmbedding = None, metaUserId = Some ''u1'',
      metaTeamId = None, createdAt = ''2024-01-01T00:00:00.000Z'', expiresAt = ex\<rparr>"

definition exampleOptions :: queryOptions where
  "exampleOptions =
     \<lparr>optEmbedding = None, optEmbeddingWeight = None, optUserId = None,
      optTeamMode = False, optTeamId = None\<rparr>"

text \<open>A saved cache file of 500 items, as a process with a full cache writes it.\<close>

definition savedItems :: "(nat \<times> nat) list" where
  "savedItems = map (\<lambda>n. (n, n)) [0..<500]"

section \<open>Intent scoring (\<open>src/intentClassifier.js\<close>)\<close>

text \<open>
  \<open>(lower.match(new RegExp(escaped, 'gi')) || []).length\<close>: the pattern is escaped, so it
  is matched as a literal, ignoring case; a global match counts the occurrences from left
  to right without overlap. The empty pattern matches once at every position.
\<close>

fun startsWithCI :: "string \<Rightarrow> string \<Rightarrow> bool" where
  "startsWithCI s [] = True"
| "startsWithCI [] (p # ps) = False"
| "startsWithCI (c # cs) (p # ps) = (toLowerChar c = toLowerChar p \<and> startsWithCI cs ps)"

function countMatches :: "string \<Rightarrow> string \<Rightarrow> nat" where
  "countMatches pattern [] = (if pattern = [] then 1 else 0)"
| "countMatches pattern (c # cs) =
     (if pattern = [] then Suc (countMatches pattern cs)
      else if startsWithCI (c # cs) pattern
      then Suc (countMatches pattern (drop (length pattern) (c # cs)))
      else countMatches pattern cs)"
  by pat_completeness auto
termination
  by (relation "measure (\<lambda>(p, s). length s)") auto

text \<open>\<open>/\d+/.test(prompt)\<close>.\<close>

definition hasDigit :: "string \<Rightarrow> bool" where
  "hasDigit s = (\<exists>c \<in> set s. isDigit c)"

text \<open>The body of the inner loop of \<open>classifyIntent\<close>: what one pattern adds to the
  score of one intent.\<close>

definition patternContribution :: "string \<Rightarrow> string \<Rightarrow> string \<Rightarrow> int" where
  "patternContribution intentType pattern prompt =
     (let matches = int (countMatches pattern (toLowerCase prompt)) in
      if intentType = ''MATH_REASONING'' \<and> (pattern = ''how many'' \<or> pattern = ''how much'')
      then (if hasDigit prompt then min 3 (matches * 2) else min 2 matches)
      else min 2 matches)"

text \<open>The entry of \<open>INTENT_TYPES\<close> as far as scoring reads it, and the \<open>context\<close>
  argument.\<close>

record intentConfig =
  patterns :: "string list"
  advancedCheck :: "(string \<Rightarrow> bool) option"

record classifyContext =
  previousIntent :: "string option"
  userPreference :: "string option"
  excludeIntents :: "string list option"

text \<open>The body of the outer loop: \<open>scores[intentType]\<close>.\<close>

definition intentScore :: "string \<Rightarrow> intentConfig \<Rightarrow> string \<Rightarrow> classifyContext \<Rightarrow> int" where
  "intentScore intentType config prompt context =
     (let s0 = (\<Sum>p \<leftarrow> patterns config. patternContribution intentType p prompt);
          s1 = (case advancedCheck config of
                  Some check \<Rightarrow> if check prompt then s0 + 5 else s0
                | None \<Rightarrow> s0);
          s2 = (if previousIntent context = Some intentType then s1 + 1 else s1);
          s3 = (if userPreference context = Some intentType then s2 + 2 else s2);
          s4 = (case excludeIntents context of
                  Some ex \<Rightarrow> if intentType \<in> set ex then s3 - 5 else s3
                | None \<Rightarrow> s3)
      in max 0 s4)"

section \<open>The generation supervisor of the streaming handler (\<open>src/unnamed/part_001\<close>)\<close>

text \<open>\<open>s.split(/\s+/)\<close>: the pieces between the runs of white space.\<close>

definition splitSpaces :: "string \<Rightarrow> string list" where
  "splitSpaces s =
     concat (map (\<lambda>x. case x of Inl t \<Rightarrow> [t] | Inr m \<Rightarrow> [])
       (rxScan (Plus Space) False False None [] s))"





record jsError =
  errName :: string
  errMessage :: string













section \<open>Ranking validation (\<open>src/unnamed/part_001\<close>)\<close>

text \<open>\<open>/^\s*1\.\s+/m\<close>, \<open>/^\s*2\.\s+/m\<close>, \<open>/\[\d+\]/\<close> and \<open>/^\s*\d+\.\s+/gm\<close>.\<close>

definition numberedLineRegex :: "char \<Rightarrow> rx" where
  "numberedLineRegex d = Seqs [Bol, Star Space, Chr d, Chr CHR ''.'', Plus Space]"

definition citationRegex :: rx where
  "citationRegex = Seqs [Chr CHR ''['', Plus Digit, Chr CHR '']'']"

definition rankingItemRegex :: rx where
  "rankingItemRegex = Seqs [Bol, Star Space, Plus Digit, Chr CHR ''.'', Plus Space]"

definition validateRankingResponse :: "string \<Rightarrow> bool" where
  "validateRankingResponse raw =
     (let hasList = (rxTest (numberedLineRegex CHR ''1'') False True raw
                     \<and> rxTest (numberedLineRegex CHR ''2'') False True raw);
          hasCitations = rxTest citationRegex False False raw
      in hasList \<and> hasCitations)"

definition countRankingItems :: "string \<Rightarrow> nat" where
  "countRankingItems raw = length (rxMatchAll rankingItemRegex False True raw)"

text \<open>\<open>/\btop\s*10\b/i\<close>.\<close>

definition top10Regex :: rx where
  "top10Regex = Seqs [WordB, Str ''top'', Star Space, Str ''10'', WordB]"

text \<open>Decimal notation of a natural number, as string concatenation prints it.\<close>

definition digitChar :: "nat \<Rightarrow> char" where
  "digitChar n = ''0123456789'' ! (n mod 10)"

function decimal :: "nat \<Rightarrow> string" where
  "decimal n = (if n < 10 then [digitChar n] else decimal (n div 10) @ [digitChar n])"
  by pat_completeness auto
termination
  by (relation "measure id") auto

declare decimal.simps [simp del]

definition noSourcesRefusal :: string where
  "noSourcesRefusal =
     ''Thinking\<newline>- (omitted by request)\<newline>\<newline>Result\<newline>- I couldn't find reliable web sources for a ranked list. Please try again or provide a source.''"

definition noListRefusal :: string where
  "noListRefusal =
     ''Thinking\<newline>- (omitted by request)\<newline>\<newline>Result\<newline>- I couldn't build a reliable ranked list from the available sources.''"

definition fewItemsNotice :: "nat \<Rightarrow> string" where
  "fewItemsNotice count =
     ''Thinking\<newline>- (omitted by request)\<newline>\<newline>Result\<newline>- I could only find reliable information for ''
     @ decimal count @ '' items based on the available sources.\<newline>\<newline>''"

text \<open>
  The strict prompt of the ranking block is a template literal that reads \<open>webSources\<close>,
  \<open>webContext\<close> and \<open>incomingPrompt\<close>. \<open>webContext\<close> is declared with \<open>let\<close> inside the
  block of \<open>if (autoRequested)\<close>, which has ended where the ranking block stands, and
  the handler declares the name nowhere else: evaluating the template raises a
  \<open>ReferenceError\<close>.
\<close>

definition webContextError :: jsError where
  "webContextError = \<lparr>errName = ''ReferenceError'', errMessage = ''webContext is not defined''\<rparr>"

definition strictPrompt :: "string list \<Rightarrow> string \<Rightarrow> jsError + string" where
  "strictPrompt webSources incomingPrompt = Inl webContextError"

text \<open>
  The ranking block of the streaming handler, entered after the generation when
  \<open>isRankingIntent\<close> holds. \<open>webSources\<close> is \<open>None\<close> when it is not an array; it is
  filled only by the web search of an \<open>auto\<close> request. \<open>regenerated\<close> is what the one
  \<open>callOllamaGenerate\<close> call on the strict prompt returns, \<open>None\<close> when it throws (the
  \<open>catch\<close> keeps the text). The strict prompt is built before the response is
  validated. The result is the error thrown, or the final \<open>responseText\<close> and the
  number of calls the block itself makes to the model (the generation that produced
  \<open>generated\<close> came before); a thrown error reaches the \<open>catch\<close> of the handler,
  which sends an \<open>error\<close> event in place of a response.
\<close>

definition rankingValidationBlock ::
  "string list option \<Rightarrow> string \<Rightarrow> string option \<Rightarrow> string \<Rightarrow> jsError + string \<times> nat" where
  "rankingValidationBlock webSources generated regenerated incomingPrompt =
     (if webSources = None \<or> webSources = Some [] then Inr (noSourcesRefusal, 0)
      else
        case strictPrompt (the webSources) incomingPrompt of
          Inl err \<Rightarrow> Inl err
        | Inr prompt \<Rightarrow>
            let (text1, calls) =
                  (if \<not> validateRankingResponse generated
                   then (case regenerated of Some t \<Rightarrow> (t, 1) | None \<Rightarrow> (generated, 1))
                   else (generated, 0));
                text2 = (if \<not> validateRankingResponse text1 then noListRefusal else text1);
                count = countRankingItems text2
            in if 0 < count \<and> count < 10 \<and> rxTest top10Regex True False incomingPrompt
               then Inr (fewItemsNotice count @ text2, calls)
               else Inr (text2, calls))"

text \<open>A ranked answer with a citation, and a source list of one entry.\<close>

definition rankedAnswer :: string where
  "rankedAnswer = ''1. GPT-4 [1]\<newline>2. Claude [1]''"

definition oneSource :: "string list" where
  "oneSource = [''https://lmarena.ai'']"


section \<open>The sandbox denylists (\<open>src/reasoningEngine.js\<close>)\<close>












section \<open>The response formatter (\<open>src/unnamed/part_001\<close>)\<close>

text \<open>
  The result of \<open>formatResponse\<close> with its \<open>type\<close> as the constructor. A table carries
  its header and rows and a list its items; of a ranking only the fact that items were
  found is kept, and of a chart the JSON text. \<open>content\<close>, always the input, is left
  out.
\<close>

datatype formatted =
    FText
  | FTable "string list" "string list list"
  | FList "string list"
  | FRanking
  | FChart string

text \<open>\<open>s.split(sep)\<close> for a one-character separator.\<close>

fun splitChar :: "char \<Rightarrow> string \<Rightarrow> string \<Rightarrow> string list" where
  "splitChar sep cur [] = [rev cur]"
| "splitChar sep cur (c # cs) =
     (if c = sep then rev cur # splitChar sep [] cs else splitChar sep (c # cur) cs)"

definition splitOn :: "char \<Rightarrow> string \<Rightarrow> string list" where
  "splitOn sep s = splitChar sep [] s"

text \<open>\<open>parseInt\<close> of a text that starts with digits.\<close>

definition digitValue :: "char \<Rightarrow> nat" where
  "digitValue c = of_char c - 48"

definition leadingNat :: "string \<Rightarrow> nat" where
  "leadingNat s = foldl (\<lambda>n c. 10 * n + digitValue c) 0 (takeWhile isDigit s)"

text \<open>\<open>/\|.*\|/m\<close> and \<open>/\d+\.\s+\w+.*:.*\d+/m\<close>.\<close>

definition hasTablePattern :: "string \<Rightarrow> bool" where
  "hasTablePattern text =
     (rxTest (Seqs [Chr CHR ''|'', Star Dot, Chr CHR ''|'']) False True text \<or>
      rxTest (Seqs [Plus Digit, Chr CHR ''.'', Plus Space, Plus WordC, Star Dot, Chr CHR '':'',
                    Star Dot, Plus Digit]) False True text)"

text \<open>\<open>/CHART_JSON\s*:/i\<close>.\<close>

definition hasChartPattern :: "string \<Rightarrow> bool" where
  "hasChartPattern text =
     rxTest (Seqs [Str ''CHART_JSON'', Star Space, Chr CHR '':'']) True False text"

text \<open>\<open>/^\d+[\.\)]\s+/m\<close> and \<open>/^[-*]\s+/m\<close> (the bullet sign of the source's class is not
  a character of this model).\<close>

definition hasListPattern :: "string \<Rightarrow> bool" where
  "hasListPattern text =
     (rxTest (Seqs [Bol, Plus Digit, OneOf ''.)'', Plus Space]) False True text \<or>
      rxTest (Seqs [Bol, OneOf ''-*'', Plus Space]) False True text)"

text \<open>\<open>hasRankingPattern\<close>: the numbered form
  \<open>/\b[1-9][\.\)]\s+.+?((?:\n|,|\s+(?:and|or))\s*[2-9][\.\)]\s+.+?){1,}/i\<close>, or rank
  keywords together with a known country or a counted weapon.\<close>

definition numberedRankingRegex :: rx where
  "numberedRankingRegex =
     Seqs [WordB, OneOf ''123456789'', OneOf ''.)'', Plus Space, LPlus Dot,
           Plus (Seqs [Alts [Chr CHR 0x0A, Chr CHR '','', Seqs [Plus Space, Words [''and'', ''or'']]],
                       Star Space, OneOf ''23456789'', OneOf ''.)'', Plus Space, LPlus Dot])]"

definition rankKeywordsRegex :: rx where
  "rankKeywordsRegex =
     Seqs [WordB, Words [''rank'', ''ranking'', ''top'', ''leader'', ''first'', ''second'', ''third'',
                         ''leading'', ''follows'', ''rank'']]"

definition countriesRegex :: rx where
  "countriesRegex =
     Seqs [WordB, Words [''United States'', ''Russia'', ''China'', ''France'', ''UK'', ''India'',
                         ''Pakistan'', ''Israel'', ''Germany'', ''Japan'', ''Brazil''], WordB]"

definition weaponNumbersRegex :: rx where
  "weaponNumbersRegex =
     Seqs [WordB, Plus Digit, Star Space,
           Words [''warhead'', ''nuclear'', ''arsenal'', ''inventory'', ''weapon'', ''bomb'']]"

definition hasRankingPattern :: "string \<Rightarrow> bool" where
  "hasRankingPattern text =
     (if rxTest numberedRankingRegex True False text then True
      else
        let hasRankKeywords = rxTest rankKeywordsRegex True False text;
            hasCountries = rxTest countriesRegex True False text;
            hasNumbers = rxTest weaponNumbersRegex True False text
        in hasRankKeywords \<and> (hasCountries \<or> hasNumbers))"

text \<open>\<open>extractAndFormatTable\<close>.\<close>

definition extractAndFormatTable :: "string \<Rightarrow> formatted" where
  "extractAndFormatTable text =
     (let lines = filter (\<lambda>l. trim l \<noteq> []) (splitOn (CHR 0x0A) text);
          tableData =
            concat (map (\<lambda>line.
              if CHR ''|'' \<in> set line then
                (let cells = filter (\<lambda>c. c \<noteq> []) (map trim (splitOn (CHR ''|'') line))
                 in if 1 < length cells then [cells] else [])
              else []) lines)
      in case tableData of
           [] \<Rightarrow> FText
         | headers # rows \<Rightarrow> FTable headers rows)"

text \<open>
  \<open>extractAndFormatChart\<close>. The marker \<open>/CHART_JSON\s*:\s*([\s\S]+)$/i\<close> captures what
  follows the marker up to the end of the text; \<open>/\{[\s\S]*\}/\<close> then takes the text from
  the first \<open>{\<close> to the last \<open>}\<close>. \<open>JSON.parse\<close> belongs to the host: \<open>parsesToChart\<close>
  says whether the text parses to an object whose \<open>data\<close> is an array.
\<close>

definition chartMarkerRegex :: rx where
  "chartMarkerRegex =
     Seqs [Str ''CHART_JSON'', Star Space, Chr CHR '':'', Star Space, Plus AnyChar, Eol]"

definition jsonObjectRegex :: rx where
  "jsonObjectRegex = Seqs [Chr CHR ''{'', Star AnyChar, Chr CHR ''}'']"

definition extractAndFormatChart :: "(string \<Rightarrow> bool) \<Rightarrow> string \<Rightarrow> formatted" where
  "extractAndFormatChart parsesToChart text =
     (case rxMatchAll chartMarkerRegex True False text of
        [] \<Rightarrow> FText
      | m # _ \<Rightarrow>
          let raw = trim (tl (dropWhile isSpace (drop (length ''CHART_JSON'') m))) in
          (case rxMatchAll jsonObjectRegex False False raw of
             [] \<Rightarrow> FText
           | json # _ \<Rightarrow> if parsesToChart json then FChart json else FText))"

text \<open>\<open>extractAndFormatList\<close>: the marker
  \<open>/^[\d]+[\.\)]\s+|^[-*]\s+/\<close> is removed once from the start of each line.\<close>

definition listMarkerRegex :: rx where
  "listMarkerRegex =
     Alt (Seqs [Bol, Plus Digit, OneOf ''.)'', Plus Space]) (Seqs [Bol, OneOf ''-*'', Plus Space])"

definition stripListMarker :: "string \<Rightarrow> string" where
  "stripListMarker line =
     (case rxm listMarkerRegex False False None line of
        [] \<Rightarrow> line
      | (lc, rest) # _ \<Rightarrow> rest)"

definition extractAndFormatList :: "string \<Rightarrow> formatted" where
  "extractAndFormatList text =
     (let lines = filter (\<lambda>l. trim l \<noteq> []) (splitOn (CHR 0x0A) text);
          items = filter (\<lambda>c. c \<noteq> []) (map (\<lambda>line. trim (stripListMarker line)) lines)
      in if items \<noteq> [] then FList items else FText)"

text \<open>
  \<open>extractAndFormatRanking\<close> tries four extractions in turn, each only when the ones
  before found nothing, and answers \<open>ranking\<close> when one of them found an item:
  the strict lines \<open>/^(\d+)[\.\)]\s+(.+?):\s*(.+?)$/gm\<close>; the embedded form
  \<open>/(\d+)[\.\)]\s+([A-Z][^:\n]*?)(?:\s*[-]\s*|:\s*)([^.\n]+(?:\.[^.\n]*)?)/g\<close> with a rank
  of at most 20; lines with a pipe whose first cell starts with a rank of at most 100;
  and the mention of a known country.
\<close>

definition strictRankRegex :: rx where
  "strictRankRegex =
     Seqs [Bol, Plus Digit, OneOf ''.)'', Plus Space, LPlus Dot, Chr CHR '':'', Star Space,
           LPlus Dot, Eol]"

definition flexibleRankRegex :: rx where
  "flexibleRankRegex =
     Seqs [Plus Digit, OneOf ''.)'', Plus Space, Cls isUpperAlpha,
           LStar (Cls (\<lambda>c. c \<noteq> CHR '':'' \<and> c \<noteq> CHR 0x0A)),
           Alt (Seqs [Star Space, Chr CHR ''-'', Star Space]) (Seqs [Chr CHR '':'', Star Space]),
           Plus (Cls (\<lambda>c. c \<noteq> CHR ''.'' \<and> c \<noteq> CHR 0x0A)),
           Opt (Seqs [Chr CHR ''.'', Star (Cls (\<lambda>c. c \<noteq> CHR ''.'' \<and> c \<noteq> CHR 0x0A))])]"

definition countryOrder :: "string list" where
  "countryOrder =
     [''United States'', ''Russia'', ''China'', ''France'', ''United Kingdom'', ''India'',
      ''Pakistan'', ''Israel'', ''Germany'', ''Japan'', ''Brazil'', ''North Korea'']"

definition pipeRankLine :: "string \<Rightarrow> bool" where
  "pipeRankLine line =
     (CHR ''|'' \<in> set line \<and>
      (let parts = map trim (splitOn (CHR ''|'') line) in
       2 \<le> length parts \<and>
       rxTest (Seqs [Bol, Plus Digit]) False False (hd parts) \<and>
       leadingNat (hd parts) \<le> 100))"

definition extractAndFormatRanking :: "string \<Rightarrow> formatted" where
  "extractAndFormatRanking text =
     (if rxMatchAll strictRankRegex False True text \<noteq> [] then FRanking
      else if list_ex (\<lambda>m. leadingNat m \<le> 20) (rxMatchAll flexibleRankRegex False False text)
      then FRanking
      else if list_ex pipeRankLine (splitOn (CHR 0x0A) text) then FRanking
      else if list_ex (\<lambda>country. strIncludes text country) countryOrder then FRanking
      else FText)"

text \<open>\<open>formatResponse\<close>.\<close>

definition formatResponse :: "(string \<Rightarrow> bool) \<Rightarrow> string \<Rightarrow> formatted" where
  "formatResponse parsesToChart text =
     (let chart = (if hasChartPattern text then extractAndFormatChart parsesToChart text
                   else FText)
      in if chart \<noteq> FText then chart
         else if hasTablePattern text then extractAndFormatTable text
         else if hasRankingPattern text then extractAndFormatRanking text
         else if hasListPattern text then extractAndFormatList text
         else FText)"

definition isRanking :: "formatted \<Rightarrow> bool" where
  "isRanking f = (case f of FRanking \<Rightarrow> True | _ \<Rightarrow> False)"

section \<open>The local fast paths of the streaming handler (\<open>src/unnamed/part_001\<close>)\<close>

definition wordsRegex :: "string list \<Rightarrow> rx" where
  "wordsRegex ws = Seqs [WordB, Words ws, WordB]"

definition startWordsRegex :: "string list \<Rightarrow> rx" where
  "startWordsRegex ws = Seqs [Bol, Words ws, WordB]"

text \<open>\<open>/-?\d+(\.\d+)?/\<close>.\<close>

definition numberRegex :: rx where
  "numberRegex = Seqs [Opt (Chr CHR ''-''), Plus Digit, Opt (Seqs [Chr CHR ''.'', Plus Digit])]"

subsection \<open>Follow-ups and normalization\<close>

definition isVagueFollowup :: "string \<Rightarrow> bool" where
  "isVagueFollowup prompt =
     (let text = trim (toLowerCase prompt) in
      if text = [] then False
      else if length text \<le> 12 \<and>
              rxTest (startWordsRegex [''why'', ''how'', ''explain'', ''clarify'', ''details'', ''detail'',
                        ''more'', ''again'', ''repeat'', ''continue'', ''so'']) False False text
      then True
      else rxTest (wordsRegex [''explain'', ''why'', ''how'', ''more detail'', ''more details'',
                     ''elaborate'', ''clarify'', ''expand'', ''tell me more'', ''more info'',
                     ''more information'', ''details please'', ''explain more'', ''go on'',
                     ''continue'', ''and then'', ''what about that'', ''what about it'',
                     ''about that'', ''so what'']) True False text)"

text \<open>\<open>extractResultSection\<close>: \<open>/Result[\s:]*([\s\S]*)/i\<close>.\<close>

definition extractResultSection :: "string \<Rightarrow> string" where
  "extractResultSection raw =
     (case rxMatchAll (Seqs [Str ''Result'', Star (Cls (\<lambda>c. isSpace c \<or> c = CHR '':'')),
                             Star AnyChar]) True False raw of
        [] \<Rightarrow> trim raw
      | m # _ \<Rightarrow> trim (dropWhile (\<lambda>c. isSpace c \<or> c = CHR '':'') (drop (length ''Result'') m)))"

text \<open>
  \<open>trySolveSimpleMath\<close> returns \<open>null\<close> at once when the text holds no number. What it
  computes otherwise is floating point and is the parameter \<open>solveBody\<close>.
\<close>

definition trySolveSimpleMath :: "(string \<Rightarrow> 'n option) \<Rightarrow> string \<Rightarrow> 'n option" where
  "trySolveSimpleMath solveBody prompt =
     (let text = toLowerCase prompt in
      if rxMatchAll numberRegex False False text = [] then None else solveBody prompt)"

text \<open>\<open>normalizeUserPrompt\<close>: the normalized prompt and the flag \<open>changed\<close>.\<close>

definition mathOnlyRegex :: rx where
  "mathOnlyRegex =
     Seqs [Bol, Plus (Cls (\<lambda>c. isSpace c \<or> isDigit c \<or> c \<in> set ''+-*/xX().%'')), Eol]"

definition spellingReplacements :: "(rx \<times> (string \<Rightarrow> string)) list" where
  "spellingReplacements =
     [(Seqs [WordB, Str ''but another'', WordB], \<lambda>m. ''buy another''),
      (Seqs [WordB, Str ''but'', Plus Space, Plus Digit],
         \<lambda>m. ''buy '' @ dropWhile (\<lambda>c. \<not> isDigit c) m),
      (Seqs [WordB, Str ''loss'', WordB], \<lambda>m. ''lost''),
      (Seqs [WordB, Str ''borow'', WordB], \<lambda>m. ''borrow''),
      (Seqs [WordB, Str ''explan'', WordB], \<lambda>m. ''explain''),
      (Alt (Seqs [WordB, Str ''pls'', WordB]) (Seqs [WordB, Str ''plz'', WordB]), \<lambda>m. ''please''),
      (Seqs [WordB, Str ''thx'', WordB], \<lambda>m. ''thanks''),
      (Seqs [WordB, Str ''im'', WordB], \<lambda>m. ''i am''),
      (Seqs [WordB, Str ''whats'', WordB], \<lambda>m. ''what's''),
      (Seqs [WordB, Str ''hw'', WordB], \<lambda>m. ''how'')]"

definition normalizeUserPrompt :: "string \<Rightarrow> string \<times> bool" where
  "normalizeUserPrompt original =
     (if trim original = [] then (original, False)
      else if rxTest (Str ''```'') False False original then (original, False)
      else if rxTest mathOnlyRegex False False (trim original) then (original, False)
      else
        let replaced = foldl (\<lambda>s (re, val). rxReplaceAll re True False val s) original
                         spellingReplacements;
            normalized = trim (rxReplaceAll (Seq Space (Plus Space)) False False (\<lambda>m. '' '') replaced)
        in (normalized, normalized \<noteq> original))"

subsection \<open>The local solvers\<close>

text \<open>
  Each solver is modelled by the tests it makes before it computes anything: when they
  fail it returns \<open>null\<close>, as in the source; when they hold, what it returns (an answer
  or \<open>null\<close>) is given by the parameter \<open>body\<close>, applied to the name of the solver and the
  prompt. The tests are those of the source, in its order.
\<close>

definition arithmeticCharsRegex :: rx where
  "arithmeticCharsRegex =
     Seqs [Bol, Plus (Cls (\<lambda>c. isDigit c \<or> isSpace c \<or> c \<in> set ''+-*/().'')), Eol]"

definition simpleArithmeticGuard :: "string \<Rightarrow> bool" where
  "simpleArithmeticGuard prompt =
     (let cleaned = trim prompt in
      cleaned \<noteq> [] \<and> rxTest arithmeticCharsRegex False False cleaned)"

definition percentGuard :: "string \<Rightarrow> bool" where
  "percentGuard prompt =
     (let text = toLowerCase prompt in
      rxTest (Seqs [numberRegex, Star Space, Opt (Chr CHR ''%''), Star Space, Str ''of'',
                    Star Space, numberRegex]) True False text \<or>
      rxTest (Seqs [numberRegex, Star Space,
                    Words [''increase'', ''increased'', ''increase by'', ''up by''],
                    Star Space, numberRegex, Star Space, Chr CHR ''%'']) True False text \<or>
      rxTest (Seqs [numberRegex, Star Space,
                    Words [''decrease'', ''decreased'', ''decrease by'', ''down by''],
                    Star Space, numberRegex, Star Space, Chr CHR ''%'']) True False text \<or>
      rxTest (Seqs [numberRegex, Plus Space, Str ''is'', Plus Space, Str ''what'', Plus Space,
                    Str ''percent'', Plus Space, Str ''of'', Plus Space, numberRegex])
        True False text)"

definition unitConversionGuard :: "string \<Rightarrow> bool" where
  "unitConversionGuard prompt =
     rxTest (Seqs [numberRegex, Star Space, Plus (Cls isLowerAlpha), Star Space,
                   Words [''to'', ''in''], Star Space, Plus (Cls isLowerAlpha)])
       True False (toLowerCase prompt)"

definition isoDateRegex :: rx where
  "isoDateRegex =
     Seqs [Digit, Digit, Digit, Digit, Chr CHR ''-'', Digit, Digit, Chr CHR ''-'', Digit, Digit]"

definition dateMathGuard :: "string \<Rightarrow> bool" where
  "dateMathGuard prompt =
     (let text = toLowerCase prompt in
      rxTest (Seqs [Str ''days'', Plus Space, Str ''between'', Plus Space, isoDateRegex,
                    Plus Space, Str ''and'', Plus Space, isoDateRegex]) True False text \<or>
      rxTest (Seqs [Str ''born'', Plus Space, Str ''in'', Plus Space, Digit, Digit, Digit, Digit])
        True False text)"

text \<open>\<open>/^([+-]?\d*\.?\d*)x([+-]\d+(\.\d+)?)?=([+-]?\d+(\.\d+)?)$/i\<close> and its mirror.\<close>

definition equationGuard :: "string \<Rightarrow> bool" where
  "equationGuard prompt =
     (let text = stripSpaces prompt;
          sign = Opt (OneOf ''+-'');
          coefficient = Seqs [sign, Star Digit, Opt (Chr CHR ''.''), Star Digit];
          offset = Opt (Seqs [OneOf ''+-'', Plus Digit, Opt (Seqs [Chr CHR ''.'', Plus Digit])]);
          constant = Seqs [sign, Plus Digit, Opt (Seqs [Chr CHR ''.'', Plus Digit])]
      in rxTest (Seqs [Bol, coefficient, Chr CHR ''x'', offset, Chr CHR ''='', constant, Eol])
           True False text \<or>
         rxTest (Seqs [Bol, constant, Chr CHR ''='', coefficient, Chr CHR ''x'', offset, Eol])
           True False text)"

text \<open>\<open>parseNumberList(text).length > 0\<close>, up to the filter on finite values: the
  numbers are looked for inside the first bracketed list, or in the whole text when
  there is none.\<close>

definition bracketListRegex :: rx where
  "bracketListRegex = Seqs [Chr CHR ''['', Plus (Cls (\<lambda>c. c \<noteq> CHR '']'')), Chr CHR '']'']"

definition hasNumberList :: "string \<Rightarrow> bool" where
  "hasNumberList text =
     (let source = (case rxMatchAll bracketListRegex False False text of
                      [] \<Rightarrow> text
                    | m # _ \<Rightarrow> butlast (tl m))
      in rxMatchAll numberRegex False False source \<noteq> [])"

definition basicStatsGuard :: "string \<Rightarrow> bool" where
  "basicStatsGuard prompt =
     (rxTest (wordsRegex [''average'', ''mean'', ''median'', ''sum'', ''min'', ''max''])
        True False (toLowerCase prompt) \<and> hasNumberList prompt)"

definition listSetGuard :: "string \<Rightarrow> bool" where
  "listSetGuard prompt =
     (rxTest (wordsRegex [''union'', ''intersection'', ''difference'']) True False (toLowerCase prompt)
      \<and> 2 \<le> length (rxMatchAll bracketListRegex False False prompt))"

definition sortFilterGuard :: "string \<Rightarrow> bool" where
  "sortFilterGuard prompt =
     (rxTest (wordsRegex [''sort'', ''remove'', ''filter'']) True False (toLowerCase prompt)
      \<and> hasNumberList prompt)"

definition stringUtilsGuard :: "string \<Rightarrow> bool" where
  "stringUtilsGuard prompt =
     list_ex (\<lambda>w. rxTest (wordsRegex [w]) False False (toLowerCase prompt))
       [''uppercase'', ''lowercase'', ''titlecase'', ''length'', ''slugify'', ''trim'']"

text \<open>\<open>/([\w.+-]+@[\w.-]+\.[a-zA-Z]{2,})/\<close> and \<open>/(https?:\/\/[^\s]+)/i\<close>.\<close>

definition validationGuard :: "string \<Rightarrow> bool" where
  "validationGuard prompt =
     (rxTest (wordsRegex [''valid'']) False False (toLowerCase prompt) \<and>
      (rxTest (Seqs [Plus (Cls (\<lambda>c. isWordChar c \<or> c \<in> set ''.+-'')), Chr CHR ''@'',
                     Plus (Cls (\<lambda>c. isWordChar c \<or> c \<in> set ''.-'')), Chr CHR ''.'',
                     Cls (\<lambda>c. isLowerAlpha c \<or> isUpperAlpha c),
                     Plus (Cls (\<lambda>c. isLowerAlpha c \<or> isUpperAlpha c))]) False False prompt \<or>
       rxTest (Seqs [Str ''http'', Opt (Chr CHR ''s''), Str ''://'', Plus (Cls (\<lambda>c. \<not> isSpace c))])
         True False prompt))"

text \<open>\<open>/\/(.+)\/([gimsuy]*)/\<close> and a quoted sample.\<close>

definition regexGuard :: "string \<Rightarrow> bool" where
  "regexGuard prompt =
     (rxTest (Seqs [Chr CHR ''/'', Plus Dot, Chr CHR ''/'', Star (OneOf ''gimsuy'')])
        False False prompt \<and>
      rxTest (Seqs [Cls (\<lambda>c. c \<in> set [CHR 0x27, CHR 0x22, CHR 0x60]),
                    Plus (Cls (\<lambda>c. c \<notin> set [CHR 0x27, CHR 0x22, CHR 0x60])),
                    Cls (\<lambda>c. c \<in> set [CHR 0x27, CHR 0x22, CHR 0x60])]) False False prompt)"

definition localSolvers :: "(string \<times> (string \<Rightarrow> bool)) list" where
  "localSolvers =
     [(''simple_arithmetic'', simpleArithmeticGuard),
      (''percent'', percentGuard),
      (''unit_conversion'', unitConversionGuard),
      (''date_math'', dateMathGuard),
      (''simple_equation'', equationGuard),
      (''basic_stats'', basicStatsGuard),
      (''list_set'', listSetGuard),
      (''sort_filter'', sortFilterGuard),
      (''string_utils'', stringUtilsGuard),
      (''validation'', validationGuard),
      (''regex'', regexGuard)]"

text \<open>\<open>tryLocalSolvers\<close>: the first solver with a non-empty answer, as its name and
  answer; \<open>None\<close> is \<open>{ handled: false }\<close>.\<close>

fun firstAnswer ::
  "(string \<Rightarrow> string \<Rightarrow> string option) \<Rightarrow> (string \<times> (string \<Rightarrow> bool)) list \<Rightarrow> string
     \<Rightarrow> (string \<times> string) option" where
  "firstAnswer body [] prompt = None"
| "firstAnswer body ((name, guard) # solvers) prompt =
     (case (if guard prompt then body name prompt else None) of
        Some answer \<Rightarrow> if answer \<noteq> [] then Some (name, answer) else firstAnswer body solvers prompt
      | None \<Rightarrow> firstAnswer body solvers prompt)"

definition tryLocalSolvers ::
  "(string \<Rightarrow> string \<Rightarrow> string option) \<Rightarrow> string \<Rightarrow> (string \<times> string) option" where
  "tryLocalSolvers body prompt = firstAnswer body localSolvers prompt"

subsection \<open>Instant replies\<close>

definition isTrivialMessage :: "string \<Rightarrow> bool" where
  "isTrivialMessage prompt =
     (toLowerCase (trim prompt) \<in> set [''ok'', ''okay'', ''thanks'', ''thank you'', ''thx'', ''ty'',
        ''lol'', ''nice'', ''good night'', ''goodnight''])"

definition isSmallTalkPrompt :: "string \<Rightarrow> bool" where
  "isSmallTalkPrompt prompt =
     (let text = trim (toLowerCase prompt) in
      if text = [] then False
      else if 60 < length text then False
      else if rxTest (wordsRegex [''how are you'', ''how's it going'', ''how is it going'',
                        ''how do you do'', ''what's up'', ''whats up'', ''sup'', ''how are u'',
                        ''how r u'']) True False text then True
      else if rxTest (wordsRegex [''good morning'', ''good afternoon'', ''good evening''])
                True False text then True
      else rxTest (startWordsRegex [''hi'', ''hello'', ''hey'']) False False text)"

definition feelings :: "string list" where
  "feelings =
     [''sad'', ''tired'', ''stressed'', ''angry'', ''upset'', ''lonely'', ''anxious'', ''worried'',
      ''scared'', ''happy'', ''excited'']"

definition instantPatterns :: "rx list" where
  "instantPatterns =
     [Seqs [WordB, Words [''i am'', ''i'm'', ''im''], Plus Space, Words feelings, WordB],
      Seqs [WordB, Words [''feel'', ''feeling''], Plus Space, Words feelings, WordB],
      wordsRegex [''cheer me up'', ''motivate me'', ''encourage me'', ''give me hope'',
                  ''i need motivation''],
      wordsRegex [''tell me a joke'', ''joke'', ''make me laugh'', ''funny''],
      wordsRegex [''fact'', ''fun fact'', ''random fact''],
      wordsRegex [''how old are you'', ''your age'', ''what is your age'', ''age are you''],
      wordsRegex [''what is your name'', ''your name'', ''who are you'', ''what are you''],
      wordsRegex [''who made you'', ''who created you'', ''who built you''],
      wordsRegex [''love me'', ''be my friend'', ''be my girlfriend'', ''be my boyfriend'',
                  ''be my wife'', ''be my husband'', ''darling'', ''sweetheart''],
      startWordsRegex [''thanks'', ''thank you'', ''thx'', ''ty''],
      startWordsRegex [''ok'', ''okay'', ''cool'', ''nice'', ''great''],
      startWordsRegex [''yes'', ''no'', ''maybe'', ''sure'']]"

definition isInstantConversationPrompt :: "string \<Rightarrow> bool" where
  "isInstantConversationPrompt prompt =
     (let text = trim (toLowerCase prompt) in
      if text = [] then False
      else if 200 < length text then False
      else if hasDigit text then False
      else if isSmallTalkPrompt text then True
      else list_ex (\<lambda>pattern. rxTest pattern False False text) instantPatterns)"

definition isSimpleQaFastPath :: "string \<Rightarrow> bool" where
  "isSimpleQaFastPath prompt =
     (let text = trim prompt in
      if text = [] then False
      else if 40 < length (splitSpaces text) then False
      else
        let lower = toLowerCase text;
            heavyCode = rxTest (wordsRegex [''function'', ''bug'', ''stack trace'', ''html'', ''css'',
                          ''javascript'', ''python'', ''sql'', ''schema'', ''optimize'', ''debug''])
                          True False lower;
            heavyMath = rxTest (wordsRegex [''prove'', ''integral'', ''derivative'', ''theorem'',
                          ''limit'', ''riddle'', ''puzzle'', ''equation system'']) True False lower;
            ranking = rxTest (wordsRegex [''top'', ''best'', ''rank'', ''ranking'', ''leaderboard''])
                        True False lower;
            wantsSources = rxTest (wordsRegex [''cite'', ''sources'', ''links'', ''references''])
                             True False lower;
            docRefs = rxTest (wordsRegex [''in my doc'', ''in the pdf'', ''in the file'', ''uploaded''])
                        True False lower
        in \<not> (heavyCode \<or> heavyMath \<or> ranking \<or> wantsSources \<or> docRefs))"

definition isUncertainResponse :: "string \<Rightarrow> bool" where
  "isUncertainResponse text =
     rxTest (wordsRegex [''i'm not sure'', ''i am not sure'', ''not sure'', ''cannot'', ''can't'',
               ''unsure'', ''i don't know'']) True False text"

subsection \<open>The handler up to the full pipeline\<close>

text \<open>
  The message handler of the streaming endpoint, from the parsed payload to the point
  where the full pipeline starts. Its inputs are \<open>payload.prompt\<close>, \<open>payload.userPrompt\<close>
  and the conversation history the handler settles on (the payload's, or the stored
  one). The parameters stand for code that computes text without calling a model:
  \<open>solveBody\<close> and \<open>solverBody\<close> as above, \<open>mathText\<close> for \<open>buildLocalMathResponse\<close> and
  \<open>instantText\<close> for \<open>buildInstantConversationResponse\<close>. \<open>fastAnswer\<close> is what the one
  \<open>callOllamaGenerate\<close> call of the simple-question path returns, \<open>None\<close> when it throws.

  \<open>conv\<close> is the stored conversation of the user when the request arrives; the
  request is followed on its own, with no other request of the same user under way.
\<close>

record chatMessage =
  role :: string
  content :: string

text \<open>
  The conversation memory of the user, as far as the handler's replies depend on it:
  the number of messages stored for the user (\<open>conversation.length\<close>, which
  \<open>getStats\<close> reports as \<open>totalMessages\<close>) and the count recorded at the last
  conversation summary (\<open>conversationSummaryTracker\<close>, \<open>0\<close> when there is none).
\<close>

record conversationState =
  storedMessages :: nat
  summarizedAt :: nat

definition MAX_MEMORY_SIZE :: nat where
  "MAX_MEMORY_SIZE = 15"

definition SUMMARY_EVERY_MESSAGES :: nat where
  "SUMMARY_EVERY_MESSAGES = 8"

text \<open>\<open>addMessage\<close> pushes the message and shifts the oldest one out when more than
  \<open>maxMemorySize\<close> are held.\<close>

definition addMessage :: "nat \<Rightarrow> nat" where
  "addMessage stored = (if MAX_MEMORY_SIZE < stored + 1 then stored else stored + 1)"

text \<open>
  \<open>summarizeConversationIfNeeded\<close>: the number of \<open>callOllamaGenerate\<close> calls it makes
  (the user id is never empty, it defaults to \<open>anonymous\<close>).
\<close>

definition summarizeConversationIfNeeded :: "nat \<Rightarrow> nat \<Rightarrow> nat" where
  "summarizeConversationIfNeeded totalMessages lastCount =
     (if totalMessages < SUMMARY_EVERY_MESSAGES then 0
      else if int totalMessages - int lastCount < int SUMMARY_EVERY_MESSAGES then 0
      else 1)"

text \<open>
  What the fast paths do with a request: the calls to the model that the handler makes
  itself, the reply sent by \<open>sendLocalResponse\<close> with its model tag (\<open>None\<close> when the
  request goes on to the full pipeline), the prompt as it stands where the instant
  reply is tested, and the calls to the model made by the conversation summary that
  the reply schedules.
\<close>

record fastPathResult =
  lmCalls :: nat
  reply :: "(string \<times> string) option"
  gatePrompt :: string
  summaryCalls :: nat

text \<open>
  \<open>sendLocalResponse\<close>: \<open>storeUserMessage\<close> stores the prompt of the user (never empty
  here), \<open>storeAssistantMessage\<close> stores a non-empty reply and schedules
  \<open>summarizeConversationIfNeeded\<close> with \<open>setTimeout\<close>; the handler returns right after,
  so the summary runs on the conversation as these two calls leave it.
\<close>

definition sendLocalResponse ::
  "conversationState \<Rightarrow> nat \<Rightarrow> string \<Rightarrow> string \<Rightarrow> string \<Rightarrow> fastPathResult" where
  "sendLocalResponse conv calls text model atGate =
     (let afterUser = addMessage (storedMessages conv) in
      \<lparr>lmCalls = calls, reply = Some (text, model), gatePrompt = atGate,
        summaryCalls =
          (if text \<noteq> []
           then summarizeConversationIfNeeded (addMessage afterUser) (summarizedAt conv)
           else 0)\<rparr>)"

text \<open>A request that leaves the fast paths for the full pipeline, which is not followed
  here.\<close>

definition toPipeline :: "nat \<Rightarrow> string \<Rightarrow> fastPathResult" where
  "toPipeline calls atGate =
     \<lparr>lmCalls = calls, reply = None, gatePrompt = atGate, summaryCalls = 0\<rparr>"

definition lastWithRole :: "string \<Rightarrow> chatMessage list \<Rightarrow> chatMessage option" where
  "lastWithRole r history = (case filter (\<lambda>msg. role msg = r) (rev history) of
                               [] \<Rightarrow> None | msg # _ \<Rightarrow> Some msg)"

definition joinLines :: "string list \<Rightarrow> string" where
  "joinLines parts = concat (case parts of [] \<Rightarrow> [] | p # ps \<Rightarrow> p # map (\<lambda>q. CHR 0x0A # q) ps)"

definition nonBlank :: "string option \<Rightarrow> bool" where
  "nonBlank s = (case s of None \<Rightarrow> False | Some v \<Rightarrow> trim v \<noteq> [])"

definition afterNormalization ::
  "conversationState \<Rightarrow> (string \<Rightarrow> string \<Rightarrow> string option) \<Rightarrow> (string \<Rightarrow> string) \<Rightarrow>
   string option \<Rightarrow> string option \<Rightarrow> string \<Rightarrow> fastPathResult" where
  "afterNormalization conv solverBody instantText fastAnswer userPrompt incoming =
     (let basePrompt = (if nonBlank userPrompt then trim (the userPrompt) else incoming);
          (normalized, changed) = normalizeUserPrompt basePrompt;
          incomingPrompt = (if changed then normalized else incoming);
          solverPrompt = (if changed then normalized else basePrompt)
      in case tryLocalSolvers solverBody solverPrompt of
           Some (solver, answer) \<Rightarrow>
             sendLocalResponse conv 0 answer (''local-'' @ solver) incomingPrompt
         | None \<Rightarrow>
             if isTrivialMessage incomingPrompt \<or> isInstantConversationPrompt incomingPrompt
             then sendLocalResponse conv 0 (instantText incomingPrompt) ''tiny-sprinter''
                    incomingPrompt
             else if isSimpleQaFastPath incomingPrompt
             then (case fastAnswer of
                     Some a \<Rightarrow>
                       if a \<noteq> [] \<and> \<not> isUncertainResponse a
                       then sendLocalResponse conv 1 a ''core-fast'' incomingPrompt
                       else toPipeline 1 incomingPrompt
                   | None \<Rightarrow> toPipeline 1 incomingPrompt)
             else toPipeline 0 incomingPrompt)"

definition wsFastPaths ::
  "conversationState \<Rightarrow> (string \<Rightarrow> 'n option) \<Rightarrow> (string \<Rightarrow> 'n \<Rightarrow> string) \<Rightarrow>
   (string \<Rightarrow> string \<Rightarrow> string option) \<Rightarrow> (string \<Rightarrow> string) \<Rightarrow> string option \<Rightarrow>
   string \<Rightarrow> string option \<Rightarrow> chatMessage list \<Rightarrow> fastPathResult" where
  "wsFastPaths conv solveBody mathText solverBody instantText fastAnswer prompt userPrompt history =
     (let incoming = trim prompt in
      if incoming = []
      then \<lparr>lmCalls = 0, reply = None, gatePrompt = incoming, summaryCalls = 0\<rparr>
      else if isVagueFollowup incoming \<and> history \<noteq> [] then
        (let lastUserText = (case lastWithRole ''user'' history of
                               None \<Rightarrow> [] | Some msg \<Rightarrow> trim (content msg));
             lastAssistantText = (case lastWithRole ''assistant'' history of
                                    None \<Rightarrow> [] | Some msg \<Rightarrow> extractResultSection (content msg))
         in case (if lastUserText \<noteq> [] then trySolveSimpleMath solveBody lastUserText else None) of
              Some followupResult \<Rightarrow>
                sendLocalResponse conv 0 (mathText lastUserText followupResult) ''local-followup''
                  incoming
            | None \<Rightarrow>
                let contextParts =
                      (if lastUserText \<noteq> [] then [''Previous question: '' @ lastUserText] else [])
                      @ (if lastAssistantText \<noteq> [] then [''Previous answer: '' @ lastAssistantText]
                         else [])
                in if contextParts \<noteq> []
                   then afterNormalization conv solverBody instantText fastAnswer userPrompt
                          (''Explain the previous answer clearly and stay on that topic.''
                           @ [CHR 0x0A, CHR 0x0A] @ incoming @ [CHR 0x0A, CHR 0x0A]
                           @ joinLines contextParts)
                   else afterNormalization conv solverBody instantText fastAnswer userPrompt incoming)
      else afterNormalization conv solverBody instantText fastAnswer userPrompt incoming)"

definition localTag :: "string \<Rightarrow> bool" where
  "localTag tag = (tag = ''tiny-sprinter'' \<or> tag = ''local-followup'' \<or> startsWith tag ''local-'')"

text \<open>Examples: a user with no stored conversation, and a user who has said \<open>thanks\<close>
  three times and was answered each time.\<close>

definition newUser :: conversationState where
  "newUser = \<lparr>storedMessages = 0, summarizedAt = 0\<rparr>"

definition thanksHistory :: "chatMessage list" where
  "thanksHistory =
     concat (replicate 3 [\<lparr>role = ''user'', content = ''thanks''\<rparr>,
                          \<lparr>role = ''assistant'', content = ''(instant)''\<rparr>])"

definition thanksUser :: conversationState where
  "thanksUser = \<lparr>storedMessages = length thanksHistory, summarizedAt = 0\<rparr>"

section \<open>The arithmetic evaluator (\<open>src/unnamed/part_001\<close>)\<close>

subsection \<open>Numbers\<close>

text \<open>
  A JavaScript number is an IEEE 754 binary64 value: \<open>NaN\<close>, an infinity, or a finite
  value, here the rational it denotes. The sign of zero is not represented; the
  evaluator never divides by a zero (it tests \<open>b === 0\<close> first), which is the one
  operation that could tell the two zeros apart.
\<close>

datatype jsnum = NaN | PInf | NInf | Fin rat

definition pow2 :: "int \<Rightarrow> rat" where
  "pow2 k = (if 0 \<le> k then 2 ^ nat k else 1 / 2 ^ nat (- k))"

text \<open>Number of binary digits of a positive integer.\<close>

function binaryDigits :: "int \<Rightarrow> int" where
  "binaryDigits n = (if n \<le> 0 then 0 else binaryDigits (n div 2) + 1)"
  by pat_completeness auto
termination
  by (relation "measure nat") auto

declare binaryDigits.simps [simp del]

text \<open>For \<open>a > 0\<close>, the exponent \<open>e\<close> with \<open>2 ^ e \<le> a < 2 ^ (e + 1)\<close>.\<close>

definition floorLog2 :: "rat \<Rightarrow> int" where
  "floorLog2 a = (if 1 \<le> a then binaryDigits \<lfloor>a\<rfloor> - 1 else - binaryDigits (\<lceil>1 / a\<rceil> - 1))"

text \<open>Rounding to the nearest integer, ties to the even one.\<close>

definition roundHalfEven :: "rat \<Rightarrow> int" where
  "roundHalfEven x =
     (let n = \<lfloor>x\<rfloor>; d = x - of_int n in
      if d < 1 / 2 then n
      else if 1 / 2 < d then n + 1
      else if even n then n else n + 1)"

text \<open>
  Rounding of a rational to binary64, to nearest, ties to even. A magnitude of at least
  \<open>2 ^ 1024 - 2 ^ 970\<close> (the largest finite value plus half the last unit) overflows to
  an infinity. Below that the result is a multiple of \<open>2 ^ (e - 52)\<close> for the binary
  exponent \<open>e\<close> of the magnitude, which is not taken below \<open>-1022\<close> (subnormal range).
\<close>

definition round64 :: "rat \<Rightarrow> jsnum" where
  "round64 x =
     (let a = \<bar>x\<bar> in
      if a = 0 then Fin 0
      else if pow2 1024 - pow2 970 \<le> a then (if x < 0 then NInf else PInf)
      else
        let q = pow2 (max (floorLog2 a) (- 1022) - 52);
            r = of_int (roundHalfEven (a / q)) * q
        in Fin (if x < 0 then - r else r))"

definition jsIsNaN :: "jsnum \<Rightarrow> bool" where
  "jsIsNaN v = (v = NaN)"

definition jsIsFinite :: "jsnum \<Rightarrow> bool" where
  "jsIsFinite v = (case v of Fin q \<Rightarrow> True | _ \<Rightarrow> False)"

definition jsNeg :: "jsnum \<Rightarrow> jsnum" where
  "jsNeg v = (case v of NaN \<Rightarrow> NaN | PInf \<Rightarrow> NInf | NInf \<Rightarrow> PInf | Fin q \<Rightarrow> Fin (- q))"

definition jsAdd :: "jsnum \<Rightarrow> jsnum \<Rightarrow> jsnum" where
  "jsAdd a b =
     (case (a, b) of
        (Fin x, Fin y) \<Rightarrow> round64 (x + y)
      | (NaN, _) \<Rightarrow> NaN
      | (_, NaN) \<Rightarrow> NaN
      | (PInf, NInf) \<Rightarrow> NaN
      | (NInf, PInf) \<Rightarrow> NaN
      | (PInf, _) \<Rightarrow> PInf
      | (NInf, _) \<Rightarrow> NInf
      | (_, PInf) \<Rightarrow> PInf
      | (_, NInf) \<Rightarrow> NInf)"

definition jsSub :: "jsnum \<Rightarrow> jsnum \<Rightarrow> jsnum" where
  "jsSub a b = jsAdd a (jsNeg b)"

definition jsSign :: "jsnum \<Rightarrow> int" where
  "jsSign v = (case v of NaN \<Rightarrow> 0 | PInf \<Rightarrow> 1 | NInf \<Rightarrow> - 1 | Fin q \<Rightarrow> sgn \<lfloor>q * 4 / \<bar>q * 4\<bar>\<rfloor>)"

definition jsMul :: "jsnum \<Rightarrow> jsnum \<Rightarrow> jsnum" where
  "jsMul a b =
     (case (a, b) of
        (Fin x, Fin y) \<Rightarrow> round64 (x * y)
      | (NaN, _) \<Rightarrow> NaN
      | (_, NaN) \<Rightarrow> NaN
      | _ \<Rightarrow> (if jsSign a * jsSign b = 0 then NaN
              else if 0 < jsSign a * jsSign b then PInf else NInf))"

definition jsDiv :: "jsnum \<Rightarrow> jsnum \<Rightarrow> jsnum" where
  "jsDiv a b =
     (case (a, b) of
        (NaN, _) \<Rightarrow> NaN
      | (_, NaN) \<Rightarrow> NaN
      | (Fin x, Fin y) \<Rightarrow>
          if y = 0 then (if x = 0 then NaN else if 0 < x then PInf else NInf)
          else round64 (x / y)
      | (Fin x, _) \<Rightarrow> Fin 0
      | (_, Fin y) \<Rightarrow> (if 0 < jsSign a * (if y < 0 then - 1 else 1) then PInf else NInf)
      | _ \<Rightarrow> NaN)"

text \<open>
  \<open>Number(token)\<close> for the tokens the tokenizer produces: a run of digits and dots is a
  number when it has at most one dot and at least one digit; an operator or a
  parenthesis is \<open>NaN\<close>. (Other strings do not reach \<open>Number\<close> here.)
\<close>

definition isNumChar :: "char \<Rightarrow> bool" where
  "isNumChar c = (isDigit c \<or> c = CHR ''.'')"

definition digitsValue :: "string \<Rightarrow> int" where
  "digitsValue ds = foldl (\<lambda>n c. 10 * n + int (digitValue c)) 0 ds"

definition parseDecimal :: "string \<Rightarrow> rat option" where
  "parseDecimal token =
     (let ip = takeWhile isDigit token; rest = dropWhile isDigit token in
      if rest = [] then (if ip = [] then None else Some (of_int (digitsValue ip)))
      else if hd rest = CHR ''.'' \<and> list_all isDigit (tl rest) \<and> (ip \<noteq> [] \<or> tl rest \<noteq> [])
      then Some (of_int (digitsValue ip) + of_int (digitsValue (tl rest)) / 10 ^ length (tl rest))
      else None)"

definition toNumber :: "string \<Rightarrow> jsnum" where
  "toNumber token = (case parseDecimal token of None \<Rightarrow> NaN | Some q \<Rightarrow> round64 q)"

subsection \<open>Tokens, postfix form, evaluation\<close>

text \<open>\<open>tokenizeExpression\<close>; \<open>None\<close> is \<open>null\<close>.\<close>

function tokenizeChars :: "string \<Rightarrow> string list option" where
  "tokenizeChars [] = Some []"
| "tokenizeChars (ch # cs) =
     (if isNumChar ch
      then map_option (\<lambda>tokens. (ch # takeWhile isNumChar cs) # tokens)
             (tokenizeChars (dropWhile isNumChar cs))
      else if ch \<in> set ''+-*/()''
      then map_option (\<lambda>tokens. [ch] # tokens) (tokenizeChars cs)
      else None)"
  by pat_completeness auto
termination
  by (relation "measure length") (auto simp: le_imp_less_Suc length_dropWhile_le)

definition tokenizeExpression :: "string \<Rightarrow> string list option" where
  "tokenizeExpression expr = tokenizeChars (stripSpaces expr)"

text \<open>
  \<open>toRpn\<close>. The operator stack has its top at the head. \<open>prec[token]\<close> is \<open>undefined\<close>
  for a token that is not one of the four operators, and a comparison with
  \<open>undefined\<close> is false.
\<close>

definition precOf :: "string \<Rightarrow> nat option" where
  "precOf token =
     (if token = ''+'' \<or> token = ''-'' then Some 1
      else if token = ''*'' \<or> token = ''/'' then Some 2
      else None)"

definition isOperatorToken :: "string \<Rightarrow> bool" where
  "isOperatorToken token = strIncludes ''+-*/'' token"

definition popsBefore :: "string \<Rightarrow> string \<Rightarrow> bool" where
  "popsBefore token stackTop =
     (isOperatorToken stackTop \<and>
      (case (precOf stackTop, precOf token) of (Some a, Some b) \<Rightarrow> b \<le> a | _ \<Rightarrow> False))"

fun rpnLoop :: "string list \<Rightarrow> string list \<Rightarrow> string list \<Rightarrow> string list option" where
  "rpnLoop output stack [] =
     (if list_ex (\<lambda>op. op = ''('' \<or> op = '')'') stack then None else Some (output @ stack))"
| "rpnLoop output stack (token # tokens) =
     (if \<not> jsIsNaN (toNumber token) then rpnLoop (output @ [token]) stack tokens
      else if token = ''('' then rpnLoop output (token # stack) tokens
      else if token = '')'' then
        (case dropWhile (\<lambda>t. t \<noteq> ''('') stack of
           [] \<Rightarrow> None
         | paren # below \<Rightarrow>
             rpnLoop (output @ takeWhile (\<lambda>t. t \<noteq> ''('') stack) below tokens)
      else if isOperatorToken token then
        rpnLoop (output @ takeWhile (popsBefore token) stack)
          (token # dropWhile (popsBefore token) stack) tokens
      else None)"

definition toRpn :: "string list \<Rightarrow> string list option" where
  "toRpn tokens = rpnLoop [] [] tokens"

text \<open>\<open>evalRpn\<close>. The value stack has its top at the head; popping an empty stack gives
  \<open>undefined\<close>, which is not finite.\<close>

fun evalLoop :: "jsnum list \<Rightarrow> string list \<Rightarrow> jsnum option" where
  "evalLoop stack [] = (case stack of [v] \<Rightarrow> Some v | _ \<Rightarrow> None)"
| "evalLoop stack (token # rpn) =
     (if \<not> jsIsNaN (toNumber token) then evalLoop (toNumber token # stack) rpn
      else
        (case stack of
           b # a # below \<Rightarrow>
             if \<not> jsIsFinite a \<or> \<not> jsIsFinite b then None
             else if token = ''+'' then evalLoop (jsAdd a b # below) rpn
             else if token = ''-'' then evalLoop (jsSub a b # below) rpn
             else if token = ''*'' then evalLoop (jsMul a b # below) rpn
             else if token = ''/'' then evalLoop ((if b = Fin 0 then NaN else jsDiv a b) # below) rpn
             else None
         | _ \<Rightarrow> None))"

definition evalRpn :: "string list \<Rightarrow> jsnum option" where
  "evalRpn rpn = evalLoop [] rpn"

text \<open>\<open>normalized.replace(/\(-/g, "(0-")\<close>.\<close>

fun replaceOpenMinus :: "string \<Rightarrow> string" where
  "replaceOpenMinus (a # b # cs) =
     (if a = CHR ''('' \<and> b = CHR ''-'' then ''(0-'' @ replaceOpenMinus cs
      else a # replaceOpenMinus (b # cs))"
| "replaceOpenMinus cs = cs"

definition isExpressionChar :: "char \<Rightarrow> bool" where
  "isExpressionChar c = (isDigit c \<or> isSpace c \<or> c \<in> set ''+-*/().'')"

definition finiteOnly :: "jsnum option \<Rightarrow> jsnum option" where
  "finiteOnly result = (case result of Some v \<Rightarrow> if jsIsFinite v then Some v else None | None \<Rightarrow> None)"

definition safeEvaluateExpression :: "string \<Rightarrow> jsnum option" where
  "safeEvaluateExpression expr =
     (let raw = trim expr in
      if raw = [] then None
      else if \<not> list_all isExpressionChar raw then None
      else
        let stripped = stripSpaces raw;
            signed = (if startsWith stripped ''-'' then CHR ''0'' # stripped else stripped);
            normalized = replaceOpenMinus signed
        in case tokenizeExpression normalized of
             None \<Rightarrow> None
           | Some tokens \<Rightarrow>
               (case toRpn tokens of
                  None \<Rightarrow> None
                | Some rpn \<Rightarrow> finiteOnly (evalRpn rpn)))"

text \<open>\<open>simpleArithmeticSolver\<close>: \<open>None\<close> is \<open>null\<close>; an answer is given by the two texts
  the envelope is filled with, the expression without white space and the value.\<close>

definition simpleArithmeticSolver :: "string \<Rightarrow> (string \<times> jsnum) option" where
  "simpleArithmeticSolver prompt =
     (let cleaned = trim prompt in
      if cleaned = [] then None
      else if \<not> list_all isExpressionChar cleaned then None
      else map_option (\<lambda>result. (stripSpaces cleaned, result)) (safeEvaluateExpression cleaned))"

subsection \<open>Arithmetic expressions\<close>

text \<open>
  The expressions the evaluator is meant for, as syntax trees of the usual grammar:
  an expression is a sum of terms, optionally starting with a minus sign; a term is a
  product of factors; a factor is a number or an expression in parentheses. Sums and
  products associate to the left. A minus sign is unary exactly at the start of an
  expression, that is at the start of the input or right after an opening parenthesis.
\<close>

datatype addop = OpAdd | OpSub

datatype mulop = OpMul | OpDiv

datatype factor = Literal string | Parens expr
  and "term" = Factor factor | MulDiv "term" mulop factor
  and expr = Term "term" | Negated "term" | AddSub expr addop "term"

definition addChar :: "addop \<Rightarrow> char" where
  "addChar op = (case op of OpAdd \<Rightarrow> CHR ''+'' | OpSub \<Rightarrow> CHR ''-'')"

definition mulChar :: "mulop \<Rightarrow> char" where
  "mulChar op = (case op of OpMul \<Rightarrow> CHR ''*'' | OpDiv \<Rightarrow> CHR ''/'')"

text \<open>The text of an expression, without white space.\<close>

primrec renderFactor :: "factor \<Rightarrow> string"
  and renderTerm :: "term \<Rightarrow> string"
  and renderExpr :: "expr \<Rightarrow> string" where
  "renderFactor (Literal s) = s"
| "renderFactor (Parens e) = CHR ''('' # renderExpr e @ '')''"
| "renderTerm (Factor f) = renderFactor f"
| "renderTerm (MulDiv t op f) = renderTerm t @ mulChar op # renderFactor f"
| "renderExpr (Term t) = renderTerm t"
| "renderExpr (Negated t) = CHR ''-'' # renderTerm t"
| "renderExpr (AddSub e op t) = renderExpr e @ addChar op # renderTerm t"

text \<open>A literal is a non-empty run of digits and dots that \<open>Number\<close> accepts.\<close>

definition validLiteral :: "string \<Rightarrow> bool" where
  "validLiteral s = (s \<noteq> [] \<and> list_all isNumChar s \<and> parseDecimal s \<noteq> None)"

primrec wfFactor :: "factor \<Rightarrow> bool"
  and wfTerm :: "term \<Rightarrow> bool"
  and wfExpr :: "expr \<Rightarrow> bool" where
  "wfFactor (Literal s) = validLiteral s"
| "wfFactor (Parens e) = wfExpr e"
| "wfTerm (Factor f) = wfFactor f"
| "wfTerm (MulDiv t op f) = (wfTerm t \<and> wfFactor f)"
| "wfExpr (Term t) = wfTerm t"
| "wfExpr (Negated t) = wfTerm t"
| "wfExpr (AddSub e op t) = (wfExpr e \<and> wfTerm t)"

text \<open>
  The value of an expression. An operator applied to an operand that is not finite
  gives no value (\<open>None\<close>), a division by zero gives \<open>NaN\<close>, every other operation is
  the IEEE operation, and the unary minus of \<open>x\<close> is \<open>0 - x\<close>.
\<close>

definition applyAdd :: "addop \<Rightarrow> jsnum \<Rightarrow> jsnum \<Rightarrow> jsnum option" where
  "applyAdd op a b =
     (if \<not> jsIsFinite a \<or> \<not> jsIsFinite b then None
      else Some (case op of OpAdd \<Rightarrow> jsAdd a b | OpSub \<Rightarrow> jsSub a b))"

definition applyMul :: "mulop \<Rightarrow> jsnum \<Rightarrow> jsnum \<Rightarrow> jsnum option" where
  "applyMul op a b =
     (if \<not> jsIsFinite a \<or> \<not> jsIsFinite b then None
      else Some (case op of OpMul \<Rightarrow> jsMul a b
                          | OpDiv \<Rightarrow> if b = Fin 0 then NaN else jsDiv a b))"

primrec factorValue :: "factor \<Rightarrow> jsnum option"
  and termValue :: "term \<Rightarrow> jsnum option"
  and exprValue :: "expr \<Rightarrow> jsnum option" where
  "factorValue (Literal s) = Some (toNumber s)"
| "factorValue (Parens e) = exprValue e"
| "termValue (Factor f) = factorValue f"
| "termValue (MulDiv t op f) =
     (case termValue t of
        None \<Rightarrow> None
      | Some a \<Rightarrow> (case factorValue f of None \<Rightarrow> None | Some b \<Rightarrow> applyMul op a b))"
| "exprValue (Term t) = termValue t"
| "exprValue (Negated t) =
     (case termValue t of None \<Rightarrow> None | Some b \<Rightarrow> applyAdd OpSub (Fin 0) b)"
| "exprValue (AddSub e op t) =
     (case exprValue e of
        None \<Rightarrow> None
      | Some a \<Rightarrow> (case termValue t of None \<Rightarrow> None | Some b \<Rightarrow> applyAdd op a b))"

text \<open>An expression that divides by a subexpression whose value is zero.\<close>

primrec factorDividesByZero :: "factor \<Rightarrow> bool"
  and termDividesByZero :: "term \<Rightarrow> bool"
  and exprDividesByZero :: "expr \<Rightarrow> bool" where
  "factorDividesByZero (Literal s) = False"
| "factorDividesByZero (Parens e) = exprDividesByZero e"
| "termDividesByZero (Factor f) = factorDividesByZero f"
| "termDividesByZero (MulDiv t op f) =
     (termDividesByZero t \<or> factorDividesByZero f \<or> (op = OpDiv \<and> factorValue f = Some (Fin 0)))"
| "exprDividesByZero (Term t) = termDividesByZero t"
| "exprDividesByZero (Negated t) = termDividesByZero t"
| "exprDividesByZero (AddSub e op t) = (exprDividesByZero e \<or> termDividesByZero t)"

text \<open>The text after the evaluator has rewritten the unary minus, its tokens, and its
  postfix form.\<close>

primrec normFactor :: "factor \<Rightarrow> string"
  and normTerm :: "term \<Rightarrow> string"
  and normExpr :: "expr \<Rightarrow> string" where
  "normFactor (Literal s) = s"
| "normFactor (Parens e) = CHR ''('' # normExpr e @ '')''"
| "normTerm (Factor f) = normFactor f"
| "normTerm (MulDiv t op f) = normTerm t @ mulChar op # normFactor f"
| "normExpr (Term t) = normTerm t"
| "normExpr (Negated t) = ''0-'' @ normTerm t"
| "normExpr (AddSub e op t) = normExpr e @ addChar op # normTerm t"

primrec factorTokens :: "factor \<Rightarrow> string list"
  and termTokens :: "term \<Rightarrow> string list"
  and exprTokens :: "expr \<Rightarrow> string list" where
  "factorTokens (Literal s) = [s]"
| "factorTokens (Parens e) = ''('' # exprTokens e @ ['')'']"
| "termTokens (Factor f) = factorTokens f"
| "termTokens (MulDiv t op f) = termTokens t @ [mulChar op] # factorTokens f"
| "exprTokens (Term t) = termTokens t"
| "exprTokens (Negated t) = ''0'' # ''-'' # termTokens t"
| "exprTokens (AddSub e op t) = exprTokens e @ [addChar op] # termTokens t"

primrec factorPostfix :: "factor \<Rightarrow> string list"
  and termPostfix :: "term \<Rightarrow> string list"
  and exprPostfix :: "expr \<Rightarrow> string list" where
  "factorPostfix (Literal s) = [s]"
| "factorPostfix (Parens e) = exprPostfix e"
| "termPostfix (Factor f) = factorPostfix f"
| "termPostfix (MulDiv t op f) = termPostfix t @ factorPostfix f @ [[mulChar op]]"
| "exprPostfix (Term t) = termPostfix t"
| "exprPostfix (Negated t) = ''0'' # termPostfix t @ [''-'']"
| "exprPostfix (AddSub e op t) = exprPostfix e @ termPostfix t @ [[addChar op]]"

definition isMulToken :: "string \<Rightarrow> bool" where
  "isMulToken t = (t = ''*'' \<or> t = ''/'')"

definition isOpToken :: "string \<Rightarrow> bool" where
  "isOpToken t = (t = ''+'' \<or> t = ''-'' \<or> t = ''*'' \<or> t = ''/'')"

text \<open>
  The value of an expression as the specification words it: every operator is the
  IEEE operation on the values of its operands, whatever they are, with a division by
  zero giving \<open>NaN\<close>; the unary minus of \<open>x\<close> is \<open>0 - x\<close>. The answer is that value when
  it is finite and \<open>null\<close> otherwise.
\<close>

primrec ieeeFactor :: "factor \<Rightarrow> jsnum"
  and ieeeTerm :: "term \<Rightarrow> jsnum"
  and ieeeExpr :: "expr \<Rightarrow> jsnum" where
  "ieeeFactor (Literal s) = toNumber s"
| "ieeeFactor (Parens e) = ieeeExpr e"
| "ieeeTerm (Factor f) = ieeeFactor f"
| "ieeeTerm (MulDiv t op f) =
     (case op of
        OpMul \<Rightarrow> jsMul (ieeeTerm t) (ieeeFactor f)
      | OpDiv \<Rightarrow> if ieeeFactor f = Fin 0 then NaN else jsDiv (ieeeTerm t) (ieeeFactor f))"
| "ieeeExpr (Term t) = ieeeTerm t"
| "ieeeExpr (Negated t) = jsSub (Fin 0) (ieeeTerm t)"
| "ieeeExpr (AddSub e op t) =
     (case op of
        OpAdd \<Rightarrow> jsAdd (ieeeExpr e) (ieeeTerm t)
      | OpSub \<Rightarrow> jsSub (ieeeExpr e) (ieeeTerm t))"

definition specEvaluate :: "expr \<Rightarrow> jsnum option" where
  "specEvaluate e = finiteOnly (Some (ieeeExpr e))"

text \<open>Examples: \<open>-2+3*(4-1)\<close>, \<open>1/0\<close>, and \<open>1\<close> divided by the literal \<open>1\<close> followed by
  309 zeros, which is too large for a finite binary64 value.\<close>

definition exampleExpr :: expr where
  "exampleExpr =
     AddSub (Negated (Factor (Literal ''2''))) OpAdd
       (MulDiv (Factor (Literal ''3'')) OpMul
          (Parens (AddSub (Term (Factor (Literal ''4''))) OpSub (Factor (Literal ''1'')))))"

definition zeroDivisionExpr :: expr where
  "zeroDivisionExpr = Term (MulDiv (Factor (Literal ''1'')) OpDiv (Literal ''0''))"

definition overflowLiteral :: string where
  "overflowLiteral = CHR ''1'' # replicate 309 (CHR ''0'')"

definition overflowExpr :: expr where
  "overflowExpr = Term (MulDiv (Factor (Literal ''1'')) OpDiv (Literal overflowLiteral))"

section \<open>Properties of the matcher\<close>


lemma set_thenMatch:
  "set (thenMatch g prev rs) =
     {(orElse lc2 lc, r2) | lc r1 lc2 r2. (lc, r1) \<in> set rs \<and> (lc2, r2) \<in> set (g (orElse lc prev) r1)}"
  by (auto simp: thenMatch_def) force

lemma thenMatch_cong_prev:
  assumes "\<And>r1. g p r1 = g q r1"
  shows "thenMatch g p rs = thenMatch g q rs"
proof -
  have "g (orElse lc p) r1 = g (orElse lc q) r1" for lc r1
    using assms by (cases lc) (simp_all add: orElse_def)
  then show ?thesis by (simp add: thenMatch_def)
qed

lemma starIter_cong_prev:
  assumes "\<And>r1. f p r1 = f q r1"
  shows "starIter greedy k f p rest = starIter greedy k f q rest"
proof (induction k arbitrary: rest)
  case 0
  then show ?case by simp
next
  case (Suc k)
  have "thenMatch (starIter greedy k f) p rs = thenMatch (starIter greedy k f) q rs" for rs
    by (rule thenMatch_cong_prev) (rule Suc.IH)
  then show ?case using assms by simp
qed

lemma rxm_after_newline:
  "ml \<or> bolFree r \<Longrightarrow> rxm r ci ml (Some CHR 0x0A) rest = rxm r ci ml None rest"
proof (induction r arbitrary: rest)
  case (Seq a b)
  have "thenMatch (rxm b ci ml) (Some CHR 0x0A) rs = thenMatch (rxm b ci ml) None rs" for rs
    by (rule thenMatch_cong_prev) (use Seq in auto)
  then show ?case using Seq by auto
next
  case (Star r)
  then show ?case by (auto intro: starIter_cong_prev)
next
  case (LStar r)
  then show ?case by (auto intro: starIter_cong_prev)
next
  case Bol
  then show ?case by (auto simp: lineBreakAt_def isLineTerminator_def)
next
  case WordB
  show ?case
    by (simp add: isWordAt_def isWordChar_def isLowerAlpha_def isUpperAlpha_def isDigit_def
        lowerLetters_def upperLetters_def)
qed auto

lemma rxTestFrom_append:
  "rxTestFrom r ci ml (if pre = [] then prev else Some (last pre)) s
     \<Longrightarrow> rxTestFrom r ci ml prev (pre @ s)"
proof (induction pre arbitrary: prev)
  case Nil
  then show ?case by simp
next
  case (Cons c pre)
  have "rxTestFrom r ci ml (Some c) (pre @ s)"
    using Cons.IH[of "Some c"] Cons.prems by (cases "pre = []") auto
  then show ?case by simp
qed

lemma rxTestFrom_after_newline:
  assumes "ml \<or> bolFree r" "rxTestFrom r ci ml None s"
  shows "rxTestFrom r ci ml (Some CHR 0x0A) s"
  using assms by (cases s) (auto simp: rxm_after_newline)

lemma rxTest_prepend_line:
  assumes "ml \<or> bolFree r" "rxTest r ci ml s" "pre \<noteq> []" "last pre = CHR 0x0A"
  shows "rxTest r ci ml (pre @ s)"
  unfolding rxTest_def
  using rxTestFrom_append[where pre=pre and prev=None and r=r and ci=ci and ml=ml and s=s]
    rxTestFrom_after_newline[OF assms(1), of ci s] assms
  by (simp add: rxTest_def)

lemma rxScan_finds:
  "rxTestFrom r ci ml prev s \<Longrightarrow> list_ex isMatch (rxScan r ci ml prev sk s)"
proof (induction r ci ml prev sk s rule: rxScan.induct)
  case (1 r ci ml prev skipped rest)
  show ?case
  proof (cases "rxm r ci ml prev rest")
    case Nil
    then show ?thesis
      using "1.prems" "1.IH"(1)
      by (cases rest) (auto simp: isMatch_def rxScan.simps[of r ci ml prev skipped])
  next
    case (Cons x xs)
    then show ?thesis
      by (cases x; cases rest) (auto simp: isMatch_def rxScan.simps[of r ci ml prev skipped])
  qed
qed

lemma rxMatchAll_nonempty:
  "rxTest r ci ml s \<Longrightarrow> rxMatchAll r ci ml s \<noteq> []"
proof -
  assume "rxTest r ci ml s"
  then have "list_ex isMatch (rxScan r ci ml None [] s)"
    by (simp add: rxTest_def rxScan_finds)
  then obtain x where x: "x \<in> set (rxScan r ci ml None [] s)" "isMatch x"
    by (auto simp: list_ex_iff)
  obtain m where "x = Inr m"
    using x(2) by (cases x) (auto simp: isMatch_def)
  with x(1) have "m \<in> set (rxMatchAll r ci ml s)"
    by (force simp: rxMatchAll_def)
  then show ?thesis by auto
qed

section \<open>Properties of the memory store\<close>

subsection \<open>Tokens and keywords\<close>

lemma toLowerChar_backslash: "toLowerChar c = backslash \<longleftrightarrow> c = backslash"
proof -
  have a: "map_of (zip upperLetters lowerLetters) c = Some d \<Longrightarrow> d \<in> set lowerLetters" for d
    by (drule map_of_SomeD) (rule set_zip_rightD)
  have b: "backslash \<notin> set lowerLetters"
    by (simp add: backslash_def lowerLetters_def)
  have c: "map_of (zip upperLetters lowerLetters) backslash = None"
    by (simp add: backslash_def lowerLetters_def upperLetters_def)
  show ?thesis
    using a b c by (auto simp: toLowerChar_def split: option.splits)
qed

lemma cleanText_no_backslash:
  "backslash \<notin> set text \<Longrightarrow> backslash \<notin> set (cleanText text)"
proof
  assume a: "backslash \<notin> set text" and b: "backslash \<in> set (cleanText text)"
  from b obtain c where c: "c \<in> set text"
    and d: "(if keepTokenChar (toLowerChar c) then toLowerChar c else CHR '' '') = backslash"
    by (auto simp: cleanText_def normalize_def toLowerCase_def)
  have "CHR '' '' \<noteq> backslash" by (simp add: backslash_def)
  with d have "toLowerChar c = backslash" by (auto split: if_splits)
  then have "c = backslash" by (simp add: toLowerChar_backslash)
  with a c show False by simp
qed

lemma splitBackslashS_no_backslash:
  "backslash \<notin> set s \<Longrightarrow> splitBackslashS cur s = [rev cur @ s]"
  by (induction s arbitrary: cur) auto

lemma tokenize_no_backslash:
  "backslash \<notin> set text \<Longrightarrow>
   tokenize text = (if cleanText text = [] then [] else [cleanText text])"
  by (simp add: tokenize_def splitBackslashS_no_backslash cleanText_no_backslash)

lemma uniqueInOrder_single: "uniqueInOrder [x] = [x]" "uniqueInOrder [] = []"
  by (simp_all add: uniqueInOrder_def)

lemma extractKeywords_no_backslash:
  "backslash \<notin> set text \<Longrightarrow>
   extractKeywords text = [] \<or> extractKeywords text = [cleanText text]"
  by (simp add: extractKeywords_def tokenize_no_backslash uniqueInOrder_single)

lemma scoreEntry_keywords_only:
  "optEmbedding options = None \<Longrightarrow>
   scoreEntry cosSim e tokens options \<le> of_nat (length tokens)"
  by (simp add: scoreEntry_def Let_def)

lemma query_no_backslash:
  assumes "backslash \<notin> set query" "optEmbedding options = None"
  shows "queryMemoryEntries cosSim parse now entries query limit options = []"
proof -
  from extractKeywords_no_backslash[OF assms(1)]
  have len: "length (extractKeywords query) \<le> 1" by auto
  have "\<not> MIN_SCORE \<le> scoreEntry cosSim e (extractKeywords query) options" for e
  proof -
    have "scoreEntry cosSim e (extractKeywords query) options \<le> of_nat (length (extractKeywords query))"
      by (rule scoreEntry_keywords_only[OF assms(2)])
    also have "\<dots> \<le> 1" using len by simp
    finally show ?thesis by (simp add: MIN_SCORE_def)
  qed
  then show ?thesis
    by (simp add: queryMemoryEntries_def Let_def)
qed

text \<open>
  Claim C10. \<open>tokenize\<close> splits on a backslash followed by the letter \<open>s\<close>, not on
  white space. So a text without a backslash has at most one keyword, the whole cleaned
  text, and a query without a backslash, asked without a query embedding, recalls nothing:
  one token scores at most 1, below \<open>MIN_SCORE = 2\<close>.
\<close>

theorem backslash_free_query_recalls_nothing:
  "(backslash \<notin> set text \<longrightarrow>
      length (extractKeywords text) \<le> 1 \<and>
      (extractKeywords text = [] \<or> extractKeywords text = [cleanText text])) \<and>
   (backslash \<notin> set query \<and> optEmbedding options = None \<longrightarrow>
      queryMemoryEntries cosSim parse now entries query limit options = [])"
  using extractKeywords_no_backslash[of "text"]
    query_no_backslash[of query options cosSim parse now entries limit]
  by auto

lemma extractKeywords_example: "extractKeywords ''Hello, World'' = [''hello  world'']"
  by (simp add: extractKeywords_def tokenize_def cleanText_def normalize_def toLowerCase_def
      toLowerChar_def upperLetters_def lowerLetters_def keepTokenChar_def isLowerAlpha_def
      isDigit_def backslash_def uniqueInOrder_def STOP_WORDS_def)

theorem backslash_free_query_recalls_nothing_witness:
  "(backslash \<notin> set ''Hello, World'' \<and>
    extractKeywords ''Hello, World'' = [''hello  world'']) \<and>
   (backslash \<notin> set ''hello world'' \<and> optEmbedding exampleOptions = None) \<and>
    queryMemoryEntries (\<lambda>a b. 0) exampleParse 0 [exampleEntry None] ''hello world'' 4 exampleOptions = []"
proof -
  have h1: "backslash \<notin> set ''Hello, World''" "backslash \<notin> set ''hello world''"
    by (simp_all add: backslash_def)
  have h2: "optEmbedding exampleOptions = None"
    by (simp add: exampleOptions_def)
  show ?thesis
    using backslash_free_query_recalls_nothing[of "''Hello, World''" "''hello world''" exampleOptions "\<lambda>a b. 0" exampleParse 0
        "[exampleEntry None]" 4] h1 h2 extractKeywords_example
    by blast
qed

subsection \<open>Expiry\<close>

lemma queryMemoryEntries_subset:
  "set (queryMemoryEntries cosSim parse now entries query limit options)
     \<subseteq> {e \<in> set entries. \<not> isExpired parse now e}"
proof
  fix e
  assume "e \<in> set (queryMemoryEntries cosSim parse now entries query limit options)"
  then obtain sc where
    "(e, sc) \<in> set (take limit
        (sort_key (\<lambda>item. - snd item)
           (filter (\<lambda>item. MIN_SCORE \<le> snd item)
              (map (\<lambda>e. (e, scoreEntry cosSim e (extractKeywords query) options))
                 (filter (\<lambda>e. \<not> isExpired parse now e)
                    (filterEntriesForUser entries (optUserId options)
                       (optTeamMode options) (optTeamId options)))))))"
    by (auto simp: queryMemoryEntries_def Let_def split: if_splits)
  then have "(e, sc) \<in> set (map (\<lambda>e. (e, scoreEntry cosSim e (extractKeywords query) options))
                 (filter (\<lambda>e. \<not> isExpired parse now e)
                    (filterEntriesForUser entries (optUserId options)
                       (optTeamMode options) (optTeamId options))))"
    by (auto dest!: in_set_takeD)
  then have "e \<in> set (filterEntriesForUser entries (optUserId options)
                       (optTeamMode options) (optTeamId options))"
    and ne: "\<not> isExpired parse now e"
    by auto
  then have "e \<in> set entries"
    by (auto simp: filterEntriesForUser_def split: if_splits)
  with ne show "e \<in> {e \<in> set entries. \<not> isExpired parse now e}" by simp
qed

lemma isExpired_past:
  "expiresAt e = Some s \<Longrightarrow> s \<noteq> [] \<Longrightarrow> parse s = Some t \<Longrightarrow> t < now \<Longrightarrow> isExpired parse now e"
  by (simp add: isExpired_def)

lemma isExpired_none:
  "expiresAt e = None \<or> (expiresAt e = Some s \<and> parse s = None) \<Longrightarrow> \<not> isExpired parse now e"
  by (auto simp: isExpired_def)

text \<open>
  Claim C7. An entry whose \<open>expiresAt\<close> parses to a time before \<open>now\<close> is never in the
  result of \<open>queryMemoryEntries\<close> and is removed by \<open>pruneExpiredEntries\<close>; an entry
  without \<open>expiresAt\<close>, or with one that does not parse, is not expired and is kept by
  \<open>pruneExpiredEntries\<close>.
\<close>

theorem expired_entries_excluded:
  "(expiresAt e = Some s \<and> s \<noteq> [] \<and> parse s = Some t \<and> t < now \<longrightarrow>
      e \<notin> set (queryMemoryEntries cosSim parse now entries query limit options) \<and>
      e \<notin> set (pruneExpiredEntries parse now entries)) \<and>
   (expiresAt e' = None \<or> (expiresAt e' = Some s' \<and> parse s' = None) \<longrightarrow>
      \<not> isExpired parse now e' \<and>
      (e' \<in> set entries \<longrightarrow> e' \<in> set (pruneExpiredEntries parse now entries)))"
  using queryMemoryEntries_subset[of cosSim parse now entries query limit options]
    isExpired_past[of e s parse t now] isExpired_none[of e' s' parse now]
  by (auto simp: pruneExpiredEntries_def)


theorem expired_entries_excluded_witness:
  "(expiresAt (exampleEntry (Some ''2024-01-31T00:00:00.000Z'')) = Some ''2024-01-31T00:00:00.000Z'' \<and>
    ''2024-01-31T00:00:00.000Z'' \<noteq> [] \<and>
    exampleParse ''2024-01-31T00:00:00.000Z'' = Some 1706659200000 \<and>
    (1706659200000::int) < 1706659200001) \<and>
   exampleEntry (Some ''2024-01-31T00:00:00.000Z'')
     \<notin> set (pruneExpiredEntries exampleParse 1706659200001
              [exampleEntry (Some ''2024-01-31T00:00:00.000Z''), exampleEntry (Some ''soon'')]) \<and>
   (expiresAt (exampleEntry (Some ''soon'')) = Some ''soon'' \<and> exampleParse ''soon'' = None) \<and>
   exampleEntry (Some ''soon'')
     \<in> set (pruneExpiredEntries exampleParse 1706659200001
              [exampleEntry (Some ''2024-01-31T00:00:00.000Z''), exampleEntry (Some ''soon'')])"
proof -
  have h1: "expiresAt (exampleEntry (Some ''2024-01-31T00:00:00.000Z'')) = Some ''2024-01-31T00:00:00.000Z'' \<and>
    ''2024-01-31T00:00:00.000Z'' \<noteq> [] \<and>
    exampleParse ''2024-01-31T00:00:00.000Z'' = Some 1706659200000 \<and>
    (1706659200000::int) < 1706659200001"
    by (simp add: exampleEntry_def exampleParse_def)
  have h2: "expiresAt (exampleEntry (Some ''soon'')) = Some ''soon'' \<and> exampleParse ''soon'' = None"
    by (simp add: exampleEntry_def exampleParse_def)
  have h3: "exampleEntry (Some ''soon'')
     \<in> set [exampleEntry (Some ''2024-01-31T00:00:00.000Z''), exampleEntry (Some ''soon'')]"
    by simp
  show ?thesis
    using expired_entries_excluded[of "exampleEntry (Some ''2024-01-31T00:00:00.000Z'')" "''2024-01-31T00:00:00.000Z''"
        exampleParse 1706659200000 1706659200001 undefined
        "[exampleEntry (Some ''2024-01-31T00:00:00.000Z''), exampleEntry (Some ''soon'')]"
        "[]" 4 exampleOptions "exampleEntry (Some ''soon'')" "''soon''"] h1 h2 h3
    by blast
qed


subsection \<open>Size bounds\<close>

lemma saveMemory_length: "length (saveMemory entries) = min MAX_ENTRIES (length entries)"
  by (auto simp: saveMemory_def)

lemma saveMemory_suffix: "suffix (saveMemory entries) entries"
  by (simp add: saveMemory_def suffix_drop)

lemma evictOldest_distinct:
  "distinct (map fst cache) \<Longrightarrow> evictOldest cache = tl cache"
  by (cases cache) (auto simp: evictOldest_def)

lemma update_length_le: "length (AList.update k v al) \<le> Suc (length al)"
  by (induction al) auto

lemma cache_write_bound:
  assumes "distinct (map fst cache)" "length cache \<le> n" "0 < n"
  shows "length (AList.update k v (if n \<le> length cache then evictOldest cache else cache)) \<le> n
       \<and> distinct (map fst (AList.update k v (if n \<le> length cache then evictOldest cache else cache)))"
proof (cases "n \<le> length cache")
  case True
  with assms have ne: "cache \<noteq> []" by auto
  have "length (tl cache) < n" using assms True ne by (cases cache) auto
  moreover have "distinct (map fst (tl cache))" using assms(1) by (cases cache) auto
  ultimately show ?thesis
    using True assms(1) update_length_le[of k v "tl cache"]
    by (simp add: evictOldest_distinct distinct_update)
next
  case False
  then show ?thesis
    using assms update_length_le[of k v cache] by (simp add: distinct_update)
qed

lemma storeInCache_inv:
  "distinct (map fst cache) \<and> length cache \<le> MAX_CACHE_ENTRIES \<Longrightarrow>
   distinct (map fst (storeInCache cache k v)) \<and>
   length (storeInCache cache k v) \<le> MAX_CACHE_ENTRIES"
  using cache_write_bound[of cache MAX_CACHE_ENTRIES k v]
  by (simp add: storeInCache_def MAX_CACHE_ENTRIES_def)

lemma storeInCache_reachable:
  "distinct (map fst cache) \<and> length cache \<le> MAX_CACHE_ENTRIES \<Longrightarrow>
   distinct (map fst (foldl (\<lambda>c (k, v). storeInCache c k v) cache writes)) \<and>
   length (foldl (\<lambda>c (k, v). storeInCache c k v) cache writes) \<le> MAX_CACHE_ENTRIES"
proof (induction writes arbitrary: cache)
  case Nil
  then show ?case by simp
next
  case (Cons w writes)
  obtain k v where w: "w = (k, v)" by (cases w)
  show ?case
    using Cons.IH[OF storeInCache_inv[OF Cons.prems, of k v]] by (simp add: w)
qed

lemma load_adds_every_item:
  "distinct (map fst items) \<Longrightarrow> set (map fst items) \<inter> set (map fst cache) = {} \<Longrightarrow>
   map fst (foldl (\<lambda>cache (key, entry). AList.update key entry cache) cache items)
     = map fst cache @ map fst items"
proof (induction items arbitrary: cache)
  case Nil
  then show ?case by simp
next
  case (Cons item items)
  obtain k v where item: "item = (k, v)" by (cases item)
  have new: "k \<notin> set (map fst cache)" using Cons.prems(2) by (auto simp: item)
  then have keys: "map fst (AList.update k v cache) = map fst cache @ [k]"
    by (simp add: update_keys)
  have "set (map fst items) \<inter> set (map fst (AList.update k v cache)) = {}"
    using Cons.prems by (auto simp: item keys)
  from Cons.IH[OF _ this] Cons.prems(1) show ?case by (simp add: item keys)
qed

lemma savedItems_keys: "map fst savedItems = [0..<500]"
  by (simp add: savedItems_def comp_def)

lemma loaded_cache_keys:
  "map fst (cacheEntries (loadSavedItems savedItems (setCachedResponse freshModule 500 v)))
     = 500 # [0..<500]"
proof -
  have "map fst (foldl (\<lambda>cache (key, entry). AList.update key entry cache) [(500, v)] savedItems)
      = map fst [(500, v)] @ map fst savedItems"
    by (rule load_adds_every_item) (simp_all add: savedItems_keys)
  then show ?thesis
    by (simp add: loadSavedItems_def setCachedResponse_def ensureCacheLoaded_def freshModule_def
        MAX_CACHE_SIZE_def savedItems_keys)
qed

lemma loaded_cache_write_keys:
  "map fst (cacheEntries (setCachedResponse
      (loadSavedItems savedItems (setCachedResponse freshModule 500 v)) 501 w))
     = [0..<500] @ [501]"
proof -
  let ?m = "loadSavedItems savedItems (setCachedResponse freshModule 500 v)"
  have keys: "map fst (cacheEntries ?m) = 500 # [0..<500]" by (rule loaded_cache_keys)
  then have d: "distinct (map fst (cacheEntries ?m))" by simp
  have len: "length (cacheEntries ?m) = 501"
    using arg_cong[OF keys, of length] by simp
  have loaded: "cacheLoaded ?m"
    by (simp add: loadSavedItems_def setCachedResponse_def ensureCacheLoaded_def freshModule_def)
  have "map fst (tl (cacheEntries ?m)) = [0..<500]"
    using keys by (simp add: map_tl)
  then have "map fst (AList.update 501 w (tl (cacheEntries ?m))) = [0..<500] @ [501]"
    by (simp add: update_keys)
  then show ?thesis
    using loaded len evictOldest_distinct[OF d]
    by (simp add: setCachedResponse_def MAX_CACHE_SIZE_def Let_def)
qed

text \<open>
  Claim C6 does not hold of the persisted response cache. \<open>saveMemory\<close> writes exactly
  the last 500 entries, and the in-process cache of \<open>storeInCache\<close> never holds more than
  500. But the first \<open>setCachedResponse\<close> of a process starts the load of the saved
  file, and the load enters every saved item without looking at the size: with 500 saved
  items the cache holds 501 entries once the load is done, and a further write evicts
  one entry and adds one, so 501 entries remain.
\<close>

theorem cache_load_exceeds_bound:
  "length (saveMemory entries) = min 500 (length entries) \<and>
   suffix (saveMemory entries) entries \<and>
   length (foldl (\<lambda>c (k, v). storeInCache c k v) [] writes) \<le> 500 \<and>
   length savedItems = 500 \<and>
   length (cacheEntries (setCachedResponse freshModule (500::nat) (0::nat))) = 1 \<and>
   length (cacheEntries (loadSavedItems savedItems (setCachedResponse freshModule 500 0))) = 501 \<and>
   length (cacheEntries (setCachedResponse
      (loadSavedItems savedItems (setCachedResponse freshModule 500 0)) 501 0)) = 501"
proof -
  have a: "length (cacheEntries (loadSavedItems savedItems (setCachedResponse freshModule 500 0)))
      = 501"
    using arg_cong[OF loaded_cache_keys[of 0], of length] by simp
  have b: "length (cacheEntries (setCachedResponse
      (loadSavedItems savedItems (setCachedResponse freshModule 500 0)) 501 0)) = 501"
    using arg_cong[OF loaded_cache_write_keys[of 0 0], of length] by simp
  have c: "length (cacheEntries (setCachedResponse freshModule (500::nat) (0::nat))) = 1"
    by (simp add: setCachedResponse_def ensureCacheLoaded_def freshModule_def MAX_CACHE_SIZE_def)
  have d: "length (foldl (\<lambda>c (k, v). storeInCache c k v) [] writes) \<le> 500"
    using storeInCache_reachable[of "[]" writes] by (simp add: MAX_CACHE_ENTRIES_def)
  show ?thesis
    using saveMemory_length[of entries] saveMemory_suffix[of entries] a b c d
    by (simp add: MAX_ENTRIES_def savedItems_def)
qed
section \<open>Properties of intent scoring\<close>

text \<open>
  Claim C8, as amended. A pattern adds \<open>min 2 matches\<close> to the score of an intent. For
  \<open>MATH_REASONING\<close> the patterns \<open>how many\<close> and \<open>how much\<close> add
  \<open>min 3 (2 * matches)\<close> when the prompt contains a digit: one more than unboosted when
  the pattern occurs, and never more than 3. Scores are never negative.
\<close>

theorem pattern_contribution_bounds:
  "(\<not> (intentType = ''MATH_REASONING'' \<and> (pattern = ''how many'' \<or> pattern = ''how much'')
        \<and> hasDigit prompt) \<longrightarrow>
      patternContribution intentType pattern prompt
        = min 2 (int (countMatches pattern (toLowerCase prompt)))) \<and>
   (intentType = ''MATH_REASONING'' \<and> (pattern = ''how many'' \<or> pattern = ''how much'')
        \<and> hasDigit prompt \<longrightarrow>
      patternContribution intentType pattern prompt
        = min 3 (2 * int (countMatches pattern (toLowerCase prompt))) \<and>
      (0 < countMatches pattern (toLowerCase prompt) \<longrightarrow>
         patternContribution intentType pattern prompt
           = min 2 (int (countMatches pattern (toLowerCase prompt))) + 1)) \<and>
   0 \<le> patternContribution intentType pattern prompt \<and>
   patternContribution intentType pattern prompt \<le> 3 \<and>
   0 \<le> intentScore intentType config prompt context"
  by (auto simp: patternContribution_def Let_def intentScore_def min_def)

text \<open>
  Claim C8 as stated speaks of a boost of 2. With one occurrence of \<open>how much\<close> the
  pattern adds 2 when the prompt has a digit and 1 when it has none: the boost is 1.
\<close>

theorem how_much_boost_is_one:
  "patternContribution ''MATH_REASONING'' ''how much'' ''How much is 5 apples?'' = 2 \<and>
   patternContribution ''MATH_REASONING'' ''how much'' ''How much is five apples?'' = 1"
  by code_simp

lemma pattern_contribution_examples:
  "hasDigit ''How much is 5 apples?'' \<and>
   countMatches ''how much'' (toLowerCase ''How much is 5 apples?'') = 1 \<and>
   countMatches ''total'' (toLowerCase ''total total total'') = 3"
  by code_simp

theorem pattern_contribution_bounds_witness:
  "patternContribution ''MATH_REASONING'' ''total'' ''total total total'' = 2 \<and>
   (''MATH_REASONING'' = ''MATH_REASONING'' \<and> (''how much'' = ''how many'' \<or> ''how much'' = ''how much'')
      \<and> hasDigit ''How much is 5 apples?'') \<and>
   0 < countMatches ''how much'' (toLowerCase ''How much is 5 apples?'') \<and>
   patternContribution ''MATH_REASONING'' ''how much'' ''How much is 5 apples?''
     = min 2 (int (countMatches ''how much'' (toLowerCase ''How much is 5 apples?''))) + 1"
proof -
  have n: "\<not> (''MATH_REASONING'' = ''MATH_REASONING'' \<and> (''total'' = ''how many'' \<or> ''total'' = ''how much'')
        \<and> hasDigit ''total total total'')"
    by simp
  show ?thesis
    using pattern_contribution_bounds[where intentType="''MATH_REASONING''" and pattern="''total''" and prompt="''total total total''"]
      pattern_contribution_bounds[where intentType="''MATH_REASONING''" and pattern="''how much''"
          and prompt="''How much is 5 apples?''"]
      n pattern_contribution_examples
    by simp
qed

section \<open>Properties of the generation supervisor\<close>











section \<open>Properties of ranking validation\<close>

lemma starIter_has_zero: "(None, rest) \<in> set (starIter greedy k f prev rest)"
  by (cases k) (auto simp: Let_def)

lemma thenMatch_mono_first:
  "set rs \<subseteq> set rs' \<Longrightarrow> set (thenMatch g prev rs) \<subseteq> set (thenMatch g prev rs')"
  unfolding set_thenMatch by blast

lemma thenMatch_mono_second:
  "(\<And>p r. set (g p r) \<subseteq> set (g' p r)) \<Longrightarrow>
   set (thenMatch g prev rs) \<subseteq> set (thenMatch g' prev rs)"
  unfolding set_thenMatch by blast

lemma digit_in_digits:
  assumes "isDigit c"
  shows "set (rxm (Chr c) False ml p rest) \<subseteq> set (rxm (Plus Digit) False ml p rest)"
proof (cases rest)
  case Nil
  then show ?thesis by simp
next
  case (Cons d ds)
  show ?thesis
  proof (cases "c = d")
    case True
    have "(None, ds) \<in> set (starIter True (length ds) (rxm Digit False ml) (Some d) ds)"
      by (rule starIter_has_zero)
    then have "(Some d, ds) \<in> set (rxm (Plus Digit) False ml p rest)"
      using assms True Cons
      by (force simp: Plus_def Digit_def set_thenMatch chrMatches_def clsMatches_def orElse_def)
    then show ?thesis using Cons True by (simp add: chrMatches_def)
  next
    case False
    then show ?thesis using Cons by (simp add: chrMatches_def)
  qed
qed

lemma numberedLine_is_rankingItem:
  assumes "isDigit c"
  shows "set (rxm (numberedLineRegex c) False ml p rest) \<subseteq> set (rxm rankingItemRegex False ml p rest)"
proof -
  let ?tail = "Seq (Chr CHR ''.'') (Seq (Plus Space) Eps)"
  have a: "set (rxm (Seq (Chr c) ?tail) False ml p r) \<subseteq> set (rxm (Seq (Plus Digit) ?tail) False ml p r)"
    for p r
    using thenMatch_mono_first[OF digit_in_digits[OF assms, of ml p r]] by simp
  have b: "set (rxm (Seq (Star Space) (Seq (Chr c) ?tail)) False ml p r)
        \<subseteq> set (rxm (Seq (Star Space) (Seq (Plus Digit) ?tail)) False ml p r)" for p r
    using thenMatch_mono_second[of "rxm (Seq (Chr c) ?tail) False ml" "rxm (Seq (Plus Digit) ?tail) False ml"] a
    by simp
  have "set (rxm (Seq Bol (Seq (Star Space) (Seq (Chr c) ?tail))) False ml p rest)
        \<subseteq> set (rxm (Seq Bol (Seq (Star Space) (Seq (Plus Digit) ?tail))) False ml p rest)"
    using thenMatch_mono_second[of "rxm (Seq (Star Space) (Seq (Chr c) ?tail)) False ml"
        "rxm (Seq (Star Space) (Seq (Plus Digit) ?tail)) False ml"] b
    unfolding rxm.simps(4)[of Bol] by blast
  then show ?thesis
    by (simp add: numberedLineRegex_def rankingItemRegex_def)
qed

lemma rxTestFrom_mono:
  assumes "\<And>p r. set (rxm a ci ml p r) \<subseteq> set (rxm b ci ml p r)"
  shows "rxTestFrom a ci ml prev s \<Longrightarrow> rxTestFrom b ci ml prev s"
proof (induction s arbitrary: prev)
  case Nil
  then show ?case using assms[of prev "[]"] by auto
next
  case (Cons c cs)
  then show ?case using assms[of prev "c # cs"] by auto
qed

lemma validated_has_items:
  assumes "validateRankingResponse raw"
  shows "0 < countRankingItems raw"
proof -
  have "rxTest (numberedLineRegex CHR ''1'') False True raw"
    using assms by (simp add: validateRankingResponse_def Let_def)
  then have "rxTest rankingItemRegex False True raw"
    unfolding rxTest_def
    by (rule rxTestFrom_mono[rotated]) (rule numberedLine_is_rankingItem, simp add: isDigit_def)
  then show ?thesis
    using rxMatchAll_nonempty by (simp add: countRankingItems_def)
qed

lemma fewItemsNotice_ends_line:
  "fewItemsNotice n \<noteq> [] \<and> last (fewItemsNotice n) = CHR 0x0A"
  by (simp add: fewItemsNotice_def)

lemma bolFree_citationRegex: "bolFree citationRegex"
  by (simp add: citationRegex_def Plus_def Digit_def)

lemma validated_with_notice:
  assumes "validateRankingResponse raw"
  shows "validateRankingResponse (fewItemsNotice n @ raw)"
  using assms fewItemsNotice_ends_line[of n] bolFree_citationRegex
  by (auto simp: validateRankingResponse_def Let_def intro!: rxTest_prepend_line)

lemma noListRefusal_facts:
  "\<not> validateRankingResponse noListRefusal" "countRankingItems noListRefusal = 0"
  by code_simp+

text \<open>
  Claim C2 does not hold of the code when web sources are present. The ranking block
  builds its strict prompt before it validates anything, and the prompt reads
  \<open>webContext\<close>, which is out of scope there: whatever the model generated, also a
  ranked list with citations that passes \<open>validateRankingResponse\<close>, the block throws
  a \<open>ReferenceError\<close> and the request ends with an \<open>error\<close> event. No response is
  validated, regenerated or given a notice. Only the branch without sources gives what
  the claim says, the stock refusal.
\<close>

theorem ranking_block_throws_when_sources_present:
  "rankingValidationBlock (Some (source # sources)) generated regenerated incomingPrompt
     = Inl webContextError \<and>
   validateRankingResponse rankedAnswer \<and>
   rankingValidationBlock (Some oneSource) rankedAnswer None ''top 10 LLMs''
     = Inl webContextError \<and>
   rankingValidationBlock (Some []) generated regenerated incomingPrompt
     = Inr (noSourcesRefusal, 0) \<and>
   rankingValidationBlock None generated regenerated incomingPrompt
     = Inr (noSourcesRefusal, 0)"
proof -
  have "validateRankingResponse rankedAnswer" by code_simp
  then show ?thesis
    by (simp add: rankingValidationBlock_def strictPrompt_def oneSource_def)
qed
section \<open>Properties of the sandbox denylists\<close>






lemma trim_Nil: "trim [] = []"
  by (simp add: trim_def)


















section \<open>Properties of the response formatter\<close>

lemma splitChar_chars:
  "piece \<in> set (splitChar sep cur s) \<Longrightarrow> set piece \<subseteq> set cur \<union> set s"
proof (induction s arbitrary: cur)
  case Nil
  then show ?case by simp
next
  case (Cons c s)
  show ?case
  proof (cases "c = sep")
    case True
    then have "piece = rev cur \<or> piece \<in> set (splitChar sep [] s)"
      using Cons.prems by simp
    then show ?thesis using Cons.IH[of "[]"] by auto
  next
    case False
    then have "piece \<in> set (splitChar sep (c # cur) s)"
      using Cons.prems by simp
    then show ?thesis using Cons.IH[of "c # cur"] by auto
  qed
qed

lemma no_pipe_no_table:
  assumes "CHR ''|'' \<notin> set text"
  shows "extractAndFormatTable text = FText"
proof -
  have "CHR ''|'' \<notin> set line" if "line \<in> set (splitOn (CHR 0x0A) text)" for line
    using that assms splitChar_chars[of line "CHR 0x0A" "[]" "text"]
    by (auto simp: splitOn_def)
  then have "concat (map (\<lambda>line.
              if CHR ''|'' \<in> set line then
                (if 1 < length (filter (\<lambda>c. c \<noteq> []) (map trim (splitOn (CHR ''|'') line)))
                 then [filter (\<lambda>c. c \<noteq> []) (map trim (splitOn (CHR ''|'') line))] else [])
              else []) (filter (\<lambda>l. trim l \<noteq> []) (splitOn (CHR 0x0A) text))) = []"
    unfolding concat_eq_Nil_conv by auto
  then show ?thesis
    unfolding extractAndFormatTable_def Let_def by (simp only: list.case)
qed

lemma table_pattern_without_pipe_is_text:
  assumes "\<not> hasChartPattern text" "hasTablePattern text" "CHR ''|'' \<notin> set text"
  shows "formatResponse parsesToChart text = FText"
  using assms no_pipe_no_table[OF assms(3)]
  by (simp add: formatResponse_def)

text \<open>
  Claim C9 holds that numbered lines with names and values, without pipe characters,
  come out as a ranking. For the two lines below \<open>hasTablePattern\<close> answers first (its
  second form matches a numbered line with a colon and a number),
  \<open>extractAndFormatTable\<close> finds no pipe row and returns \<open>text\<close>, and \<open>formatResponse\<close>
  returns that without trying the ranking, which would have been found.
\<close>

theorem numbered_values_formatted_as_text:
  "CHR ''|'' \<notin> set ''1. USA: 5000\<newline>2. Russia: 4000'' \<and>
   hasTablePattern ''1. USA: 5000\<newline>2. Russia: 4000'' \<and>
   formatResponse (\<lambda>json. False) ''1. USA: 5000\<newline>2. Russia: 4000'' = FText \<and>
   hasRankingPattern ''1. USA: 5000\<newline>2. Russia: 4000'' \<and>
   extractAndFormatRanking ''1. USA: 5000\<newline>2. Russia: 4000'' = FRanking"
  by code_simp

section \<open>Properties of the local fast paths\<close>

lemma startsWith_append: "startsWith (p @ s) p"
  by (induction p) auto

lemma localTag_solver: "localTag (''local-'' @ solver)"
  unfolding localTag_def using startsWith_append[of "''local-''" solver] by blast

lemma sendLocalResponse_fields:
  "lmCalls (sendLocalResponse conv calls text model atGate) = calls"
  "reply (sendLocalResponse conv calls text model atGate) = Some (text, model)"
  "gatePrompt (sendLocalResponse conv calls text model atGate) = atGate"
  "summaryCalls (sendLocalResponse conv calls text model atGate) =
     (if text = [] then 0
      else summarizeConversationIfNeeded (addMessage (addMessage (storedMessages conv)))
             (summarizedAt conv))"
  by (simp_all add: sendLocalResponse_def Let_def)

lemma toPipeline_fields:
  "lmCalls (toPipeline calls atGate) = calls" "reply (toPipeline calls atGate) = None"
  "gatePrompt (toPipeline calls atGate) = atGate" "summaryCalls (toPipeline calls atGate) = 0"
  by (simp_all add: toPipeline_def)

lemma short_conversation_no_summary:
  "stored < 6 \<Longrightarrow> summarizeConversationIfNeeded (addMessage (addMessage stored)) lastCount = 0"
  by (simp add: summarizeConversationIfNeeded_def addMessage_def SUMMARY_EVERY_MESSAGES_def
      MAX_MEMORY_SIZE_def)

lemma afterNormalization_gate:
  assumes "r = afterNormalization conv solverBody instantText fastAnswer userPrompt incoming"
    and "isTrivialMessage (gatePrompt r) \<or> isInstantConversationPrompt (gatePrompt r)"
  shows "lmCalls r = 0 \<and>
    (\<exists>text tag. reply r = Some (text, tag) \<and> localTag tag \<and>
       summaryCalls r =
         (if text = [] then 0
          else summarizeConversationIfNeeded (addMessage (addMessage (storedMessages conv)))
                 (summarizedAt conv)))"
proof -
  obtain normalized changed where n:
    "normalizeUserPrompt (if nonBlank userPrompt then trim (the userPrompt) else incoming)
       = (normalized, changed)"
    by (cases "normalizeUserPrompt (if nonBlank userPrompt then trim (the userPrompt) else incoming)")
  let ?inc = "if changed then normalized else incoming"
  let ?sp = "if changed then normalized
             else (if nonBlank userPrompt then trim (the userPrompt) else incoming)"
  show ?thesis
  proof (cases "tryLocalSolvers solverBody ?sp")
    case (Some a)
    then obtain solver answer where "a = (solver, answer)" by (cases a)
    with Some assms(1) n localTag_solver[of solver] show ?thesis
      by (simp add: afterNormalization_def Let_def sendLocalResponse_fields)
  next
    case None
    have g: "gatePrompt r = ?inc"
      using assms(1) n None
      by (simp add: afterNormalization_def Let_def sendLocalResponse_fields toPipeline_fields
          split: option.splits)
    then show ?thesis
      using assms n None
      by (simp add: afterNormalization_def Let_def localTag_def sendLocalResponse_fields)
  qed
qed

lemma afterNormalization_unchanged:
  "\<not> nonBlank userPrompt \<Longrightarrow> snd (normalizeUserPrompt incoming) = False \<Longrightarrow>
   gatePrompt (afterNormalization conv solverBody instantText fastAnswer userPrompt incoming)
     = incoming"
  by (cases "normalizeUserPrompt incoming")
     (simp add: afterNormalization_def Let_def sendLocalResponse_fields toPipeline_fields
        split: option.splits prod.splits)

text \<open>
  Claim C4, as amended. The test for an instant reply is made on the prompt as it stands
  at that point of the handler: after the expansion of a vague follow-up and after
  spelling normalization. When that prompt satisfies \<open>isTrivialMessage\<close> or
  \<open>isInstantConversationPrompt\<close>, the request is answered with a locally built text (a
  local solver, the follow-up arithmetic, or the instant-conversation table) and the
  handler calls no model to build it. Storing the reply schedules the conversation
  summary, which calls the model once when the stored conversation of the user has
  then reached 8 messages, 8 more than at the last summary, and not otherwise; a user
  with fewer than 6 stored messages causes no call at all. The prompt at the test is
  the prompt sent, trimmed, when the follow-up expansion does not apply, no
  \<open>userPrompt\<close> is given and normalization changes nothing.
\<close>

theorem instant_prompt_at_gate_answered_locally:
  "(trim prompt \<noteq> [] \<and>
    (isTrivialMessage
       (gatePrompt (wsFastPaths conv solveBody mathText solverBody instantText fastAnswer prompt
          userPrompt history)) \<or>
     isInstantConversationPrompt
       (gatePrompt (wsFastPaths conv solveBody mathText solverBody instantText fastAnswer prompt
          userPrompt history))) \<longrightarrow>
      lmCalls (wsFastPaths conv solveBody mathText solverBody instantText fastAnswer prompt
          userPrompt history) = 0 \<and>
      (\<exists>text tag.
          reply (wsFastPaths conv solveBody mathText solverBody instantText fastAnswer prompt
            userPrompt history) = Some (text, tag) \<and> localTag tag \<and>
          summaryCalls (wsFastPaths conv solveBody mathText solverBody instantText fastAnswer
            prompt userPrompt history) =
            (if text = [] then 0
             else summarizeConversationIfNeeded (addMessage (addMessage (storedMessages conv)))
                    (summarizedAt conv))) \<and>
      (storedMessages conv < 6 \<longrightarrow>
         summaryCalls (wsFastPaths conv solveBody mathText solverBody instantText fastAnswer
            prompt userPrompt history) = 0)) \<and>
   (\<not> (isVagueFollowup (trim prompt) \<and> history \<noteq> []) \<and> \<not> nonBlank userPrompt \<and>
    snd (normalizeUserPrompt (trim prompt)) = False \<longrightarrow>
      gatePrompt (wsFastPaths conv solveBody mathText solverBody instantText fastAnswer prompt
          userPrompt history) = trim prompt)"
proof -
  let ?r = "wsFastPaths conv solveBody mathText solverBody instantText fastAnswer prompt
      userPrompt history"
  let ?due = "summarizeConversationIfNeeded (addMessage (addMessage (storedMessages conv)))
      (summarizedAt conv)"
  have a: "lmCalls ?r = 0 \<and>
      (\<exists>text tag. reply ?r = Some (text, tag) \<and> localTag tag \<and>
         summaryCalls ?r = (if text = [] then 0 else ?due))"
    if ne: "trim prompt \<noteq> []"
      and gate: "isTrivialMessage (gatePrompt ?r) \<or> isInstantConversationPrompt (gatePrompt ?r)"
  proof (cases "\<exists>x. ?r = afterNormalization conv solverBody instantText fastAnswer userPrompt x")
    case True
    then obtain x where
      "?r = afterNormalization conv solverBody instantText fastAnswer userPrompt x"
      by blast
    then show ?thesis using gate by (rule afterNormalization_gate)
  next
    case False
    then show ?thesis
      using ne
      by (auto simp: wsFastPaths_def Let_def localTag_def sendLocalResponse_fields
          split: option.splits if_splits)
  qed
  have c: "summaryCalls ?r = 0"
    if "trim prompt \<noteq> []"
      "isTrivialMessage (gatePrompt ?r) \<or> isInstantConversationPrompt (gatePrompt ?r)"
      "storedMessages conv < 6"
    using a[OF that(1,2)] short_conversation_no_summary[OF that(3), of "summarizedAt conv"]
    by (auto split: if_splits)
  have b: "gatePrompt ?r = trim prompt"
    if "\<not> (isVagueFollowup (trim prompt) \<and> history \<noteq> [])" "\<not> nonBlank userPrompt"
      "snd (normalizeUserPrompt (trim prompt)) = False"
    using that
      afterNormalization_unchanged[of userPrompt "trim prompt" conv solverBody instantText fastAnswer]
    by (auto simp: wsFastPaths_def Let_def)
  show ?thesis using a b c by blast
qed

text \<open>
  Claim C4 as stated speaks of the prompt as sent, and of no call at all. \<open>how are you\<close>
  satisfies \<open>isInstantConversationPrompt\<close>, but in a running conversation it is also a
  vague follow-up: it is expanded, the expanded prompt is not an instant prompt, and
  the simple-question path calls the model. And the fourth \<open>thanks\<close> of a user is
  answered from the table, but storing that answer brings the conversation to 8
  messages and the summary scheduled with it calls the model. The solver parameters
  here answer whenever they are asked, so it is the tests of the solvers that let the
  prompts through.
\<close>

theorem instant_prompt_expanded_goes_to_model:
  "isInstantConversationPrompt ''how are you'' \<and>
   wsFastPaths newUser (\<lambda>p. Some ()) (\<lambda>p r. ''(math)'') (\<lambda>name p. Some ''(solved)'')
     (\<lambda>p. ''(instant)'') (Some ''I am fine.'') ''how are you'' None
     [\<lparr>role = ''user'', content = ''tell me about rivers''\<rparr>]
   = \<lparr>lmCalls = 1, reply = Some (''I am fine.'', ''core-fast''),
      gatePrompt = ''Explain the previous answer clearly and stay on that topic. how are you Previous question: tell me about rivers'',
      summaryCalls = 0\<rparr> \<and>
   isTrivialMessage ''thanks'' \<and>
   wsFastPaths thanksUser (\<lambda>p. Some ()) (\<lambda>p r. ''(math)'') (\<lambda>name p. Some ''(solved)'')
     (\<lambda>p. ''(instant)'') (Some ''I am fine.'') ''thanks'' None thanksHistory
   = \<lparr>lmCalls = 0, reply = Some (''(instant)'', ''tiny-sprinter''), gatePrompt = ''thanks'',
      summaryCalls = 1\<rparr>"
  by code_simp

lemma thanks_example:
  "wsFastPaths newUser (\<lambda>p. Some ()) (\<lambda>p r. ''(math)'') (\<lambda>name p. Some ''(solved)'')
     (\<lambda>p. ''(instant)'') (Some ''I am fine.'') '' thanks '' None []
   = \<lparr>lmCalls = 0, reply = Some (''(instant)'', ''tiny-sprinter''), gatePrompt = ''thanks'',
      summaryCalls = 0\<rparr> \<and>
   trim '' thanks '' = ''thanks'' \<and> isTrivialMessage ''thanks'' \<and>
   \<not> isVagueFollowup ''thanks'' \<and> \<not> nonBlank None \<and>
   snd (normalizeUserPrompt ''thanks'') = False \<and> storedMessages newUser < 6"
  by code_simp

theorem instant_prompt_at_gate_answered_locally_witness:
  "(trim '' thanks '' \<noteq> [] \<and>
    isTrivialMessage
      (gatePrompt (wsFastPaths newUser (\<lambda>p. Some ()) (\<lambda>p r. ''(math)'')
         (\<lambda>name p. Some ''(solved)'') (\<lambda>p. ''(instant)'') (Some ''I am fine.'') '' thanks ''
         None []))) \<and>
   lmCalls (wsFastPaths newUser (\<lambda>p. Some ()) (\<lambda>p r. ''(math)'') (\<lambda>name p. Some ''(solved)'')
         (\<lambda>p. ''(instant)'') (Some ''I am fine.'') '' thanks '' None []) = 0 \<and>
   storedMessages newUser < 6 \<and>
   summaryCalls (wsFastPaths newUser (\<lambda>p. Some ()) (\<lambda>p r. ''(math)'')
         (\<lambda>name p. Some ''(solved)'') (\<lambda>p. ''(instant)'') (Some ''I am fine.'') '' thanks ''
         None []) = 0 \<and>
   (\<not> (isVagueFollowup (trim '' thanks '') \<and> ([] :: chatMessage list) \<noteq> []) \<and>
    \<not> nonBlank None \<and> snd (normalizeUserPrompt (trim '' thanks '')) = False) \<and>
   gatePrompt (wsFastPaths newUser (\<lambda>p. Some ()) (\<lambda>p r. ''(math)'') (\<lambda>name p. Some ''(solved)'')
         (\<lambda>p. ''(instant)'') (Some ''I am fine.'') '' thanks '' None []) = trim '' thanks ''"
  using instant_prompt_at_gate_answered_locally[where conv=newUser and solveBody="\<lambda>p. Some ()"
      and mathText="\<lambda>p r. ''(math)''" and solverBody="\<lambda>name p. Some ''(solved)''"
      and instantText="\<lambda>p. ''(instant)''" and fastAnswer="Some ''I am fine.''"
      and prompt="'' thanks ''" and userPrompt=None and history="[]"]
    thanks_example
  by simp
section \<open>Properties of the arithmetic evaluator\<close>

subsection \<open>Rounding of integers\<close>

lemma binaryDigits_nonneg: "0 \<le> binaryDigits n"
  by (induction n rule: binaryDigits.induct) (subst binaryDigits.simps, simp)

lemma binaryDigits_pos: "0 < n \<Longrightarrow> 1 \<le> binaryDigits n"
  using binaryDigits_nonneg[of "n div 2"] by (subst binaryDigits.simps) simp

lemma binaryDigits_le: "n < 2 ^ k \<Longrightarrow> binaryDigits n \<le> int k"
proof (induction k arbitrary: n)
  case 0
  then show ?case by (subst binaryDigits.simps) simp
next
  case (Suc k)
  have "n div 2 < 2 ^ k" using Suc.prems by simp
  from Suc.IH[OF this] show ?case by (subst binaryDigits.simps) simp
qed

lemma roundHalfEven_of_int: "roundHalfEven (of_int k) = k"
  by (simp add: roundHalfEven_def)

lemma overflow_threshold: "(2::rat) ^ 53 \<le> pow2 1024 - pow2 970"
  by (simp add: pow2_def)

lemma round64_of_int:
  assumes "\<bar>n\<bar> < 2 ^ 53"
  shows "round64 (of_int n) = Fin (of_int n)"
proof (cases "n = 0")
  case True
  then show ?thesis by (simp add: round64_def)
next
  case False
  define m where "m = \<bar>n\<bar>"
  define d where "d = binaryDigits m"
  define j where "j = nat (53 - d)"
  have m: "0 < m" "m < 2 ^ 53" using False assms by (simp_all add: m_def)
  have d: "1 \<le> d" "d \<le> 53"
    using binaryDigits_pos[OF m(1)] binaryDigits_le[OF m(2)] by (simp_all add: d_def)
  have a: "\<bar>of_int n :: rat\<bar> = of_int m" by (simp add: m_def)
  have a1: "(1::rat) \<le> of_int m" using m(1) by simp
  have fl: "floorLog2 (of_int m) = d - 1" using a1 by (simp add: floorLog2_def d_def)
  have q: "pow2 (max (d - 1) (- 1022) - 52) = 1 / 2 ^ j"
    using d by (simp add: pow2_def j_def max_def)
  have lt: "\<not> pow2 1024 - pow2 970 \<le> (of_int m :: rat)"
  proof -
    have "(of_int m :: rat) < of_int (2 ^ 53)" using m(2) by (simp only: of_int_less_iff)
    then show ?thesis using overflow_threshold by simp
  qed
  have quot: "(of_int m :: rat) / (1 / 2 ^ j) = of_int (m * 2 ^ j)" by simp
  have r: "of_int (roundHalfEven (of_int m / (1 / 2 ^ j))) * (1 / 2 ^ j) = (of_int m :: rat)"
    by (simp only: quot roundHalfEven_of_int) simp
  have nz: "(of_int m :: rat) \<noteq> 0" using m(1) by simp
  have sgn: "(if (of_int n :: rat) < 0 then - of_int m else of_int m) = (of_int n :: rat)"
    by (simp add: m_def)
  show ?thesis
    unfolding round64_def Let_def a fl q r using nz lt sgn by simp
qed

lemma round64_numeral [simp]:
  "(numeral k :: int) < 2 ^ 53 \<Longrightarrow> round64 (numeral k) = Fin (numeral k)"
  "(numeral k :: int) < 2 ^ 53 \<Longrightarrow> round64 (- numeral k) = Fin (- numeral k)"
  "round64 0 = Fin 0" "round64 1 = Fin 1"
  using round64_of_int[of "numeral k"] round64_of_int[of "- numeral k"]
    round64_of_int[of 0] round64_of_int[of 1]
  by simp_all

lemma round64_overflow:
  "pow2 1024 - pow2 970 \<le> x \<Longrightarrow> round64 x = PInf"
proof -
  assume h: "pow2 1024 - pow2 970 \<le> x"
  have "(0::rat) < pow2 1024 - pow2 970" by (simp add: pow2_def)
  then have "0 < x" using h by simp
  then show ?thesis using h by (simp add: round64_def)
qed

subsection \<open>The unary minus\<close>

lemma isNumChar_simps:
  "isNumChar c \<Longrightarrow> c \<noteq> CHR ''-''" "isNumChar c \<Longrightarrow> c \<noteq> CHR ''(''"
  "isNumChar c \<Longrightarrow> \<not> isSpace c" "isNumChar c \<Longrightarrow> isExpressionChar c"
  by (auto simp: isNumChar_def isDigit_def isSpace_def isExpressionChar_def)

lemma opChar_simps:
  "\<not> isNumChar (addChar a)" "\<not> isNumChar (mulChar m)"
  "addChar a \<noteq> CHR ''(''" "mulChar m \<noteq> CHR ''(''"
  "addChar a \<in> set ''+-*/()''" "mulChar m \<in> set ''+-*/()''"
  "\<not> isSpace (addChar a)" "\<not> isSpace (mulChar m)"
  "isExpressionChar (addChar a)" "isExpressionChar (mulChar m)"
  by (cases a; cases m; simp add: addChar_def mulChar_def isNumChar_def isDigit_def isSpace_def
      isExpressionChar_def)+

lemma paren_simps:
  "\<not> isSpace CHR ''(''" "\<not> isSpace CHR '')''" "\<not> isSpace CHR ''0''" "\<not> isSpace CHR ''-''"
  "isExpressionChar CHR ''(''" "isExpressionChar CHR '')''" "isExpressionChar CHR ''-''"
  by (simp_all add: isSpace_def isExpressionChar_def)

lemma render_head:
  "wfFactor f \<Longrightarrow> renderFactor f \<noteq> [] \<and> hd (renderFactor f) \<noteq> CHR ''-''"
  "wfTerm t \<Longrightarrow> renderTerm t \<noteq> [] \<and> hd (renderTerm t) \<noteq> CHR ''-''"
  "wfExpr e \<Longrightarrow> renderExpr e \<noteq> []"
proof (induction f and t and e)
  case (Literal s)
  then show ?case by (cases s) (auto simp: validLiteral_def isNumChar_simps)
qed auto

lemma replaceOpenMinus_cons:
  "c \<noteq> CHR ''('' \<Longrightarrow> replaceOpenMinus (c # xs) = c # replaceOpenMinus xs"
  by (cases xs) simp_all

lemma replaceOpenMinus_open:
  "xs = [] \<or> hd xs \<noteq> CHR ''-'' \<Longrightarrow> replaceOpenMinus (CHR ''('' # xs) = CHR ''('' # replaceOpenMinus xs"
  by (cases xs) auto

lemma replaceOpenMinus_open_minus:
  "replaceOpenMinus (CHR ''('' # CHR ''-'' # xs) = ''(0-'' @ replaceOpenMinus xs"
  by simp

lemma replaceOpenMinus_literal:
  "CHR ''('' \<notin> set s \<Longrightarrow> replaceOpenMinus (s @ rest) = s @ replaceOpenMinus rest"
proof (induction s)
  case Nil
  then show ?case by simp
next
  case (Cons a s)
  then have "a \<noteq> CHR ''(''" by auto
  from replaceOpenMinus_cons[OF this, of "s @ rest"] Cons show ?case by simp
qed

lemma literal_no_paren: "validLiteral s \<Longrightarrow> CHR ''('' \<notin> set s"
proof
  assume v: "validLiteral s" and m: "CHR ''('' \<in> set s"
  then have "isNumChar CHR ''(''" by (simp add: validLiteral_def list_all_iff)
  then show False by (simp add: isNumChar_def isDigit_def)
qed

lemma replaceOpenMinus_render:
  "wfFactor f \<Longrightarrow> replaceOpenMinus (renderFactor f @ rest) = normFactor f @ replaceOpenMinus rest"
  "wfTerm t \<Longrightarrow> replaceOpenMinus (renderTerm t @ rest) = normTerm t @ replaceOpenMinus rest"
  "wfExpr e \<Longrightarrow> replaceOpenMinus (CHR ''('' # renderExpr e @ rest) =
     CHR ''('' # normExpr e @ replaceOpenMinus rest"
proof (induction f and t and e arbitrary: rest and rest and rest)
  case (Literal s)
  then show ?case using literal_no_paren[of s] by (simp add: replaceOpenMinus_literal)
next
  case (Parens e)
  have "replaceOpenMinus (CHR '')'' # rest) = CHR '')'' # replaceOpenMinus rest"
    by (rule replaceOpenMinus_cons) simp
  then show ?case using Parens.IH[of "CHR '')'' # rest"] Parens.prems by simp
next
  case (Factor f)
  then show ?case by simp
next
  case (MulDiv t op f)
  have "replaceOpenMinus (mulChar op # renderFactor f @ rest) =
      mulChar op # replaceOpenMinus (renderFactor f @ rest)"
    by (rule replaceOpenMinus_cons) (rule opChar_simps)
  then show ?case
    using MulDiv.IH(1)[of "mulChar op # renderFactor f @ rest"] MulDiv.IH(2)[of rest] MulDiv.prems
    by simp
next
  case (Term t)
  then have "renderTerm t @ rest = [] \<or> hd (renderTerm t @ rest) \<noteq> CHR ''-''"
    using render_head(2)[of t] by simp
  from replaceOpenMinus_open[OF this] Term.IH[of rest] Term.prems show ?case by simp
next
  case (Negated t)
  have "replaceOpenMinus (CHR ''('' # CHR ''-'' # renderTerm t @ rest) =
      ''(0-'' @ replaceOpenMinus (renderTerm t @ rest)"
    by (rule replaceOpenMinus_open_minus)
  then show ?case using Negated.IH[of rest] Negated.prems by simp
next
  case (AddSub e op t)
  have "replaceOpenMinus (addChar op # renderTerm t @ rest) =
      addChar op # replaceOpenMinus (renderTerm t @ rest)"
    by (rule replaceOpenMinus_cons) (rule opChar_simps)
  then show ?case
    using AddSub.IH(1)[of "addChar op # renderTerm t @ rest"] AddSub.IH(2)[of rest] AddSub.prems
    by simp
qed

lemma normalize_render:
  assumes "wfExpr e"
  shows "replaceOpenMinus (if startsWith (renderExpr e) ''-'' then CHR ''0'' # renderExpr e
                           else renderExpr e) = normExpr e"
proof -
  have *: "replaceOpenMinus (if startsWith r ''-'' then CHR ''0'' # r else r) =
        tl (replaceOpenMinus (CHR ''('' # r))" for r
  proof (cases r)
    case Nil
    then show ?thesis by simp
  next
    case (Cons c cs)
    then show ?thesis by (cases cs) auto
  qed
  show ?thesis
    using replaceOpenMinus_render(3)[OF assms, of "[]"] by (simp only: *) simp
qed

subsection \<open>Tokens\<close>

lemma tokenizeChars_op:
  "tokenizeChars (addChar a # xs) = map_option ((#) [addChar a]) (tokenizeChars xs)"
  "tokenizeChars (mulChar m # xs) = map_option ((#) [mulChar m]) (tokenizeChars xs)"
  "tokenizeChars (CHR ''('' # xs) = map_option ((#) ''('') (tokenizeChars xs)"
  "tokenizeChars (CHR '')'' # xs) = map_option ((#) '')'') (tokenizeChars xs)"
  "tokenizeChars (CHR ''-'' # xs) = map_option ((#) ''-'') (tokenizeChars xs)"
  by (cases a; cases m; simp add: addChar_def mulChar_def isNumChar_def isDigit_def)+

lemma tokenizeChars_literal:
  assumes "s \<noteq> []" "list_all isNumChar s" "rest = [] \<or> \<not> isNumChar (hd rest)"
  shows "tokenizeChars (s @ rest) = map_option ((#) s) (tokenizeChars rest)"
proof -
  obtain c cs where s: "s = c # cs" using assms(1) by (cases s) auto
  have all: "\<forall>x\<in>set cs. isNumChar x" using assms(2) s by (simp add: list_all_iff)
  have tw: "takeWhile isNumChar (cs @ rest) = cs"
    using all assms(3) by (cases rest) simp_all
  have dw: "dropWhile isNumChar (cs @ rest) = rest"
    using all assms(3) by (cases rest) simp_all
  show ?thesis using assms(2) s tw dw by simp
qed

lemma not_num_head:
  "\<not> isNumChar (hd (addChar a # xs))" "\<not> isNumChar (hd (mulChar m # xs))"
  "\<not> isNumChar (hd (CHR '')'' # xs))" "\<not> isNumChar (hd (CHR ''-'' # xs))"
  using opChar_simps(1)[of a] opChar_simps(2)[of m] by (simp_all add: isNumChar_def isDigit_def)

lemma tokenizeChars_norm:
  "wfFactor f \<Longrightarrow> rest = [] \<or> \<not> isNumChar (hd rest) \<Longrightarrow>
     tokenizeChars (normFactor f @ rest) = map_option ((@) (factorTokens f)) (tokenizeChars rest)"
  "wfTerm t \<Longrightarrow> rest = [] \<or> \<not> isNumChar (hd rest) \<Longrightarrow>
     tokenizeChars (normTerm t @ rest) = map_option ((@) (termTokens t)) (tokenizeChars rest)"
  "wfExpr e \<Longrightarrow> rest = [] \<or> \<not> isNumChar (hd rest) \<Longrightarrow>
     tokenizeChars (normExpr e @ rest) = map_option ((@) (exprTokens e)) (tokenizeChars rest)"
proof (induction f and t and e arbitrary: rest and rest and rest)
  case (Literal s)
  then have "tokenizeChars (s @ rest) = map_option ((#) s) (tokenizeChars rest)"
    by (intro tokenizeChars_literal) (simp_all add: validLiteral_def)
  then show ?case by (cases "tokenizeChars rest") simp_all
next
  case (Parens e)
  have "tokenizeChars (normExpr e @ CHR '')'' # rest) =
      map_option ((@) (exprTokens e)) (tokenizeChars (CHR '')'' # rest))"
    using Parens.prems not_num_head(3) by (intro Parens.IH) simp_all
  then show ?case
    by (cases "tokenizeChars rest") (simp_all add: tokenizeChars_op del: tokenizeChars.simps)
next
  case (Factor f)
  then show ?case by simp
next
  case (MulDiv t op f)
  have 1: "tokenizeChars (normTerm t @ mulChar op # normFactor f @ rest) =
      map_option ((@) (termTokens t)) (tokenizeChars (mulChar op # normFactor f @ rest))"
    using MulDiv.prems not_num_head(2) by (intro MulDiv.IH(1)) simp_all
  have 2: "tokenizeChars (normFactor f @ rest) =
      map_option ((@) (factorTokens f)) (tokenizeChars rest)"
    using MulDiv.prems by (intro MulDiv.IH(2)) simp_all
  show ?case
    by (cases "tokenizeChars rest") (simp_all add: 1 2 tokenizeChars_op del: tokenizeChars.simps)
next
  case (Term t)
  then show ?case by simp
next
  case (Negated t)
  have 1: "tokenizeChars (CHR ''0'' # CHR ''-'' # normTerm t @ rest) =
      map_option ((#) ''0'') (tokenizeChars (CHR ''-'' # normTerm t @ rest))"
    using tokenizeChars_literal[of "''0''" "CHR ''-'' # normTerm t @ rest"]
    by (simp add: isNumChar_def isDigit_def del: tokenizeChars.simps)
  have 2: "tokenizeChars (normTerm t @ rest) =
      map_option ((@) (termTokens t)) (tokenizeChars rest)"
    using Negated.prems by (intro Negated.IH) simp_all
  show ?case
    by (cases "tokenizeChars rest") (simp_all add: 1 2 tokenizeChars_op del: tokenizeChars.simps)
next
  case (AddSub e op t)
  have 1: "tokenizeChars (normExpr e @ addChar op # normTerm t @ rest) =
      map_option ((@) (exprTokens e)) (tokenizeChars (addChar op # normTerm t @ rest))"
    using AddSub.prems not_num_head(1) by (intro AddSub.IH(1)) simp_all
  have 2: "tokenizeChars (normTerm t @ rest) =
      map_option ((@) (termTokens t)) (tokenizeChars rest)"
    using AddSub.prems by (intro AddSub.IH(2)) simp_all
  show ?case
    by (cases "tokenizeChars rest") (simp_all add: 1 2 tokenizeChars_op del: tokenizeChars.simps)
qed

lemma norm_chars:
  "wfFactor f \<Longrightarrow> \<forall>c\<in>set (normFactor f). \<not> isSpace c"
  "wfTerm t \<Longrightarrow> \<forall>c\<in>set (normTerm t). \<not> isSpace c"
  "wfExpr e \<Longrightarrow> \<forall>c\<in>set (normExpr e). \<not> isSpace c"
  by (induction f and t and e)
    (auto simp: validLiteral_def list_all_iff opChar_simps paren_simps dest: isNumChar_simps(3))

lemma render_chars:
  "wfFactor f \<Longrightarrow> \<forall>c\<in>set (renderFactor f). isExpressionChar c"
  "wfTerm t \<Longrightarrow> \<forall>c\<in>set (renderTerm t). isExpressionChar c"
  "wfExpr e \<Longrightarrow> \<forall>c\<in>set (renderExpr e). isExpressionChar c"
  by (induction f and t and e)
    (auto simp: validLiteral_def list_all_iff opChar_simps paren_simps intro: isNumChar_simps(4))

lemma tokenize_norm:
  assumes "wfExpr e"
  shows "tokenizeExpression (normExpr e) = Some (exprTokens e)"
proof -
  have "stripSpaces (normExpr e) = normExpr e"
    using norm_chars(3)[OF assms] by (simp add: stripSpaces_def)
  then show ?thesis
    using tokenizeChars_norm(3)[OF assms, of "[]"] by (simp add: tokenizeExpression_def)
qed

subsection \<open>The operator stack\<close>

lemma round64_not_NaN: "round64 x \<noteq> NaN"
  by (simp add: round64_def Let_def)

lemma literal_number: "validLiteral s \<Longrightarrow> \<not> jsIsNaN (toNumber s)"
  by (auto simp: validLiteral_def toNumber_def jsIsNaN_def round64_not_NaN)

lemma zero_number: "toNumber ''0'' = Fin 0"
  by (simp add: toNumber_def parseDecimal_def digitsValue_def digitValue_def isDigit_def)

lemma operator_number:
  "jsIsNaN (toNumber [addChar a])" "jsIsNaN (toNumber [mulChar m])"
  "jsIsNaN (toNumber ''('')" "jsIsNaN (toNumber '')'')" "jsIsNaN (toNumber ''-'')"
  by (cases a; cases m;
      simp add: addChar_def mulChar_def toNumber_def parseDecimal_def isDigit_def jsIsNaN_def)+

lemma operator_token:
  "isOperatorToken [addChar a]" "isOperatorToken [mulChar m]"
  "[addChar a] \<noteq> ''(''" "[addChar a] \<noteq> '')''" "[mulChar m] \<noteq> ''(''" "[mulChar m] \<noteq> '')''"
  "isOpToken [addChar a]" "isOpToken [mulChar m]" "isMulToken [mulChar m]"
  "\<not> isMulToken [addChar a]" "\<not> isOpToken ''(''" "\<not> isMulToken ''(''"
  by (cases a; cases m;
      simp add: addChar_def mulChar_def isOperatorToken_def isOpToken_def isMulToken_def)+

lemma precOf_op: "precOf [mulChar m] = Some 2" "precOf [addChar a] = Some 1"
  by (cases m; cases a; simp add: precOf_def mulChar_def addChar_def)+

lemma isOperatorToken_op:
  "isOperatorToken ''+''" "isOperatorToken ''-''" "isOperatorToken ''*''" "isOperatorToken ''/''"
  by (simp_all add: isOperatorToken_def)

lemma popsBefore_mul: "popsBefore [mulChar m] = isMulToken"
proof
  fix t
  show "popsBefore [mulChar m] t = isMulToken t"
  proof (cases "isMulToken t")
    case True
    then have "t = ''*'' \<or> t = ''/''" by (simp add: isMulToken_def)
    then have "isOperatorToken t \<and> precOf t = Some 2"
      using isOperatorToken_op by (elim disjE) (simp_all add: precOf_def)
    then show ?thesis using True by (simp add: popsBefore_def precOf_op)
  next
    case False
    then have "precOf t = Some 1 \<or> precOf t = None"
      by (simp add: precOf_def isMulToken_def)
    then show ?thesis using False by (elim disjE) (simp_all add: popsBefore_def precOf_op)
  qed
qed

lemma popsBefore_add: "popsBefore [addChar a] = isOpToken"
proof
  fix t
  show "popsBefore [addChar a] t = isOpToken t"
  proof (cases "isOpToken t")
    case True
    then have "t = ''+'' \<or> t = ''-'' \<or> t = ''*'' \<or> t = ''/''" by (simp add: isOpToken_def)
    then have "isOperatorToken t \<and> (precOf t = Some 1 \<or> precOf t = Some 2)"
      using isOperatorToken_op by (elim disjE) (simp_all add: precOf_def)
    then show ?thesis using True by (auto simp: popsBefore_def precOf_op)
  next
    case False
    then have "precOf t = None"
      by (simp add: precOf_def isOpToken_def)
    then show ?thesis using False by (simp add: popsBefore_def precOf_op)
  qed
qed

lemma isMul_isOp: "isMulToken t \<Longrightarrow> isOpToken t"
  by (auto simp: isMulToken_def isOpToken_def)

lemma takeWhile_all:
  "list_all P ops \<Longrightarrow> st = [] \<or> \<not> P (hd st) \<Longrightarrow> takeWhile P (ops @ st) = ops"
  by (cases st) (simp_all add: list_all_iff)

lemma dropWhile_all:
  "list_all P ops \<Longrightarrow> st = [] \<or> \<not> P (hd st) \<Longrightarrow> dropWhile P (ops @ st) = st"
  by (cases st) (simp_all add: list_all_iff)

lemma rpn_literal:
  "validLiteral s \<Longrightarrow> rpnLoop out st (s # rest) = rpnLoop (out @ [s]) st rest"
  by (simp add: literal_number)

lemma rpn_zero: "rpnLoop out st (''0'' # rest) = rpnLoop (out @ [''0'']) st rest"
  by (simp add: zero_number jsIsNaN_def)

lemma rpn_open: "rpnLoop out st (''('' # rest) = rpnLoop out (''('' # st) rest"
  using operator_number(3) by simp

lemma isOpToken_not_paren: "isOpToken t \<Longrightarrow> t \<noteq> ''('' \<and> t \<noteq> '')''"
  unfolding isOpToken_def by (elim disjE) simp_all

lemma isOpToken_minus: "isOpToken ''-''" "\<not> isMulToken ''-''"
  by (simp_all add: isOpToken_def isMulToken_def)

lemma rpn_close:
  assumes "list_all isOpToken ops"
  shows "rpnLoop out (ops @ ''('' # st) ('')'' # rest) = rpnLoop (out @ ops) st rest"
proof -
  have all: "list_all (\<lambda>t. t \<noteq> ''('') ops"
    using assms isOpToken_not_paren by (simp add: list_all_iff)
  have tw: "takeWhile (\<lambda>t. t \<noteq> ''('') (ops @ ''('' # st) = ops"
    using takeWhile_all[OF all, of "''('' # st"] by simp
  have dw: "dropWhile (\<lambda>t. t \<noteq> ''('') (ops @ ''('' # st) = ''('' # st"
    using dropWhile_all[OF all, of "''('' # st"] by simp
  show ?thesis using operator_number(4) by (simp add: tw dw)
qed

lemma rpn_mul:
  assumes "list_all isMulToken ops" "st = [] \<or> \<not> isMulToken (hd st)"
  shows "rpnLoop out (ops @ st) ([mulChar m] # rest) = rpnLoop (out @ ops) ([mulChar m] # st) rest"
  using operator_number(2)[of m] operator_token(2,5,6)[of m]
  by (simp add: popsBefore_mul takeWhile_all[OF assms] dropWhile_all[OF assms])

lemma rpn_add:
  assumes "list_all isOpToken ops" "st = [] \<or> \<not> isOpToken (hd st)"
  shows "rpnLoop out (ops @ st) ([addChar a] # rest) = rpnLoop (out @ ops) ([addChar a] # st) rest"
  using operator_number(1)[of a] operator_token(1,3,4)[of a]
  by (simp add: popsBefore_add takeWhile_all[OF assms] dropWhile_all[OF assms])

lemma rpn_end:
  assumes "list_all isOpToken ops"
  shows "rpnLoop out ops [] = Some (out @ ops)"
proof -
  have "\<not> list_ex (\<lambda>op. op = ''('' \<or> op = '')'') ops"
    using assms isOpToken_not_paren by (auto simp: list_all_iff list_ex_iff)
  then show ?thesis by simp
qed

lemma rpnLoop_tokens:
  "wfFactor f \<Longrightarrow>
     rpnLoop out st (factorTokens f @ rest) = rpnLoop (out @ factorPostfix f) st rest"
  "wfTerm t \<Longrightarrow> st = [] \<or> \<not> isMulToken (hd st) \<Longrightarrow>
     \<exists>out' ops. list_all isMulToken ops \<and> out' @ ops = out @ termPostfix t \<and>
       (\<forall>rest. rpnLoop out st (termTokens t @ rest) = rpnLoop out' (ops @ st) rest)"
  "wfExpr e \<Longrightarrow> st = [] \<or> \<not> isOpToken (hd st) \<Longrightarrow>
     \<exists>out' ops. list_all isOpToken ops \<and> out' @ ops = out @ exprPostfix e \<and>
       (\<forall>rest. rpnLoop out st (exprTokens e @ rest) = rpnLoop out' (ops @ st) rest)"
proof (induction f and t and e arbitrary: out st rest and out st and out st)
  case (Literal s)
  then show ?case by (simp add: rpn_literal del: rpnLoop.simps)
next
  case (Parens e)
  have "wfExpr e" using Parens.prems by simp
  from Parens.IH[OF this, of "''('' # st" out] obtain out' ops where
    ops: "list_all isOpToken ops" and out': "out' @ ops = out @ exprPostfix e" and
    run: "\<And>rest. rpnLoop out (''('' # st) (exprTokens e @ rest) = rpnLoop out' (ops @ ''('' # st) rest"
    using operator_token(11) by auto
  have "rpnLoop out st (factorTokens (Parens e) @ rest) =
      rpnLoop out (''('' # st) (exprTokens e @ '')'' # rest)"
    by (simp add: rpn_open del: rpnLoop.simps)
  also have "\<dots> = rpnLoop out' (ops @ ''('' # st) ('')'' # rest)" by (rule run)
  also have "\<dots> = rpnLoop (out' @ ops) st rest" by (rule rpn_close[OF ops])
  finally show ?case by (simp add: out')
next
  case (Factor f)
  have "\<forall>rest. rpnLoop out st (termTokens (Factor f) @ rest) =
      rpnLoop (out @ factorPostfix f) ([] @ st) rest"
    using Factor.IH[of out st] Factor.prems by simp
  then show ?case by (intro exI[of _ "out @ factorPostfix f"] exI[of _ "[]"]) simp
next
  case (MulDiv t op f)
  have wf: "wfTerm t" "wfFactor f" using MulDiv.prems by simp_all
  from MulDiv.IH(1)[OF wf(1) MulDiv.prems(2), of out] obtain out1 ops1 where
    ops1: "list_all isMulToken ops1" and out1: "out1 @ ops1 = out @ termPostfix t" and
    run: "\<And>rest. rpnLoop out st (termTokens t @ rest) = rpnLoop out1 (ops1 @ st) rest"
    by auto
  have "rpnLoop out st (termTokens (MulDiv t op f) @ rest) =
      rpnLoop (out @ termPostfix t @ factorPostfix f) ([[mulChar op]] @ st) rest" for rest
  proof -
    have "rpnLoop out st (termTokens (MulDiv t op f) @ rest) =
        rpnLoop out1 (ops1 @ st) ([mulChar op] # factorTokens f @ rest)"
      using run[of "[mulChar op] # factorTokens f @ rest"] by simp
    also have "\<dots> = rpnLoop (out1 @ ops1) ([mulChar op] # st) (factorTokens f @ rest)"
      by (rule rpn_mul[OF ops1 MulDiv.prems(2)])
    also have "\<dots> = rpnLoop ((out1 @ ops1) @ factorPostfix f) ([mulChar op] # st) rest"
      by (rule MulDiv.IH(2)[OF wf(2)])
    finally show ?thesis by (simp add: out1)
  qed
  then show ?case
    by (intro exI[of _ "out @ termPostfix t @ factorPostfix f"] exI[of _ "[[mulChar op]]"])
      (simp add: operator_token)
next
  case (Term t)
  have st: "st = [] \<or> \<not> isMulToken (hd st)" using Term.prems(2) isMul_isOp by blast
  have wf: "wfTerm t" using Term.prems by simp
  from Term.IH[OF wf st, of out] obtain out' ops where
    ops: "list_all isMulToken ops" and out': "out' @ ops = out @ termPostfix t" and
    run: "\<And>rest. rpnLoop out st (termTokens t @ rest) = rpnLoop out' (ops @ st) rest"
    by auto
  have "list_all isOpToken ops" using ops isMul_isOp by (auto simp: list_all_iff)
  then show ?case using out' run by (intro exI[of _ out'] exI[of _ ops]) simp
next
  case (Negated t)
  have wf: "wfTerm t" using Negated.prems by simp
  have st: "''-'' # st = [] \<or> \<not> isMulToken (hd (''-'' # st))" by (simp add: isOpToken_minus)
  from Negated.IH[OF wf st, of "out @ [''0'']"] obtain out1 ops1 where
    ops1: "list_all isMulToken ops1" and out1: "out1 @ ops1 = (out @ [''0'']) @ termPostfix t" and
    run: "\<And>rest. rpnLoop (out @ [''0'']) (''-'' # st) (termTokens t @ rest) =
        rpnLoop out1 (ops1 @ ''-'' # st) rest"
    by auto
  have "rpnLoop out st (exprTokens (Negated t) @ rest) =
      rpnLoop out1 ((ops1 @ [''-'']) @ st) rest" for rest
  proof -
    have "rpnLoop out st (exprTokens (Negated t) @ rest) =
        rpnLoop (out @ [''0'']) ([] @ st) ([addChar OpSub] # termTokens t @ rest)"
      by (simp add: rpn_zero addChar_def del: rpnLoop.simps)
    also have "\<dots> = rpnLoop ((out @ [''0'']) @ []) ([addChar OpSub] # st) (termTokens t @ rest)"
      by (rule rpn_add[OF _ Negated.prems(2)]) simp
    also have "\<dots> = rpnLoop out1 (ops1 @ ''-'' # st) rest"
      using run[of rest] by (simp add: addChar_def del: rpnLoop.simps)
    finally show ?thesis by simp
  qed
  moreover have "list_all isOpToken (ops1 @ [''-''])"
    using ops1 isMul_isOp by (auto simp: list_all_iff isOpToken_minus)
  moreover have "out1 @ ops1 @ [''-''] = out @ exprPostfix (Negated t)"
    using out1 by simp
  ultimately show ?case by (intro exI[of _ out1] exI[of _ "ops1 @ [''-'']"]) simp
next
  case (AddSub e op t)
  have wf: "wfExpr e" "wfTerm t" using AddSub.prems by simp_all
  from AddSub.IH(1)[OF wf(1) AddSub.prems(2), of out] obtain out1 ops1 where
    ops1: "list_all isOpToken ops1" and out1: "out1 @ ops1 = out @ exprPostfix e" and
    run1: "\<And>rest. rpnLoop out st (exprTokens e @ rest) = rpnLoop out1 (ops1 @ st) rest"
    by auto
  have st: "[addChar op] # st = [] \<or> \<not> isMulToken (hd ([addChar op] # st))"
    by (simp add: operator_token)
  from AddSub.IH(2)[OF wf(2) st, of "out1 @ ops1"] obtain out2 ops2 where
    ops2: "list_all isMulToken ops2" and out2: "out2 @ ops2 = (out1 @ ops1) @ termPostfix t" and
    run2: "\<And>rest. rpnLoop (out1 @ ops1) ([addChar op] # st) (termTokens t @ rest) =
        rpnLoop out2 (ops2 @ [addChar op] # st) rest"
    by auto
  have "rpnLoop out st (exprTokens (AddSub e op t) @ rest) =
      rpnLoop out2 ((ops2 @ [[addChar op]]) @ st) rest" for rest
  proof -
    have "rpnLoop out st (exprTokens (AddSub e op t) @ rest) =
        rpnLoop out1 (ops1 @ st) ([addChar op] # termTokens t @ rest)"
      using run1[of "[addChar op] # termTokens t @ rest"] by simp
    also have "\<dots> = rpnLoop (out1 @ ops1) ([addChar op] # st) (termTokens t @ rest)"
      by (rule rpn_add[OF ops1 AddSub.prems(2)])
    also have "\<dots> = rpnLoop out2 (ops2 @ [addChar op] # st) rest" by (rule run2)
    finally show ?thesis by simp
  qed
  moreover have "list_all isOpToken (ops2 @ [[addChar op]])"
    using ops2 isMul_isOp by (auto simp: list_all_iff operator_token)
  moreover have "out2 @ ops2 @ [[addChar op]] = out @ exprPostfix (AddSub e op t)"
    using out2 out1 by simp
  ultimately show ?case by (intro exI[of _ out2] exI[of _ "ops2 @ [[addChar op]]"]) simp
qed

lemma toRpn_tokens:
  assumes "wfExpr e"
  shows "toRpn (exprTokens e) = Some (exprPostfix e)"
proof -
  from rpnLoop_tokens(3)[OF assms, of "[]" "[]"] obtain out' ops where
    ops: "list_all isOpToken ops" and out': "out' @ ops = exprPostfix e" and
    run: "\<And>rest. rpnLoop [] [] (exprTokens e @ rest) = rpnLoop out' (ops @ []) rest"
    by auto
  show ?thesis
    using run[of "[]"] rpn_end[OF ops, of out'] out' by (simp add: toRpn_def)
qed

subsection \<open>Evaluation of the postfix form\<close>

lemma eval_literal:
  "validLiteral s \<Longrightarrow> evalLoop vs (s # rest) = evalLoop (toNumber s # vs) rest"
  by (simp add: literal_number)

lemma eval_zero: "evalLoop vs (''0'' # rest) = evalLoop (Fin 0 # vs) rest"
  by (simp add: zero_number jsIsNaN_def)

lemma eval_mul:
  "evalLoop (b # a # vs) ([mulChar m] # rest) =
     (case applyMul m a b of None \<Rightarrow> None | Some v \<Rightarrow> evalLoop (v # vs) rest)"
  using operator_number(2)[of m]
  by (cases m) (simp_all add: applyMul_def mulChar_def)

lemma eval_add:
  "evalLoop (b # a # vs) ([addChar m] # rest) =
     (case applyAdd m a b of None \<Rightarrow> None | Some v \<Rightarrow> evalLoop (v # vs) rest)"
  using operator_number(1)[of m]
  by (cases m) (simp_all add: applyAdd_def addChar_def)

lemma evalLoop_postfix:
  "wfFactor f \<Longrightarrow> evalLoop vs (factorPostfix f @ rest) =
     (case factorValue f of None \<Rightarrow> None | Some v \<Rightarrow> evalLoop (v # vs) rest)"
  "wfTerm t \<Longrightarrow> evalLoop vs (termPostfix t @ rest) =
     (case termValue t of None \<Rightarrow> None | Some v \<Rightarrow> evalLoop (v # vs) rest)"
  "wfExpr e \<Longrightarrow> evalLoop vs (exprPostfix e @ rest) =
     (case exprValue e of None \<Rightarrow> None | Some v \<Rightarrow> evalLoop (v # vs) rest)"
proof (induction f and t and e arbitrary: vs rest and vs rest and vs rest)
  case (Literal s)
  then show ?case by (simp add: eval_literal del: evalLoop.simps)
next
  case (Parens e)
  then show ?case by simp
next
  case (Factor f)
  then show ?case by simp
next
  case (MulDiv t op f)
  have wf: "wfTerm t" "wfFactor f" using MulDiv.prems by simp_all
  show ?case
    by (simp add: MulDiv.IH(1)[OF wf(1)] MulDiv.IH(2)[OF wf(2)] eval_mul
        del: evalLoop.simps split: option.split)
next
  case (Term t)
  then show ?case by simp
next
  case (Negated t)
  have wf: "wfTerm t" using Negated.prems by simp
  have "evalLoop (b # Fin 0 # vs) (''-'' # rest) =
      (case applyAdd OpSub (Fin 0) b of None \<Rightarrow> None | Some v \<Rightarrow> evalLoop (v # vs) rest)" for b
    using eval_add[of b "Fin 0" vs OpSub rest] by (simp add: addChar_def del: evalLoop.simps)
  then show ?case
    by (simp add: Negated.IH[OF wf] eval_zero del: evalLoop.simps split: option.split)
next
  case (AddSub e op t)
  have wf: "wfExpr e" "wfTerm t" using AddSub.prems by simp_all
  show ?case
    by (simp add: AddSub.IH(1)[OF wf(1)] AddSub.IH(2)[OF wf(2)] eval_add
        del: evalLoop.simps split: option.split)
qed

lemma evalRpn_postfix:
  assumes "wfExpr e"
  shows "evalRpn (exprPostfix e) = exprValue e"
  using evalLoop_postfix(3)[OF assms, of "[]" "[]"]
  by (simp add: evalRpn_def split: option.split)

subsection \<open>The evaluator on an expression\<close>

lemma filter_dropWhile: "filter (\<lambda>c. \<not> P c) (dropWhile P xs) = filter (\<lambda>c. \<not> P c) xs"
  by (induction xs) simp_all

lemma stripSpaces_trim: "stripSpaces (trim s) = stripSpaces s"
  by (simp add: stripSpaces_def trim_def filter_dropWhile flip: rev_filter)

lemma set_stripSpaces: "set (stripSpaces s) = {c \<in> set s. \<not> isSpace c}"
  by (auto simp: stripSpaces_def)

lemma space_is_expression_char: "isSpace c \<Longrightarrow> isExpressionChar c"
  by (simp add: isExpressionChar_def)

lemma safeEvaluateExpression_value:
  assumes wf: "wfExpr e" and s: "stripSpaces s = renderExpr e"
  shows "safeEvaluateExpression s = finiteOnly (exprValue e)"
proof -
  have strip: "stripSpaces (trim s) = renderExpr e" using s by (simp add: stripSpaces_trim)
  have ne: "trim s \<noteq> []"
  proof
    assume "trim s = []"
    then have "stripSpaces (trim s) = []" by (simp add: stripSpaces_def)
    then show False using strip render_head(3)[OF wf] by simp
  qed
  have chars: "list_all isExpressionChar (trim s)"
    unfolding list_all_iff
  proof
    fix c
    assume c: "c \<in> set (trim s)"
    show "isExpressionChar c"
    proof (cases "isSpace c")
      case True
      then show ?thesis by (rule space_is_expression_char)
    next
      case False
      then have "c \<in> set (stripSpaces (trim s))" using c by (simp add: set_stripSpaces)
      then show ?thesis using render_chars(3)[OF wf] strip by simp
    qed
  qed
  show ?thesis
    by (simp add: safeEvaluateExpression_def Let_def ne chars strip normalize_render[OF wf]
        tokenize_norm[OF wf] toRpn_tokens[OF wf] evalRpn_postfix[OF wf])
qed

lemma safeEvaluateExpression_rejects:
  assumes "c \<in> set s" "\<not> isExpressionChar c"
  shows "safeEvaluateExpression s = None"
proof -
  have "\<not> isSpace c" using assms(2) space_is_expression_char by blast
  then have "c \<in> set (stripSpaces (trim s))"
    using assms(1) by (simp add: stripSpaces_trim set_stripSpaces)
  then have "c \<in> set (trim s)" by (simp add: set_stripSpaces)
  then have "\<not> list_all isExpressionChar (trim s)" using assms(2) by (auto simp: list_all_iff)
  then show ?thesis by (simp add: safeEvaluateExpression_def Let_def)
qed

lemma safeEvaluateExpression_finite:
  "safeEvaluateExpression s = Some v \<Longrightarrow> jsIsFinite v"
  by (auto simp: safeEvaluateExpression_def Let_def finiteOnly_def
      split: if_splits option.splits)

lemma last_dropWhile: "dropWhile P xs \<noteq> [] \<Longrightarrow> last (dropWhile P xs) = last xs"
  by (induction xs) (auto split: if_splits)

lemma dropWhile_id: "xs = [] \<or> \<not> P (hd xs) \<Longrightarrow> dropWhile P xs = xs"
  by (cases xs) auto

lemma trim_idem: "trim (trim s) = trim s"
proof -
  define z where "z = dropWhile isSpace s"
  define w where "w = dropWhile isSpace (rev z)"
  have y: "trim s = rev w" by (simp add: trim_def w_def z_def)
  have "rev w = [] \<or> \<not> isSpace (hd (rev w))"
  proof (cases "w = []")
    case True
    then show ?thesis by simp
  next
    case False
    then have "last w = last (rev z)" unfolding w_def by (rule last_dropWhile)
    moreover have "z \<noteq> []" using False by (auto simp: w_def)
    ultimately have "hd (rev w) = hd z" using False by (simp add: hd_rev last_rev)
    moreover have "\<not> isSpace (hd z)" using \<open>z \<noteq> []\<close> unfolding z_def by (rule hd_dropWhile)
    ultimately show ?thesis by simp
  qed
  then have "dropWhile isSpace (rev w) = rev w" by (rule dropWhile_id)
  moreover have "dropWhile isSpace w = w" by (simp add: w_def)
  ultimately have "trim (rev w) = rev w" by (simp add: trim_def)
  then show ?thesis by (simp only: y)
qed

lemma safeEvaluateExpression_trim: "safeEvaluateExpression (trim s) = safeEvaluateExpression s"
  by (simp add: safeEvaluateExpression_def trim_idem)

lemma simpleArithmeticSolver_answer:
  "simpleArithmeticSolver s = map_option (Pair (stripSpaces s)) (safeEvaluateExpression s)"
proof (cases "trim s = [] \<or> \<not> list_all isExpressionChar (trim s)")
  case True
  then have "safeEvaluateExpression s = None"
    by (auto simp: safeEvaluateExpression_def Let_def)
  then show ?thesis using True by (auto simp: simpleArithmeticSolver_def Let_def)
next
  case False
  then show ?thesis
    by (simp add: simpleArithmeticSolver_def Let_def safeEvaluateExpression_trim stripSpaces_trim)
qed

lemma division_by_zero_value:
  "factorDividesByZero f \<Longrightarrow> factorValue f = None \<or> factorValue f = Some NaN"
  "termDividesByZero t \<Longrightarrow> termValue t = None \<or> termValue t = Some NaN"
  "exprDividesByZero e \<Longrightarrow> exprValue e = None \<or> exprValue e = Some NaN"
proof (induction f and t and e)
  case (MulDiv t op f)
  then show ?case
    by (auto simp: applyMul_def jsIsFinite_def split: option.splits)
next
  case (Negated t)
  then show ?case by (auto simp: applyAdd_def jsIsFinite_def split: option.splits)
next
  case (AddSub e op t)
  then show ?case by (auto simp: applyAdd_def jsIsFinite_def split: option.splits)
qed simp_all

lemma division_by_zero_none: "exprDividesByZero e \<Longrightarrow> finiteOnly (exprValue e) = None"
  using division_by_zero_value(3)[of e] by (auto simp: finiteOnly_def jsIsFinite_def)

lemma value_is_ieee:
  "factorValue f = Some v \<Longrightarrow> ieeeFactor f = v"
  "termValue t = Some v \<Longrightarrow> ieeeTerm t = v"
  "exprValue e = Some v \<Longrightarrow> ieeeExpr e = v"
proof (induction f and t and e arbitrary: v and v and v)
  case (MulDiv t op f)
  then show ?case
    by (cases op) (auto simp: applyMul_def split: option.splits if_splits)
next
  case (Negated t)
  then show ?case by (auto simp: applyAdd_def split: option.splits if_splits)
next
  case (AddSub e op t)
  then show ?case
    by (cases op) (auto simp: applyAdd_def split: option.splits if_splits)
qed simp_all

lemma answer_is_ieee:
  "finiteOnly (exprValue e) = None \<or> finiteOnly (exprValue e) = Some (ieeeExpr e)"
  using value_is_ieee(3)[of e] by (auto simp: finiteOnly_def split: option.splits)

subsection \<open>Examples\<close>

lemma small_literals:
  "validLiteral ''0''" "validLiteral ''1''" "validLiteral ''2''" "validLiteral ''3''"
  "validLiteral ''4''"
  by (simp_all add: validLiteral_def isNumChar_def isDigit_def parseDecimal_def)

lemma small_numbers:
  "toNumber ''1'' = Fin 1" "toNumber ''2'' = Fin 2" "toNumber ''3'' = Fin 3"
  "toNumber ''4'' = Fin 4"
  by (simp_all add: toNumber_def parseDecimal_def digitsValue_def digitValue_def isDigit_def)

lemma exampleExpr_facts:
  "wfExpr exampleExpr" "renderExpr exampleExpr = ''-2+3*(4-1)''"
  "stripSpaces ''-2 + 3*(4-1)'' = ''-2+3*(4-1)''"
  by (simp_all add: exampleExpr_def small_literals addChar_def mulChar_def stripSpaces_def
      isSpace_def)

lemma exampleExpr_value: "exprValue exampleExpr = Some (Fin 7)"
  by (simp add: exampleExpr_def small_numbers applyAdd_def applyMul_def jsIsFinite_def
      jsAdd_def jsSub_def jsMul_def jsNeg_def)

lemma zeroDivisionExpr_facts:
  "wfExpr zeroDivisionExpr" "renderExpr zeroDivisionExpr = ''1/0''"
  "exprDividesByZero zeroDivisionExpr"
  by (simp_all add: zeroDivisionExpr_def small_literals mulChar_def zero_number)

lemma foreign_char: "CHR ''x'' \<in> set ''2+x''" "\<not> isExpressionChar CHR ''x''"
  by (simp_all add: isExpressionChar_def isDigit_def isSpace_def)

lemma digitValue_one: "digitValue CHR ''1'' = 1"
  by (simp add: digitValue_def)

lemma zeros_value:
  "foldl (\<lambda>n c. 10 * n + int (digitValue c)) a (replicate k CHR ''0'') = a * 10 ^ k"
  by (induction k arbitrary: a) (simp_all add: digitValue_def)

lemma overflowLiteral_digits: "list_all isDigit overflowLiteral"
  by (simp add: overflowLiteral_def list_all_iff isDigit_def)

lemma overflowLiteral_parse: "parseDecimal overflowLiteral = Some (of_int (10 ^ 309))"
proof -
  have all: "\<forall>c\<in>set overflowLiteral. isDigit c"
    using overflowLiteral_digits by (simp add: list_all_iff)
  have tw: "takeWhile isDigit overflowLiteral = overflowLiteral"
    using all by (simp add: takeWhile_eq_all_conv)
  have dw: "dropWhile isDigit overflowLiteral = []"
    using all by simp
  have ne: "overflowLiteral \<noteq> []" by (simp add: overflowLiteral_def)
  have "digitsValue overflowLiteral = 10 ^ 309"
    by (simp add: digitsValue_def overflowLiteral_def zeros_value digitValue_one)
  then show ?thesis by (simp add: parseDecimal_def tw dw ne)
qed

lemma overflowLiteral_valid: "validLiteral overflowLiteral"
proof -
  have "list_all isNumChar overflowLiteral"
    using overflowLiteral_digits by (simp add: list_all_iff isNumChar_def)
  then show ?thesis
    by (simp add: validLiteral_def overflowLiteral_parse) (simp add: overflowLiteral_def)
qed

lemma overflowLiteral_number: "toNumber overflowLiteral = PInf"
proof -
  have "pow2 1024 - pow2 970 \<le> (of_int (10 ^ 309) :: rat)" by (simp add: pow2_def)
  then show ?thesis by (simp add: toNumber_def overflowLiteral_parse round64_overflow)
qed

lemma overflowExpr_facts:
  "wfExpr overflowExpr" "renderExpr overflowExpr = ''1/1'' @ replicate 309 CHR ''0''"
  "exprValue overflowExpr = None" "specEvaluate overflowExpr = Some (Fin 0)"
  by (simp_all add: overflowExpr_def small_literals overflowLiteral_valid mulChar_def
      overflowLiteral_number small_numbers applyMul_def jsIsFinite_def specEvaluate_def
      finiteOnly_def jsDiv_def)
    (simp add: overflowLiteral_def)

lemma stripSpaces_overflow:
  "stripSpaces (''1/1'' @ replicate 309 CHR ''0'') = ''1/1'' @ replicate 309 CHR ''0''"
  by (simp add: stripSpaces_def isSpace_def)

lemma malformed_tokens: "tokenizeExpression ''3(+4)'' = Some [''3'', ''('', ''+'', ''4'', '')'']"
  by (simp add: tokenizeExpression_def stripSpaces_def isSpace_def isNumChar_def isDigit_def)

lemma malformed_rpn: "toRpn [''3'', ''('', ''+'', ''4'', '')''] = Some [''3'', ''4'', ''+'']"
  using rpn_literal[OF small_literals(4)] rpn_literal[OF small_literals(5)]
    rpn_open rpn_close[of "[''+'']"] rpn_add[of "[]" "[''('']" _ OpAdd] rpn_end[of "[]"]
  by (simp add: toRpn_def addChar_def isOpToken_def del: rpnLoop.simps)

lemma malformed_eval: "evalRpn [''3'', ''4'', ''+''] = Some (Fin 7)"
  using eval_literal[OF small_literals(4)] eval_literal[OF small_literals(5)]
    eval_add[of _ _ _ OpAdd]
  by (simp add: evalRpn_def addChar_def small_numbers applyAdd_def jsIsFinite_def jsAdd_def
      del: evalLoop.simps(2))

lemma malformed_accepted: "safeEvaluateExpression ''3(+4)'' = Some (Fin 7)"
  by (simp add: safeEvaluateExpression_def trim_def isSpace_def isExpressionChar_def isDigit_def
      stripSpaces_def Let_def malformed_tokens[unfolded stripSpaces_def] malformed_rpn malformed_eval
      finiteOnly_def jsIsFinite_def)

lemma malformed_answered: "simpleArithmeticSolver ''3(+4)'' = Some (''3(+4)'', Fin 7)"
  by (simp add: simpleArithmeticSolver_answer malformed_accepted stripSpaces_def isSpace_def)

text \<open>
  Claim C1, as amended. Take any input that, white space removed, is the text of an
  expression: numbers, the four operators with the usual precedence, associating to the
  left, parentheses, and a minus sign at the start of the input or right after an
  opening parenthesis. \<open>safeEvaluateExpression\<close> returns the value of the expression,
  computed with the IEEE operations, when every operand met on the way is finite and
  the result is finite; it returns \<open>null\<close> as soon as an operator is given an operand
  that is not finite, or the result is not finite. Whatever it returns is the IEEE value
  of the expression. An expression that divides by a subexpression of value zero gives
  \<open>null\<close>. An input with a character outside the class gives \<open>null\<close>. And
  \<open>simpleArithmeticSolver\<close> answers exactly when \<open>safeEvaluateExpression\<close> returns a
  value, with that value, which is finite.
\<close>

theorem evaluator_returns_expression_value:
  "(wfExpr e \<and> stripSpaces s = renderExpr e \<longrightarrow>
      safeEvaluateExpression s = finiteOnly (exprValue e) \<and>
      (safeEvaluateExpression s = None \<or> safeEvaluateExpression s = Some (ieeeExpr e)) \<and>
      simpleArithmeticSolver s = map_option (Pair (renderExpr e)) (finiteOnly (exprValue e))) \<and>
   (wfExpr d \<and> stripSpaces sd = renderExpr d \<and> exprDividesByZero d \<longrightarrow>
      safeEvaluateExpression sd = None \<and> simpleArithmeticSolver sd = None) \<and>
   (c \<in> set t \<and> \<not> isExpressionChar c \<longrightarrow>
      safeEvaluateExpression t = None \<and> simpleArithmeticSolver t = None) \<and>
   (simpleArithmeticSolver u = Some (w, v) \<longrightarrow>
      safeEvaluateExpression u = Some v \<and> jsIsFinite v \<and> w = stripSpaces u)"
proof (intro conjI impI)
  assume h: "wfExpr e \<and> stripSpaces s = renderExpr e"
  then show v: "safeEvaluateExpression s = finiteOnly (exprValue e)"
    using safeEvaluateExpression_value[of e s] by simp
  show "safeEvaluateExpression s = None \<or> safeEvaluateExpression s = Some (ieeeExpr e)"
    using answer_is_ieee[of e] by (simp only: v)
  show "simpleArithmeticSolver s = map_option (Pair (renderExpr e)) (finiteOnly (exprValue e))"
    using h by (simp add: simpleArithmeticSolver_answer v)
next
  assume h: "wfExpr d \<and> stripSpaces sd = renderExpr d \<and> exprDividesByZero d"
  then show v: "safeEvaluateExpression sd = None"
    using safeEvaluateExpression_value[of d sd] division_by_zero_none[of d] by simp
  show "simpleArithmeticSolver sd = None" by (simp add: simpleArithmeticSolver_answer v)
next
  assume h: "c \<in> set t \<and> \<not> isExpressionChar c"
  then show v: "safeEvaluateExpression t = None"
    using safeEvaluateExpression_rejects[of c t] by simp
  show "simpleArithmeticSolver t = None" by (simp add: simpleArithmeticSolver_answer v)
next
  assume h: "simpleArithmeticSolver u = Some (w, v)"
  then show v: "safeEvaluateExpression u = Some v"
    by (auto simp: simpleArithmeticSolver_answer)
  show "jsIsFinite v" using v by (rule safeEvaluateExpression_finite)
  show "w = stripSpaces u" using h by (auto simp: simpleArithmeticSolver_answer)
qed

text \<open>
  Claim C1 as stated gives the IEEE value of the expression whenever that value is
  finite, for every string of the class. The evaluator refuses more: it returns \<open>null\<close>
  whenever an operand is not finite, also where the IEEE operation would give a finite
  result. The literal \<open>1\<close> followed by 309 zeros is read as \<open>Infinity\<close>, and \<open>1\<close> divided
  by it is \<open>0\<close> in IEEE arithmetic, but the evaluator returns \<open>null\<close>. And it accepts
  more: \<open>3(+4)\<close> is a string of the class and not the text of an expression, yet the
  operator stack turns it into \<open>3 4 +\<close> and the solver answers \<open>7\<close>.
\<close>

theorem overflowing_divisor_gives_no_answer:
  "wfExpr overflowExpr \<and>
   renderExpr overflowExpr = ''1/1'' @ replicate 309 CHR ''0'' \<and>
   specEvaluate overflowExpr = Some (Fin 0) \<and>
   safeEvaluateExpression (''1/1'' @ replicate 309 CHR ''0'') = None \<and>
   safeEvaluateExpression ''3(+4)'' = Some (Fin 7) \<and>
   simpleArithmeticSolver ''3(+4)'' = Some (''3(+4)'', Fin 7)"
proof -
  have "stripSpaces (''1/1'' @ replicate 309 CHR ''0'') = renderExpr overflowExpr"
    by (simp only: stripSpaces_overflow overflowExpr_facts(2))
  from safeEvaluateExpression_value[OF overflowExpr_facts(1) this]
  have "safeEvaluateExpression (''1/1'' @ replicate 309 CHR ''0'') = None"
    by (simp add: overflowExpr_facts(3) finiteOnly_def)
  then show ?thesis
    using overflowExpr_facts malformed_accepted malformed_answered by simp
qed

theorem evaluator_returns_expression_value_witness:
  "(wfExpr exampleExpr \<and> stripSpaces ''-2 + 3*(4-1)'' = renderExpr exampleExpr) \<and>
   safeEvaluateExpression ''-2 + 3*(4-1)'' = Some (Fin 7) \<and>
   ieeeExpr exampleExpr = Fin 7 \<and>
   simpleArithmeticSolver ''-2 + 3*(4-1)'' = Some (''-2+3*(4-1)'', Fin 7) \<and>
   (wfExpr zeroDivisionExpr \<and> stripSpaces ''1/0'' = renderExpr zeroDivisionExpr \<and>
    exprDividesByZero zeroDivisionExpr) \<and>
   safeEvaluateExpression ''1/0'' = None \<and> simpleArithmeticSolver ''1/0'' = None \<and>
   (CHR ''x'' \<in> set ''2+x'' \<and> \<not> isExpressionChar CHR ''x'') \<and>
   safeEvaluateExpression ''2+x'' = None \<and> simpleArithmeticSolver ''2+x'' = None \<and>
   jsIsFinite (Fin 7)"
proof -
  have h1: "wfExpr exampleExpr \<and> stripSpaces ''-2 + 3*(4-1)'' = renderExpr exampleExpr"
    by (simp only: exampleExpr_facts)
  have h2: "wfExpr zeroDivisionExpr \<and> stripSpaces ''1/0'' = renderExpr zeroDivisionExpr \<and>
      exprDividesByZero zeroDivisionExpr"
    by (simp add: zeroDivisionExpr_facts stripSpaces_def isSpace_def)
  have h3: "CHR ''x'' \<in> set ''2+x'' \<and> \<not> isExpressionChar CHR ''x''"
    using foreign_char by simp
  have v: "finiteOnly (exprValue exampleExpr) = Some (Fin 7)"
    by (simp add: exampleExpr_value finiteOnly_def jsIsFinite_def)
  note inst = evaluator_returns_expression_value[where e = exampleExpr
      and s = "''-2 + 3*(4-1)''" and d = zeroDivisionExpr and sd = "''1/0''"
      and c = "CHR ''x''" and t = "''2+x''" and u = "''-2 + 3*(4-1)''"
      and w = "''-2+3*(4-1)''" and v = "Fin 7"]
  have e1: "safeEvaluateExpression ''-2 + 3*(4-1)'' = finiteOnly (exprValue exampleExpr)"
    using inst h1 by blast
  have e2: "safeEvaluateExpression ''-2 + 3*(4-1)'' = None \<or>
      safeEvaluateExpression ''-2 + 3*(4-1)'' = Some (ieeeExpr exampleExpr)"
    using inst h1 by blast
  have e3: "simpleArithmeticSolver ''-2 + 3*(4-1)'' =
      map_option (Pair (renderExpr exampleExpr)) (finiteOnly (exprValue exampleExpr))"
    using inst h1 by blast
  have a1: "safeEvaluateExpression ''-2 + 3*(4-1)'' = Some (Fin 7)"
    by (simp only: e1 v)
  have a2: "ieeeExpr exampleExpr = Fin 7" using e2 by (simp only: a1) simp
  have a3: "simpleArithmeticSolver ''-2 + 3*(4-1)'' = Some (''-2+3*(4-1)'', Fin 7)"
    by (simp only: e3 v exampleExpr_facts(2) option.map)
  have a4: "safeEvaluateExpression ''1/0'' = None \<and> simpleArithmeticSolver ''1/0'' = None"
    using inst h2 by blast
  have a5: "safeEvaluateExpression ''2+x'' = None \<and> simpleArithmeticSolver ''2+x'' = None"
    using inst h3 by blast
  have a6: "jsIsFinite (Fin 7)" using inst a3 by blast
  show ?thesis using h1 h2 h3 a1 a2 a3 a4 a5 a6 by blast
qed
end
